(* ===== verification/Py_Prelude.thy ===== *)
theory Py_Prelude
  imports Complex_Main "HOL-Library.Char_ord" "HOL-Library.List_Lexorder"
    "HOL-Library.While_Combinator"
begin

text \<open>
  Shared notions of the development: the Python exceptions the script can raise, the
  result type that carries them, and the list operations that the table operations of
  pandas are built from (selection by a boolean mask, the column of a row-major matrix,
  the transpose of a rectangular matrix, \<^verbatim>\<open>list.index\<close>).  The lemmas proved here
  are the ones every component theory uses; they are collected in the named collections
  \<open>mask_simps\<close> (selection by mask) and \<open>matrix_simps\<close> (columns and transposes), and the
  safe ones are simp rules.  Statements that change a state and may raise are functions
  from the state to a result and the state reached; \<open>io_simps\<close> collects the rules that run
  a sequence of them.  The \<^verbatim>\<open>for\<close> statement over a list is given twice, as a recursion
  on the list and as the loop over the positions of the list, and the two are shown to agree.

  Strings are \<^typ>\<open>string\<close>, that is lists of bytes.  The order on them is the
  lexicographic order on bytes (\<open>Char_ord\<close>, \<open>List_Lexorder\<close>), which for UTF-8 encoded text
  is the order of Python's \<^verbatim>\<open>str\<close> comparison by code point.
\<close>

section \<open>Errors and results\<close>

text \<open>The exceptions of Python that the script can meet; \<open>APIError\<close> stands for what the
  data service raises when a request fails.  \<open>Unsupported\<close> is not one of
  them: it marks an input on which the model does not say what the library does (a row
  label that is not a string, a line chart of a table with a repeated column label).\<close>

type_synonym label = string

datatype py_error =
    KeyError "label list"
  | ValueError string
  | IndexError
  | TypeError
  | APIError string
  | Unsupported

type_synonym 'a result = "py_error + 'a"

definition result_bind :: "'a result \<Rightarrow> ('a \<Rightarrow> 'b result) \<Rightarrow> 'b result" where
  "result_bind m f = (case m of Inl e \<Rightarrow> Inl e | Inr x \<Rightarrow> f x)"

definition raises :: "'a result \<Rightarrow> bool" where
  "raises m = (case m of Inl e \<Rightarrow> True | Inr x \<Rightarrow> False)"

section \<open>Statements with effects\<close>

text \<open>A sequence of statements that changes a state \<open>'s\<close> (the console, the files) and may
  raise: it returns its value or the exception, and in both cases the state it has reached.
  An exception ends the sequence, and what the statements before it did to the state stays
  done.  \<open>io_bind\<close> is the sequencing of two statements, \<open>io_lift\<close> a computation without
  effect, \<open>io_seq\<close> a block of statements that return nothing.\<close>

type_synonym ('s, 'a) io = "'s \<Rightarrow> 'a result \<times> 's"

definition io_return :: "'a \<Rightarrow> ('s, 'a) io" where
  "io_return x s = (Inr x, s)"

definition io_lift :: "'a result \<Rightarrow> ('s, 'a) io" where
  "io_lift r s = (r, s)"

definition io_bind :: "('s, 'a) io \<Rightarrow> ('a \<Rightarrow> ('s, 'b) io) \<Rightarrow> ('s, 'b) io" where
  "io_bind m f s = (case m s of (Inl e, s') \<Rightarrow> (Inl e, s') | (Inr x, s') \<Rightarrow> f x s')"

definition io_then :: "('s, 'a) io \<Rightarrow> ('s, 'b) io \<Rightarrow> ('s, 'b) io" where
  "io_then m k = io_bind m (\<lambda>x. k)"

fun io_seq :: "('s, unit) io list \<Rightarrow> ('s, unit) io" where
  "io_seq [] = io_return ()"
| "io_seq (m # ms) = io_then m (io_seq ms)"

text \<open>A statement never raises and changes the state by \<open>f\<close>.\<close>

definition io_modify :: "('s \<Rightarrow> 's) \<Rightarrow> ('s, unit) io" where
  "io_modify f s = (Inr (), f s)"

section \<open>The for statement\<close>

text \<open>Python's \<^verbatim>\<open>for x in xs: body\<close> over a list that the body does not change, with the
  variables that the body assigns as the state.  \<open>for_each\<close> is the statement as a recursion
  on the list: the body runs on each element in turn, and an exception ends the loop.
  \<open>for_loop\<close> is the statement as Python runs it: the iterator holds a position, and the
  body runs on the element at the position while there is one and no exception is pending.
  It returns the number of iterations beside the result, or \<open>None\<close> if the loop does not
  end.  The development models the loops of the script by recursion on the list;
  \<open>for_loop_for_each\<close> shows that this is what the loop computes, and that the loop ends.\<close>

fun for_each :: "('a \<Rightarrow> 's \<Rightarrow> 's result) \<Rightarrow> 'a list \<Rightarrow> 's \<Rightarrow> 's result" where
  "for_each body [] s = Inr s"
| "for_each body (x # xs) s = result_bind (body x s) (for_each body xs)"

definition for_loop :: "'a list \<Rightarrow> ('a \<Rightarrow> 's \<Rightarrow> 's result) \<Rightarrow> 's \<Rightarrow> (nat \<times> 's result) option" where
  "for_loop xs body s =
     while_option (\<lambda>(i, r). i < length xs \<and> \<not> raises r)
       (\<lambda>(i, r). (Suc i, result_bind r (body (xs ! i)))) (0, Inr s)"

section \<open>Lists as Python sequences\<close>

text \<open>Selection by a boolean mask, as \<^verbatim>\<open>obj.loc[mask]\<close> does it: the elements whose
  mask entry is true, in order.  A mask shorter than the list cuts the list.\<close>

fun select_by :: "bool list \<Rightarrow> 'a list \<Rightarrow> 'a list" where
  "select_by (b # bs) (x # xs) = (if b then x # select_by bs xs else select_by bs xs)"
| "select_by [] xs = []"
| "select_by bs [] = []"

text \<open>The positions a mask keeps.\<close>

definition kept :: "bool list \<Rightarrow> nat list" where
  "kept bs = filter (\<lambda>i. bs ! i) [0..<length bs]"

text \<open>\<^verbatim>\<open>xs.index(x)\<close>: the first position of \<open>x\<close>, or \<^verbatim>\<open>ValueError\<close>.  The message of the
  exception is its fixed part: Python puts the element in front of it.\<close>

fun index_from :: "nat \<Rightarrow> 'a \<Rightarrow> 'a list \<Rightarrow> nat result" where
  "index_from n x [] = Inl (ValueError ''is not in list'')"
| "index_from n x (y # ys) = (if x = y then Inr n else index_from (Suc n) x ys)"

definition list_index :: "'a \<Rightarrow> 'a list \<Rightarrow> nat result" where
  "list_index x xs = index_from 0 x xs"

text \<open>\<^verbatim>\<open>xs[i]\<close> for a non-negative \<open>i\<close>: the element, or \<^verbatim>\<open>IndexError\<close>.\<close>

definition list_get :: "'a list \<Rightarrow> nat \<Rightarrow> 'a result" where
  "list_get xs i = (if i < length xs then Inr (xs ! i) else Inl IndexError)"

section \<open>Row-major matrices\<close>

definition column :: "nat \<Rightarrow> 'a list list \<Rightarrow> 'a list" where
  "column j m = map (\<lambda>r. r ! j) m"

text \<open>The transpose of a matrix with \<open>n\<close> columns.  The number of columns is given:
  a matrix with no rows does not determine it.\<close>

definition transpose_rect :: "nat \<Rightarrow> 'a list list \<Rightarrow> 'a list list" where
  "transpose_rect n m = map (\<lambda>j. column j m) [0..<n]"

definition rect :: "nat \<Rightarrow> nat \<Rightarrow> 'a list list \<Rightarrow> bool" where
  "rect k n m \<longleftrightarrow> length m = k \<and> list_all (\<lambda>r. length r = n) m"

section \<open>Lemmas\<close>

named_theorems mask_simps "selection of list elements by a boolean mask"
named_theorems matrix_simps "columns and transposes of row-major matrices"
named_theorems frame_wf "operations that preserve the well-formedness of a table"

subsection \<open>Results\<close>

lemma result_bind_Inr [simp]: "result_bind (Inr x) f = f x"
  by (simp add: result_bind_def)

lemma result_bind_Inl [simp]: "result_bind (Inl e) f = Inl e"
  by (simp add: result_bind_def)

lemma result_bind_eq_Inr_iff:
  "result_bind m f = Inr y \<longleftrightarrow> (\<exists>x. m = Inr x \<and> f x = Inr y)"
  by (cases m) simp_all

lemma result_bind_Inr_right [simp]: "result_bind m Inr = m"
  by (cases m) simp_all

lemma result_bind_assoc:
  "result_bind (result_bind m f) g = result_bind m (\<lambda>x. result_bind (f x) g)"
  by (cases m) simp_all

lemma raises_simps [simp]: "raises (Inl e)" "\<not> raises (Inr x)"
  by (simp_all add: raises_def)

lemma not_raises_iff: "\<not> raises m \<longleftrightarrow> (\<exists>x. m = Inr x)"
  by (cases m) simp_all

subsection \<open>Statements with effects\<close>

named_theorems io_simps "running a sequence of statements"

lemma io_return_run [io_simps]: "io_return x s = (Inr x, s)"
  by (simp add: io_return_def)

lemma io_lift_run [io_simps]: "io_lift r s = (r, s)"
  by (simp add: io_lift_def)

lemma io_modify_run [io_simps]: "io_modify f s = (Inr (), f s)"
  by (simp add: io_modify_def)

lemma io_bind_run [io_simps]:
  "m s = (Inr x, s') \<Longrightarrow> io_bind m f s = f x s'"
  "m s = (Inl e, s') \<Longrightarrow> io_bind m f s = (Inl e, s')"
  by (simp_all add: io_bind_def)

lemma io_then_run [io_simps]:
  "m s = (Inr x, s') \<Longrightarrow> io_then m k s = k s'"
  "m s = (Inl e, s') \<Longrightarrow> io_then m k s = (Inl e, s')"
  by (simp_all add: io_then_def io_bind_def)

lemma io_bind_lift [io_simps]:
  "io_bind (io_lift (Inr x)) f = f x"
  "io_bind (io_lift (Inl e)) f s = (Inl e, s)"
  by (simp_all add: io_bind_def io_lift_def fun_eq_iff)

lemma io_then_modify [io_simps]: "io_then (io_modify f) k s = k (f s)"
  by (simp add: io_then_def io_bind_def io_modify_def)

text \<open>The monad laws.\<close>

lemma io_return_bind [simp]: "io_bind (io_return x) f = f x"
  by (simp add: io_bind_def io_return_def fun_eq_iff)

lemma io_bind_return [simp]: "io_bind m io_return = m"
  by (auto simp: io_bind_def io_return_def fun_eq_iff split: prod.splits sum.splits)

lemma io_bind_assoc: "io_bind (io_bind m f) g = io_bind m (\<lambda>x. io_bind (f x) g)"
  by (auto simp: io_bind_def fun_eq_iff split: prod.splits sum.splits)

text \<open>A run that raises is a run of the first statement that raises, or of the rest after
  the first statement returned.\<close>

lemma io_bind_cases:
  obtains (raised) e s' where "m s = (Inl e, s')" "io_bind m f s = (Inl e, s')"
  | (returned) x s' where "m s = (Inr x, s')" "io_bind m f s = f x s'"
proof (cases "m s")
  case (Pair r s')
  then show ?thesis
    by (cases r) (auto intro: raised returned simp: io_bind_def)
qed

lemma io_seq_append: "io_seq (ms @ ns) = io_then (io_seq ms) (io_seq ns)"
  by (induction ms) (simp_all add: io_then_def io_bind_assoc)

subsection \<open>The for statement\<close>

text \<open>One iteration: the body on the element at the position, then the rest of the list.\<close>

lemma for_each_drop:
  assumes "i < length xs"
  shows "result_bind (body (xs ! i) s) (for_each body (drop (Suc i) xs)) = for_each body (drop i xs) s"
  by (simp flip: Cons_nth_drop_Suc [OF assms])

text \<open>The invariant of the loop: what is left to do, done on the state reached, gives the
  result of the whole loop.  Every iteration keeps it and moves the position towards the end
  of the list.\<close>

definition for_inv :: "'a list \<Rightarrow> ('a \<Rightarrow> 's \<Rightarrow> 's result) \<Rightarrow> 's \<Rightarrow> nat \<times> 's result \<Rightarrow> bool" where
  "for_inv xs body s st \<longleftrightarrow> fst st \<le> length xs \<and>
     result_bind (snd st) (for_each body (drop (fst st) xs)) = for_each body xs s"

lemma for_inv_step:
  assumes "for_inv xs body s st" and "fst st < length xs" and "\<not> raises (snd st)"
  shows "for_inv xs body s (Suc (fst st), result_bind (snd st) (body (xs ! fst st)))"
    and "length xs - Suc (fst st) < length xs - fst st"
proof -
  from assms(3) obtain s' where r: "snd st = Inr s'"
    by (cases "snd st") auto
  from assms(1) show "for_inv xs body s (Suc (fst st), result_bind (snd st) (body (xs ! fst st)))"
    by (simp add: for_inv_def r for_each_drop [OF assms(2)] Suc_leI [OF assms(2)])
  from assms(2) show "length xs - Suc (fst st) < length xs - fst st"
    by simp
qed

lemma for_inv_stop:
  assumes "for_inv xs body s st" and "\<not> (fst st < length xs \<and> \<not> raises (snd st))"
  shows "snd st = for_each body xs s" and "raises (snd st) \<or> fst st = length xs"
proof -
  show "snd st = for_each body xs s"
  proof (cases "snd st")
    case (Inl e)
    with assms(1) show ?thesis by (simp add: for_inv_def)
  next
    case (Inr s')
    with assms have "drop (fst st) xs = []" by (simp add: for_inv_def)
    with assms(1) Inr show ?thesis by (simp add: for_inv_def)
  qed
  from assms show "raises (snd st) \<or> fst st = length xs"
    by (auto simp: for_inv_def)
qed

text \<open>The loop ends, after at most one iteration for each element, and exactly one when no
  iteration raises; its result is the result of the recursion on the list.\<close>

lemma for_loop_for_each:
  "\<exists>n. for_loop xs body s = Some (n, for_each body xs s) \<and> n \<le> length xs \<and>
     (raises (for_each body xs s) \<or> n = length xs)"
proof -
  let ?b = "\<lambda>st. fst st < length xs \<and> \<not> raises (snd st)"
  let ?c = "\<lambda>st. (Suc (fst st), result_bind (snd st) (body (xs ! fst st)))"
  have init: "for_inv xs body s (0, Inr s)"
    by (simp add: for_inv_def)
  have "\<exists>t. while_option ?b ?c (0, Inr s) = Some t"
  proof (rule measure_while_option_Some [where P = "for_inv xs body s" and f = "\<lambda>st. length xs - fst st"])
    show "for_inv xs body s (?c st) \<and> length xs - fst (?c st) < length xs - fst st"
      if "for_inv xs body s st" "?b st" for st
      using for_inv_step [OF that(1)] that(2) by simp
  qed (rule init)
  then obtain t where t: "while_option ?b ?c (0, Inr s) = Some t" ..
  have inv: "for_inv xs body s t"
  proof (rule while_option_rule [where P = "for_inv xs body s", OF _ t init])
    show "for_inv xs body s (?c st)" if "for_inv xs body s st" "?b st" for st
      using for_inv_step(1) [OF that(1)] that(2) by simp
  qed
  note stop = for_inv_stop [OF inv while_option_stop [OF t]]
  from stop(1) have "t = (fst t, for_each body xs s)"
    by (simp add: prod_eq_iff)
  with t have "for_loop xs body s = Some (fst t, for_each body xs s)"
    by (simp add: for_loop_def case_prod_unfold)
  with inv stop show ?thesis
    by (auto simp: for_inv_def)
qed

subsection \<open>Selection by mask\<close>

lemma select_by_Nil2 [simp]: "select_by bs [] = []"
  by (cases bs) simp_all

lemma select_by_map [mask_simps]: "select_by bs (map f xs) = map f (select_by bs xs)"
  by (induction bs xs rule: select_by.induct) simp_all

lemma select_by_eq_filter_zip:
  "select_by bs xs = map snd (filter fst (zip bs xs))"
  by (induction bs xs rule: select_by.induct) simp_all

lemma select_by_map_pred [mask_simps]: "select_by (map P xs) xs = filter P xs"
  by (induction xs) simp_all

lemma set_select_by_subset: "set (select_by bs xs) \<subseteq> set xs"
  by (induction bs xs rule: select_by.induct) auto

lemma length_select_by [mask_simps]:
  "length bs = length xs \<Longrightarrow> length (select_by bs xs) = length (filter id bs)"
  by (induction bs xs rule: select_by.induct) simp_all

lemma select_by_all_True [mask_simps]:
  "length bs = length xs \<Longrightarrow> list_all id bs \<Longrightarrow> select_by bs xs = xs"
  by (induction bs xs rule: select_by.induct) simp_all

lemma select_by_replicate_True [simp]: "select_by (replicate (length xs) True) xs = xs"
  by (induction xs) simp_all

lemma in_select_byI:
  "i < length xs \<Longrightarrow> i < length bs \<Longrightarrow> bs ! i \<Longrightarrow> xs ! i \<in> set (select_by bs xs)"
proof (induction bs xs arbitrary: i rule: select_by.induct)
  case (1 b bs x xs)
  then show ?case by (cases i) auto
qed simp_all

lemma kept_Nil [simp]: "kept [] = []"
  by (simp add: kept_def)

lemma kept_Cons:
  "kept (b # bs) = (if b then [0] else []) @ map Suc (kept bs)"
proof -
  have "[0..<length (b # bs)] = 0 # map Suc [0..<length bs]"
    by (simp add: upt_conv_Cons map_Suc_upt del: upt_Suc)
  then show ?thesis
    by (simp add: kept_def filter_map comp_def del: upt_Suc)
qed

lemma set_kept: "set (kept bs) = {i. i < length bs \<and> bs ! i}"
  by (auto simp: kept_def)

lemma length_kept: "length (kept bs) = length (filter id bs)"
  by (induction bs) (simp_all add: kept_Cons)

lemma sorted_kept: "sorted (kept bs)" and distinct_kept: "distinct (kept bs)"
  by (simp_all add: kept_def sorted_wrt_filter)

text \<open>Selection by mask reads the list at the kept positions.\<close>

lemma select_by_eq_map_nth [mask_simps]:
  "length bs = length xs \<Longrightarrow> select_by bs xs = map ((!) xs) (kept bs)"
  by (induction bs xs rule: select_by.induct) (simp_all add: kept_Cons comp_def)

lemma kept_nth_less:
  "k < length (kept bs) \<Longrightarrow> kept bs ! k < length bs \<and> bs ! (kept bs ! k)"
  using nth_mem [of k "kept bs"] by (simp add: set_kept)

lemma select_by_zip [mask_simps]:
  "select_by bs (zip xs ys) = zip (select_by bs xs) (select_by bs ys)"
proof (induction bs xs arbitrary: ys rule: select_by.induct)
  case (1 b bs x xs)
  then show ?case by (cases ys) simp_all
qed simp_all

lemma map_const_on: "(\<And>x. x \<in> set xs \<Longrightarrow> f x = c) \<Longrightarrow> map f xs = replicate (length xs) c"
  by (induction xs) simp_all

lemma map_nth_upt: "map (\<lambda>k. f (xs ! k)) [0..<length xs] = map f xs"
  by (rule nth_equalityI) simp_all

lemma in_set_tl: "x \<in> set (tl xs) \<Longrightarrow> x \<in> set xs"
  by (cases xs) simp_all

lemma takeWhile_fst:
  "takeWhile (\<lambda>lv. P (fst lv)) xs = take (length (takeWhile P (map fst xs))) xs"
  by (induction xs) simp_all

subsection \<open>list.index and indexing\<close>

lemma index_from_Inr:
  "index_from n x xs = Inr i \<Longrightarrow>
     n \<le> i \<and> i - n < length xs \<and> xs ! (i - n) = x \<and> x \<notin> set (take (i - n) xs)"
proof (induction xs arbitrary: n)
  case Nil
  then show ?case by simp
next
  case (Cons y ys)
  show ?case
  proof (cases "x = y")
    case True
    with Cons.prems show ?thesis by simp
  next
    case False
    with Cons.prems have "index_from (Suc n) x ys = Inr i" by simp
    from Cons.IH [OF this] False show ?thesis
      by (auto simp: Suc_diff_Suc less_eq_Suc_le [symmetric] take_Cons' nth_Cons')
  qed
qed

lemma index_from_Inl_iff: "(\<exists>e. index_from n x xs = Inl e) \<longleftrightarrow> x \<notin> set xs"
  by (induction xs arbitrary: n) auto

lemma list_index_Inr:
  "list_index x xs = Inr i \<Longrightarrow> i < length xs \<and> xs ! i = x \<and> x \<notin> set (take i xs)"
  using index_from_Inr [of 0 x xs i] by (simp add: list_index_def)

lemma list_index_raises_iff: "raises (list_index x xs) \<longleftrightarrow> x \<notin> set xs"
  using index_from_Inl_iff [of 0 x xs]
  by (cases "list_index x xs") (auto simp: list_index_def)

lemma index_from_present:
  "x \<in> set xs \<Longrightarrow> index_from n x xs = Inr (n + length (takeWhile (\<lambda>y. y \<noteq> x) xs))"
  by (induction xs arbitrary: n) auto

lemma list_index_absent: "x \<notin> set xs \<Longrightarrow> list_index x xs = Inl (ValueError ''is not in list'')"
proof -
  have "x \<notin> set xs \<Longrightarrow> index_from n x xs = Inl (ValueError ''is not in list'')" for n
    by (induction xs arbitrary: n) auto
  then show "x \<notin> set xs \<Longrightarrow> ?thesis" by (simp add: list_index_def)
qed

lemma list_index_present:
  "x \<in> set xs \<Longrightarrow> list_index x xs = Inr (length (takeWhile (\<lambda>y. y \<noteq> x) xs))"
  by (simp add: list_index_def index_from_present)

lemma list_get_in_range [simp]: "i < length xs \<Longrightarrow> list_get xs i = Inr (xs ! i)"
  by (simp add: list_get_def)

subsection \<open>Columns and transposes\<close>

lemma length_column [simp]: "length (column j m) = length m"
  by (simp add: column_def)

lemma nth_column [simp]: "i < length m \<Longrightarrow> column j m ! i = m ! i ! j"
  by (simp add: column_def)

lemma column_Nil [simp]: "column j [] = []"
  by (simp add: column_def)

lemma column_select_by [matrix_simps]:
  "column j (select_by bs m) = select_by bs (column j m)"
  by (simp add: column_def select_by_map)

lemma column_map_select_by [matrix_simps]:
  assumes "list_all (\<lambda>r. length r = length bs) m" and "k < length (kept bs)"
  shows "column k (map (select_by bs) m) = column (kept bs ! k) m"
  using assms by (simp add: column_def list_all_iff select_by_eq_map_nth)

lemma column_map_map2 [matrix_simps]:
  assumes "list_all (\<lambda>r. length r = length bs) m" and "j < length bs"
  shows "column j (map (\<lambda>r. map2 f bs r) m) = map (f (bs ! j)) (column j m)"
  using assms by (simp add: column_def list_all_iff)

lemma map_nth_filter_upt: "map ((!) xs) (filter (\<lambda>j. P (xs ! j)) [0..<length xs]) = filter P xs"
proof -
  have "filter P xs = filter P (map ((!) xs) [0..<length xs])"
    by (simp add: map_nth)
  also have "\<dots> = map ((!) xs) (filter (\<lambda>j. P (xs ! j)) [0..<length xs])"
    by (simp add: filter_map comp_def)
  finally show ?thesis by simp
qed

lemma column_map_nths [matrix_simps]:
  assumes "list_all (\<lambda>r. length r = n) m" and "k < length pos" and "pos ! k < n"
  shows "column k (map (\<lambda>r. map ((!) r) pos) m) = column (pos ! k) m"
  using assms by (simp add: column_def)

lemma rectI: "length m = k \<Longrightarrow> (\<And>r. r \<in> set m \<Longrightarrow> length r = n) \<Longrightarrow> rect k n m"
  by (simp add: rect_def list_all_iff)

lemma rect_length: "rect k n m \<Longrightarrow> length m = k"
  and rect_row: "rect k n m \<Longrightarrow> r \<in> set m \<Longrightarrow> length r = n"
  by (simp_all add: rect_def list_all_iff)

lemma rect_transpose [matrix_simps]: "rect k n m \<Longrightarrow> rect n k (transpose_rect n m)"
  by (auto intro!: rectI simp: transpose_rect_def rect_length)

lemma nth_transpose_rect [matrix_simps]:
  "j < n \<Longrightarrow> i < length m \<Longrightarrow> transpose_rect n m ! j ! i = m ! i ! j"
  by (simp add: transpose_rect_def)

lemma column_transpose_rect [matrix_simps]:
  assumes "rect k n m" and "i < k"
  shows "column i (transpose_rect n m) = m ! i"
proof (rule nth_equalityI)
  from assms have "m ! i \<in> set m" by (simp add: rect_length)
  with assms(1) show len: "length (column i (transpose_rect n m)) = length (m ! i)"
    by (simp add: transpose_rect_def rect_row)
  fix j assume "j < length (column i (transpose_rect n m))"
  with assms show "column i (transpose_rect n m) ! j = m ! i ! j"
    by (simp add: transpose_rect_def rect_length)
qed

lemma length_transpose_rect [simp]: "length (transpose_rect n m) = n"
  by (simp add: transpose_rect_def)

lemma nth_transpose_rect_column: "j < n \<Longrightarrow> transpose_rect n m ! j = column j m"
  by (simp add: transpose_rect_def)

lemma transpose_rect_select_by [matrix_simps]:
  "transpose_rect n (select_by bs m) = map (select_by bs) (transpose_rect n m)"
  by (simp add: transpose_rect_def column_select_by)

lemma transpose_rect_map_select_by [matrix_simps]:
  assumes "list_all (\<lambda>r. length r = length bs) m"
  shows "transpose_rect (length (filter id bs)) (map (select_by bs) m) =
         select_by bs (transpose_rect (length bs) m)"
proof -
  have "transpose_rect (length (kept bs)) (map (select_by bs) m) =
        map (\<lambda>k. column (kept bs ! k) m) [0..<length (kept bs)]"
    using assms by (simp add: transpose_rect_def column_map_select_by)
  also have "\<dots> = map (\<lambda>j. column j m) (kept bs)"
    by (rule map_nth_upt)
  also have "\<dots> = map ((!) (transpose_rect (length bs) m)) (kept bs)"
    by (simp add: set_kept nth_transpose_rect_column)
  also have "\<dots> = select_by bs (transpose_rect (length bs) m)"
    by (simp add: select_by_eq_map_nth)
  finally show ?thesis by (simp add: length_kept)
qed

lemma transpose_rect_map_map2 [matrix_simps]:
  assumes "list_all (\<lambda>r. length r = length bs) m"
  shows "transpose_rect (length bs) (map (\<lambda>r. map2 f bs r) m) =
         map2 (\<lambda>b. map (f b)) bs (transpose_rect (length bs) m)"
  using assms
  by (intro nth_equalityI) (simp_all add: nth_transpose_rect_column column_map_map2)

lemma transpose_rect_map_nths [matrix_simps]:
  assumes "list_all (\<lambda>r. length r = n) m" and "list_all (\<lambda>j. j < n) pos"
  shows "transpose_rect (length pos) (map (\<lambda>r. map ((!) r) pos) m) =
         map ((!) (transpose_rect n m)) pos"
  using assms
  by (intro nth_equalityI)
    (simp_all add: nth_transpose_rect_column column_map_nths list_all_length)

text \<open>Transposing twice gives the matrix back: the round trip behind \<^verbatim>\<open>df.T.T\<close>.\<close>

lemma transpose_rect_involution [matrix_simps]:
  assumes "rect k n m"
  shows "transpose_rect k (transpose_rect n m) = m"
proof -
  have "transpose_rect k (transpose_rect n m) = map ((!) m) [0..<k]"
    using assms by (simp add: transpose_rect_def [of k] column_transpose_rect)
  also have "\<dots> = m"
    using rect_length [OF assms] map_nth [of m] by simp
  finally show ?thesis .
qed

end
