(* ===== verification/Rounding.thy ===== *)
theory Rounding
  imports Py_Prelude
begin

text \<open>
  The arithmetic of \<^verbatim>\<open>df.round(1)\<close> (\<^verbatim>\<open>preprocess_df\<close>, line 117 of
  \<^verbatim>\<open>src/part1_script.py\<close>).  pandas hands the call to numpy, which rounds a value
  \<open>x\<close> to \<open>n\<close> decimals as \<^verbatim>\<open>rint(x * 10**n) / 10**n\<close>, where \<^verbatim>\<open>rint\<close> rounds to the
  nearest integer and a tie to the even one.  Values are rational numbers here: the
  binary floating point representation of the source is not modelled, so the theorems
  are about the exact decimal arithmetic that the floating point code approximates.
\<close>

section \<open>Definitions\<close>

definition round_half_even :: "rat \<Rightarrow> int" where
  "round_half_even x =
     (let f = \<lfloor>x\<rfloor>; d = x - of_int f
      in if d < 1 / 2 then f
         else if 1 / 2 < d then f + 1
         else if even f then f else f + 1)"

definition round_decimals :: "nat \<Rightarrow> rat \<Rightarrow> rat" where
  "round_decimals n x = of_int (round_half_even (x * 10 ^ n)) / 10 ^ n"

text \<open>A value with at most \<open>n\<close> decimal places.\<close>

definition has_decimals :: "nat \<Rightarrow> rat \<Rightarrow> bool" where
  "has_decimals n x \<longleftrightarrow> of_int \<lfloor>x * 10 ^ n\<rfloor> = x * 10 ^ n"

section \<open>Rounding to the nearest integer\<close>

lemma round_half_even_of_int [simp]: "round_half_even (of_int k) = k"
  by (simp add: round_half_even_def)

lemma round_half_even_cases:
  "round_half_even x = \<lfloor>x\<rfloor> \<or> round_half_even x = \<lfloor>x\<rfloor> + 1"
  by (simp add: round_half_even_def Let_def)

lemma round_half_even_error: "\<bar>of_int (round_half_even x) - x\<bar> \<le> 1 / 2"
proof -
  define d where "d = x - of_int \<lfloor>x\<rfloor>"
  have "0 \<le> d" "d < 1" unfolding d_def by linarith+
  moreover have "of_int (round_half_even x) - x =
      (if d < 1 / 2 then - d else if 1 / 2 < d then 1 - d else if even \<lfloor>x\<rfloor> then - d else 1 - d)"
    by (simp add: round_half_even_def Let_def d_def)
  ultimately show ?thesis
    by (simp add: abs_if)
qed

lemma round_half_even_tie:
  "round_half_even (of_int k + 1 / 2) = (if even k then k else k + 1)"
proof -
  have "\<lfloor>of_int k + (1 / 2 :: rat)\<rfloor> = k" by linarith
  then show ?thesis by (simp add: round_half_even_def Let_def)
qed

lemma round_half_even_mono:
  assumes "x \<le> y"
  shows "round_half_even x \<le> round_half_even y"
proof (cases "\<lfloor>x\<rfloor> = \<lfloor>y\<rfloor>")
  case True
  with assms show ?thesis
    by (auto simp: round_half_even_def Let_def)
next
  case False
  with assms have "\<lfloor>x\<rfloor> + 1 \<le> \<lfloor>y\<rfloor>"
    using floor_mono [OF assms] by linarith
  moreover have "round_half_even x \<le> \<lfloor>x\<rfloor> + 1" "\<lfloor>y\<rfloor> \<le> round_half_even y"
    using round_half_even_cases [of x] round_half_even_cases [of y] by linarith+
  ultimately show ?thesis by linarith
qed

section \<open>Rounding to decimals\<close>

lemma pow10_pos [simp]: "(0::rat) < 10 ^ n"
  by simp

lemma has_decimals_iff: "has_decimals n x \<longleftrightarrow> (\<exists>k. x = of_int k / 10 ^ n)"
proof -
  have "has_decimals n x \<longleftrightarrow> (\<exists>k. x * 10 ^ n = of_int k)"
    by (simp add: has_decimals_def)
  also have "\<dots> \<longleftrightarrow> (\<exists>k. x = of_int k / 10 ^ n)"
    by (simp add: eq_divide_eq)
  finally show ?thesis .
qed

lemma has_decimals_round: "has_decimals n (round_decimals n x)"
  by (auto simp: has_decimals_iff round_decimals_def)

lemma round_decimals_fixpoint: "has_decimals n x \<Longrightarrow> round_decimals n x = x"
  by (auto simp: has_decimals_iff round_decimals_def)

lemma round_decimals_fixpoint_iff: "round_decimals n x = x \<longleftrightarrow> has_decimals n x"
  using has_decimals_round [of n x] round_decimals_fixpoint [of n x] by auto

lemma round_decimals_mono: "x \<le> y \<Longrightarrow> round_decimals n x \<le> round_decimals n y"
  by (simp add: round_decimals_def divide_right_mono round_half_even_mono)

lemma round_decimals_between:
  assumes "has_decimals n a" "has_decimals n b" "a \<le> x" "x \<le> b"
  shows "a \<le> round_decimals n x \<and> round_decimals n x \<le> b"
  using round_decimals_mono [OF assms(3), of n] round_decimals_mono [OF assms(4), of n]
  unfolding round_decimals_fixpoint [OF assms(1)] round_decimals_fixpoint [OF assms(2)]
  by (rule conjI)

lemma has_decimals_of_int [simp]: "has_decimals n (of_int k)"
  unfolding has_decimals_iff by (rule exI [of _ "k * 10 ^ n"]) simp

lemma has_decimals_numeral [simp]: "has_decimals n (numeral k)" "has_decimals n 0"
  using has_decimals_of_int [of n "numeral k"] has_decimals_of_int [of n 0] by simp_all

lemma round_decimals_tie:
  "round_decimals 1 (of_int k / 10 + 1 / 20) =
     (if even k then of_int k / 10 else of_int (k + 1) / 10)"
proof -
  have "(of_int k / 10 + 1 / 20) * 10 ^ 1 = (of_int k + 1 / 2 :: rat)" by simp
  then show ?thesis
    by (simp only: round_decimals_def round_half_even_tie) simp
qed

section \<open>Properties of the rounding step\<close>


text \<open>Rounding to \<open>n\<close> decimals moves a value by at most half a unit of the last
  decimal place; for \<^verbatim>\<open>round(1)\<close> that is 0.05.\<close>

lemma round_decimals_error: "\<bar>round_decimals n x - x\<bar> \<le> 1 / (2 * 10 ^ n)"
proof -
  have "round_decimals n x - x = (of_int (round_half_even (x * 10 ^ n)) - x * 10 ^ n) / 10 ^ n"
    by (simp add: round_decimals_def diff_divide_distrib)
  then have "\<bar>round_decimals n x - x\<bar> = \<bar>of_int (round_half_even (x * 10 ^ n)) - x * 10 ^ n\<bar> / 10 ^ n"
    by (simp only: abs_divide) simp
  also have "\<dots> \<le> (1 / 2) / 10 ^ n"
    by (intro divide_right_mono round_half_even_error) simp
  finally show ?thesis by simp
qed

text \<open>C15: A tie is rounded to the even neighbour, not upwards: a value exactly between
  two one-decimal numbers \<open>k/10\<close> and \<open>(k+1)/10\<close> goes to the one whose last digit is
  even, so 12.35 and 12.45 both become 12.4.\<close>

theorem round_tie_to_even:
  "round_decimals 1 (of_int k / 10 + 1 / 20) =
     (if even k then of_int k / 10 else of_int (k + 1) / 10) \<and>
   round_decimals 1 (1235 / 100) = 124 / 10 \<and> round_decimals 1 (1245 / 100) = 124 / 10"
  using round_decimals_tie [of k] round_decimals_tie [of 123] round_decimals_tie [of 124]
  by simp

text \<open>A percentage stays a percentage: rounding a value between 0 and 100 to one
  decimal gives a value between 0 and 100.\<close>

lemma round_keeps_percentage:
  "0 \<le> x \<Longrightarrow> x \<le> 100 \<Longrightarrow> 0 \<le> round_decimals 1 x \<and> round_decimals 1 x \<le> 100"
  using round_decimals_between [of 1 0 100 x] by simp

end
