(* ===== verification/Str_Replace.thy ===== *)
theory Str_Replace
  imports Py_Prelude "HOL-Library.Sublist"
begin

text \<open>
  The renaming of the column labels, \<^verbatim>\<open>df.columns.str.replace("YR", "", regex=True)\<close>
  (\<^verbatim>\<open>preprocess_df\<close>, line 114 of \<^verbatim>\<open>src/part1_script.py\<close>).  The pattern \<^verbatim>\<open>YR\<close> has no
  regular expression operator, so the call replaces the occurrences of a literal string,
  from the left and without overlap, as \<^verbatim>\<open>str.replace\<close> does.  \<open>str_replace old new s\<close> is
  that function; an empty pattern matches before every character and at the end.
\<close>

section \<open>Definitions\<close>

function str_replace :: "string \<Rightarrow> string \<Rightarrow> string \<Rightarrow> string" where
  "str_replace [] new s = new @ concat (map (\<lambda>c. c # new) s)"
| "str_replace (a # old) new [] = []"
| "str_replace (a # old) new (c # s) =
     (if prefix (a # old) (c # s)
      then new @ str_replace (a # old) new (drop (length (a # old)) (c # s))
      else c # str_replace (a # old) new s)"
  by pat_completeness auto
termination
  by (relation "measure (\<lambda>(old, new, s). length s)") auto

declare str_replace.simps(3) [simp del]

section \<open>Lemmas\<close>

lemma str_replace_Cons:
  "old \<noteq> [] \<Longrightarrow> str_replace old new (c # s) =
     (if prefix old (c # s) then new @ str_replace old new (drop (length old) (c # s))
      else c # str_replace old new s)"
  by (cases old) (simp_all add: str_replace.simps(3))

lemma str_replace_Nil [simp]: "old \<noteq> [] \<Longrightarrow> str_replace old new [] = []"
  by (cases old) simp_all

lemma str_replace_prefix:
  assumes "old \<noteq> []"
  shows "str_replace old new (old @ s) = new @ str_replace old new s"
proof -
  from assms obtain a old' where old: "old = a # old'" by (cases old) auto
  show ?thesis
    by (simp add: old str_replace.simps(3) [of a old' new a "old' @ s"])
qed

lemma str_replace_absent:
  assumes "old \<noteq> []" and "\<not> sublist old s"
  shows "str_replace old new s = s"
  using assms(2)
proof (induction s)
  case Nil
  with assms(1) show ?case by simp
next
  case (Cons c s)
  from Cons.prems have "\<not> prefix old (c # s)" and "\<not> sublist old s"
    by (auto simp: sublist_Cons_right)
  with Cons.IH assms(1) show ?case
    by (simp add: str_replace_Cons)
qed

lemma str_replace_skip:
  assumes "old \<noteq> []" and "\<not> prefix old (c # s)"
  shows "str_replace old new (c # s) = c # str_replace old new s"
  using assms by (simp add: str_replace_Cons)

lemma length_str_replace_erase:
  "old \<noteq> [] \<Longrightarrow> length (str_replace old [] s) \<le> length s"
proof (induction s rule: length_induct)
  case (1 s)
  show ?case
  proof (cases s)
    case Nil
    with "1.prems" show ?thesis by simp
  next
    case (Cons c t)
    show ?thesis
    proof (cases "prefix old (c # t)")
      case True
      have "length (drop (length old) (c # t)) < length s"
        using "1.prems" Cons by simp
      with "1.IH" "1.prems" have "length (str_replace old [] (drop (length old) (c # t))) \<le> length (drop (length old) (c # t))"
        by blast
      with True "1.prems" Cons show ?thesis
        by (simp add: str_replace_Cons)
    next
      case False
      with "1.IH" "1.prems" Cons show ?thesis
        by (simp add: str_replace_Cons)
    qed
  qed
qed

section \<open>Properties of the renaming\<close>

text \<open>C39: The token is removed wherever it stands, not only at the front: a label with one
  occurrence of \<^verbatim>\<open>YR\<close> between two parts that do not contain it is renamed to the two parts
  joined.\<close>

theorem str_replace_removes_inner_token:
  assumes "\<not> sublist ''YR'' s" and "\<not> sublist ''YR'' t"
  shows "str_replace ''YR'' [] (s @ ''YR'' @ t) = s @ t"
  using assms(1)
proof (induction s)
  case Nil
  from str_replace_prefix [of "''YR''" "[]" t] str_replace_absent [OF _ assms(2), of "[]"]
  show ?case by simp
next
  case (Cons c s)
  from Cons.prems have s: "\<not> sublist ''YR'' s" and c: "\<not> prefix ''YR'' (c # s)"
    by (auto simp: sublist_Cons_right)
  from c have "\<not> prefix ''YR'' (c # s @ ''YR'' @ t)"
    by (cases s) auto
  then have "str_replace ''YR'' [] ((c # s) @ ''YR'' @ t) = c # str_replace ''YR'' [] (s @ ''YR'' @ t)"
    by (simp add: str_replace_skip)
  with Cons.IH [OF s] show ?case by simp
qed

theorem str_replace_removes_inner_token_witness:
  "\<not> sublist ''YR'' ''F'' \<and> \<not> sublist ''YR'' ''2000'' \<and>
   str_replace ''YR'' [] (''F'' @ ''YR'' @ ''2000'') = ''F2000''"
proof -
  have "\<not> sublist ''YR'' ''F''" "\<not> sublist ''YR'' ''2000''" by code_simp+
  with str_replace_removes_inner_token [of "''F''" "''2000''"] show ?thesis by simp
qed

end
