(* ===== verification/DataFrame.thy ===== *)
theory DataFrame
  imports Rounding Str_Replace
begin

text \<open>
  The part of a pandas \<^verbatim>\<open>DataFrame\<close> that \<^verbatim>\<open>src/part1_script.py\<close> uses.  A table is a
  record of its row labels (\<open>index\<close>), its column labels (\<open>columns\<close>), the names of the two
  axes and its cells, row by row.  A cell is a number, the missing value \<^verbatim>\<open>NaN\<close> or a
  string.  Labels may repeat, as in pandas.  The operations are the calls of
  \<^verbatim>\<open>preprocess_df\<close> (lines 107 to 122 of the script): \<^verbatim>\<open>dropna(axis=1, how='all')\<close> is
  \<open>dropna_cols\<close>, \<^verbatim>\<open>dropna(subset=..., how='all')\<close> is \<open>dropna_rows\<close>, the assignment to
  \<^verbatim>\<open>df.columns\<close> is \<open>set_columns\<close>, \<^verbatim>\<open>round\<close> is \<open>round_df\<close> and \<^verbatim>\<open>.T\<close> is
  \<open>transpose_df\<close>.  An operation that pandas performs in place or on a copy is here a
  function from the table to the new table; the caller decides which object holds it.
  Both \<^verbatim>\<open>dropna\<close> calls compute a boolean mask (\<open>notna_any_axis0\<close>, \<open>notna_any_axis1\<close>) and
  select by it, which is how pandas implements them.  \<^verbatim>\<open>round\<close> acts on the columns
  of a numeric dtype only; the dtype of a column is taken to be numeric when the column
  holds no string.

  The lemmas relate the row-major implementation to two views of the table, its list of
  labelled columns and its list of labelled rows, on which the specification of each
  operation is a \<open>filter\<close> or a \<open>map\<close>.
\<close>

section \<open>Cells and frames\<close>

datatype cell = Num rat | NaN | Str string

fun isna :: "cell \<Rightarrow> bool" where
  "isna NaN = True"
| "isna (Num x) = False"
| "isna (Str s) = False"

fun is_str :: "cell \<Rightarrow> bool" where
  "is_str (Str s) = True"
| "is_str (Num x) = False"
| "is_str NaN = False"

fun round_cell :: "nat \<Rightarrow> cell \<Rightarrow> cell" where
  "round_cell n (Num x) = Num (round_decimals n x)"
| "round_cell n NaN = NaN"
| "round_cell n (Str s) = Str s"

record dataframe =
  index :: "label list"
  index_name :: "label option"
  columns :: "label list"
  columns_name :: "label option"
  cells :: "cell list list"

definition wf_frame :: "dataframe \<Rightarrow> bool" where
  "wf_frame df \<longleftrightarrow> rect (length (index df)) (length (columns df)) (cells df)"

definition shape :: "dataframe \<Rightarrow> nat \<times> nat" where
  "shape df = (length (index df), length (columns df))"

section \<open>Operations\<close>

definition notna_any_axis0 :: "dataframe \<Rightarrow> bool list" where
  "notna_any_axis0 df =
     map (\<lambda>j. \<not> list_all isna (column j (cells df))) [0..<length (columns df)]"

definition notna_any_axis1 :: "bool list \<Rightarrow> dataframe \<Rightarrow> bool list" where
  "notna_any_axis1 cmask df = map (\<lambda>r. \<not> list_all isna (select_by cmask r)) (cells df)"

definition dropna_cols :: "dataframe \<Rightarrow> dataframe" where
  "dropna_cols df =
     (let keep = notna_any_axis0 df
      in df\<lparr>columns := select_by keep (columns df),
             cells := map (select_by keep) (cells df)\<rparr>)"

definition dropna_rows :: "label list \<Rightarrow> dataframe \<Rightarrow> dataframe result" where
  "dropna_rows sub df =
     (let missing = filter (\<lambda>l. l \<notin> set (columns df)) sub
      in if missing \<noteq> [] then Inl (KeyError missing)
         else let keep = notna_any_axis1 (map (\<lambda>c. c \<in> set sub) (columns df)) df
              in Inr (df\<lparr>index := select_by keep (index df),
                           cells := select_by keep (cells df)\<rparr>))"

definition set_columns :: "label list \<Rightarrow> dataframe \<Rightarrow> dataframe result" where
  "set_columns new df =
     (if length new \<noteq> length (columns df) then Inl (ValueError ''Length mismatch'')
      else Inr (df\<lparr>columns := new\<rparr>))"

definition numeric_mask :: "dataframe \<Rightarrow> bool list" where
  "numeric_mask df =
     map (\<lambda>j. \<not> list_ex is_str (column j (cells df))) [0..<length (columns df)]"

definition round_column :: "nat \<Rightarrow> cell list \<Rightarrow> cell list" where
  "round_column n vs = (if list_ex is_str vs then vs else map (round_cell n) vs)"

definition round_df :: "nat \<Rightarrow> dataframe \<Rightarrow> dataframe" where
  "round_df n df =
     (let numeric = numeric_mask df
      in df\<lparr>cells := map (\<lambda>r. map2 (\<lambda>num c. if num then round_cell n c else c) numeric r)
                          (cells df)\<rparr>)"

definition transpose_df :: "dataframe \<Rightarrow> dataframe" where
  "transpose_df df =
     \<lparr>index = columns df, index_name = columns_name df,
      columns = index df, columns_name = index_name df,
      cells = transpose_rect (length (columns df)) (cells df)\<rparr>"

section \<open>The table as labelled columns and labelled rows\<close>

text \<open>Two views of a table that the specifications of the operations are stated on:
  the list of its columns, each with its label, and the list of its rows, each with its
  label.\<close>

definition labelled_columns :: "dataframe \<Rightarrow> (label \<times> cell list) list" where
  "labelled_columns df = zip (columns df) (transpose_rect (length (columns df)) (cells df))"

definition labelled_rows :: "dataframe \<Rightarrow> (label \<times> cell list) list" where
  "labelled_rows df = zip (index df) (cells df)"

definition all_null :: "label \<times> cell list \<Rightarrow> bool" where
  "all_null lv = list_all isna (snd lv)"

definition cell_at :: "dataframe \<Rightarrow> nat \<Rightarrow> nat \<Rightarrow> cell" where
  "cell_at df i j = cells df ! i ! j"

definition no_null_columns :: "dataframe \<Rightarrow> bool" where
  "no_null_columns df = list_all (\<lambda>lv. \<not> all_null lv) (labelled_columns df)"

definition no_null_rows :: "dataframe \<Rightarrow> bool" where
  "no_null_rows df = list_all (\<lambda>lv. \<not> all_null lv) (labelled_rows df)"

fun cell_decimals :: "nat \<Rightarrow> cell \<Rightarrow> bool" where
  "cell_decimals n (Num x) = has_decimals n x"
| "cell_decimals n NaN = True"
| "cell_decimals n (Str s) = True"

text \<open>A number between two bounds; a missing value and a text are not constrained.\<close>

fun cell_within :: "rat \<Rightarrow> rat \<Rightarrow> cell \<Rightarrow> bool" where
  "cell_within lo hi (Num x) \<longleftrightarrow> lo \<le> x \<and> x \<le> hi"
| "cell_within lo hi NaN \<longleftrightarrow> True"
| "cell_within lo hi (Str s) \<longleftrightarrow> True"

section \<open>Examples\<close>

definition ex_raw :: dataframe where
  "ex_raw = \<lparr>index = [''Aruba'', ''Nowhere'', ''World''], index_name = Some ''Country'',
     columns = [''YR1999'', ''YR2000'', ''YR2001''], columns_name = None,
     cells = [[NaN, Num (1235 / 100), Num (1245 / 100)],
              [NaN, NaN, NaN],
              [NaN, Num 50, NaN]]\<rparr>"

section \<open>Lemmas\<close>

subsection \<open>Cells\<close>

lemma isna_iff [simp]: "isna c \<longleftrightarrow> c = NaN"
  by (cases c) simp_all

lemma isna_round_cell [simp]: "round_cell n c = NaN \<longleftrightarrow> c = NaN"
  by (cases c) simp_all

lemma is_str_round_cell [simp]: "is_str (round_cell n c) = is_str c"
  by (cases c) simp_all

lemma round_cell_idem [simp]: "round_cell n (round_cell n c) = round_cell n c"
  by (cases c) (simp_all add: round_decimals_fixpoint has_decimals_round)

subsection \<open>Masks\<close>

lemma length_notna_any_axis0 [simp]: "length (notna_any_axis0 df) = length (columns df)"
  by (simp add: notna_any_axis0_def)

lemma nth_notna_any_axis0:
  "j < length (columns df) \<Longrightarrow>
     notna_any_axis0 df ! j \<longleftrightarrow> (\<exists>c \<in> set (column j (cells df)). c \<noteq> NaN)"
  by (auto simp: notna_any_axis0_def list_all_iff)

lemma length_notna_any_axis1 [simp]: "length (notna_any_axis1 cmask df) = length (cells df)"
  by (simp add: notna_any_axis1_def)

lemma nth_notna_any_axis1:
  "i < length (cells df) \<Longrightarrow>
     notna_any_axis1 cmask df ! i \<longleftrightarrow> (\<exists>c \<in> set (select_by cmask (cells df ! i)). c \<noteq> NaN)"
  by (auto simp: notna_any_axis1_def list_all_iff)

lemma length_numeric_mask [simp]: "length (numeric_mask df) = length (columns df)"
  by (simp add: numeric_mask_def)

subsection \<open>Fields that an operation leaves alone\<close>

lemma dropna_cols_fields [simp]:
  "index (dropna_cols df) = index df"
  "index_name (dropna_cols df) = index_name df"
  "columns_name (dropna_cols df) = columns_name df"
  "columns (dropna_cols df) = select_by (notna_any_axis0 df) (columns df)"
  "cells (dropna_cols df) = map (select_by (notna_any_axis0 df)) (cells df)"
  by (simp_all add: dropna_cols_def Let_def)

lemma round_df_fields [simp]:
  "index (round_df n df) = index df"
  "index_name (round_df n df) = index_name df"
  "columns (round_df n df) = columns df"
  "columns_name (round_df n df) = columns_name df"
  by (simp_all add: round_df_def Let_def)

lemma transpose_df_fields [simp]:
  "index (transpose_df df) = columns df"
  "index_name (transpose_df df) = columns_name df"
  "columns (transpose_df df) = index df"
  "columns_name (transpose_df df) = index_name df"
  "cells (transpose_df df) = transpose_rect (length (columns df)) (cells df)"
  by (simp_all add: transpose_df_def)

lemma dropna_rows_Inr:
  assumes "dropna_rows sub df = Inr df'"
  shows "columns df' = columns df" "index_name df' = index_name df"
    "columns_name df' = columns_name df"
    "index df' = select_by (notna_any_axis1 (map (\<lambda>c. c \<in> set sub) (columns df)) df) (index df)"
    "cells df' = select_by (notna_any_axis1 (map (\<lambda>c. c \<in> set sub) (columns df)) df) (cells df)"
    "set sub \<subseteq> set (columns df)"
  using assms by (auto simp: dropna_rows_def Let_def filter_empty_conv split: if_splits)

lemma dropna_rows_raises_iff: "raises (dropna_rows sub df) \<longleftrightarrow> \<not> set sub \<subseteq> set (columns df)"
  by (auto simp: dropna_rows_def Let_def filter_empty_conv)

lemma set_columns_Inr:
  assumes "set_columns new df = Inr df'"
  shows "df' = df\<lparr>columns := new\<rparr>" "length new = length (columns df)"
  using assms by (auto simp: set_columns_def split: if_splits)

lemma set_columns_same_length [simp]:
  "length new = length (columns df) \<Longrightarrow> set_columns new df = Inr (df\<lparr>columns := new\<rparr>)"
  by (simp add: set_columns_def)

subsection \<open>Well-formedness is preserved\<close>

lemma wf_frame_rect: "wf_frame df \<Longrightarrow> rect (length (index df)) (length (columns df)) (cells df)"
  by (simp add: wf_frame_def)

lemma wf_frame_length: "wf_frame df \<Longrightarrow> length (cells df) = length (index df)"
  and wf_frame_row: "wf_frame df \<Longrightarrow> r \<in> set (cells df) \<Longrightarrow> length r = length (columns df)"
  by (auto simp: wf_frame_def dest: rect_length rect_row)

lemma wf_frame_rows: "wf_frame df \<Longrightarrow> list_all (\<lambda>r. length r = length (columns df)) (cells df)"
  by (simp add: wf_frame_def rect_def)

lemma wf_dropna_cols [frame_wf]: "wf_frame df \<Longrightarrow> wf_frame (dropna_cols df)"
  unfolding wf_frame_def
  by (intro rectI) (auto simp: rect_length length_select_by dest: rect_row)

lemma wf_dropna_rows [frame_wf]:
  assumes "wf_frame df" and "dropna_rows sub df = Inr df'"
  shows "wf_frame df'"
proof -
  note f = dropna_rows_Inr [OF assms(2)]
  from assms(1) have "length (cells df) = length (index df)" by (rule wf_frame_length)
  then have "length (cells df') = length (index df')"
    by (simp add: f length_select_by)
  moreover have "length r = length (columns df')" if "r \<in> set (cells df')" for r
    using that set_select_by_subset [of _ "cells df"] assms(1)
    by (auto simp: f dest: wf_frame_row)
  ultimately show ?thesis
    unfolding wf_frame_def by (intro rectI)
qed

lemma wf_set_columns [frame_wf]:
  "wf_frame df \<Longrightarrow> set_columns new df = Inr df' \<Longrightarrow> wf_frame df'"
  by (auto simp: set_columns_def wf_frame_def split: if_splits)

lemma wf_round_df [frame_wf]: "wf_frame df \<Longrightarrow> wf_frame (round_df n df)"
  unfolding wf_frame_def
  by (intro rectI) (auto simp: round_df_def Let_def rect_length dest: rect_row)

lemma wf_transpose_df [frame_wf]: "wf_frame df \<Longrightarrow> wf_frame (transpose_df df)"
  by (simp add: wf_frame_def rect_transpose)

lemma wf_frame_update_names [simp]:
  "wf_frame (df\<lparr>index_name := a\<rparr>) = wf_frame df"
  "wf_frame (df\<lparr>columns_name := b\<rparr>) = wf_frame df"
  by (simp_all add: wf_frame_def)

subsection \<open>The operations on the column view and on the row view\<close>

lemma length_labelled_columns [simp]: "length (labelled_columns df) = length (columns df)"
  by (simp add: labelled_columns_def)

lemma length_labelled_rows [simp]:
  "wf_frame df \<Longrightarrow> length (labelled_rows df) = length (index df)"
  by (simp add: labelled_rows_def wf_frame_length)

lemma map_fst_labelled_columns [simp]: "map fst (labelled_columns df) = columns df"
  by (simp add: labelled_columns_def)

lemma map_fst_labelled_rows [simp]: "wf_frame df \<Longrightarrow> map fst (labelled_rows df) = index df"
  by (simp add: labelled_rows_def wf_frame_length)

lemma notna_any_axis0_eq: "notna_any_axis0 df = map (\<lambda>lv. \<not> all_null lv) (labelled_columns df)"
  by (intro nth_equalityI)
    (simp_all add: notna_any_axis0_def labelled_columns_def all_null_def nth_transpose_rect_column)

lemma notna_any_axis1_all_eq:
  assumes "wf_frame df"
  shows "notna_any_axis1 (map (\<lambda>c. c \<in> set (columns df)) (columns df)) df =
         map (\<lambda>lv. \<not> all_null lv) (labelled_rows df)"
proof -
  have "select_by (map (\<lambda>c. c \<in> set (columns df)) (columns df)) r = r"
    if "r \<in> set (cells df)" for r
    using wf_frame_row [OF assms that] by (simp add: select_by_all_True list_all_iff)
  then show ?thesis
    using wf_frame_length [OF assms]
    by (intro nth_equalityI)
      (simp_all add: notna_any_axis1_def labelled_rows_def all_null_def)
qed

lemma labelled_columns_dropna_cols:
  assumes "wf_frame df"
  shows "labelled_columns (dropna_cols df) = filter (\<lambda>lv. \<not> all_null lv) (labelled_columns df)"
proof -
  let ?keep = "notna_any_axis0 df"
  have "list_all (\<lambda>r. length r = length ?keep) (cells df)"
    using assms by (simp add: wf_frame_rows)
  then have "labelled_columns (dropna_cols df) = select_by ?keep (labelled_columns df)"
    by (simp add: labelled_columns_def [abs_def] select_by_zip length_select_by
        transpose_rect_map_select_by [of ?keep, simplified])
  then show ?thesis
    by (simp add: notna_any_axis0_eq select_by_map_pred)
qed

lemma labelled_rows_dropna_cols:
  "labelled_rows (dropna_cols df) = map (\<lambda>(l, r). (l, select_by (notna_any_axis0 df) r)) (labelled_rows df)"
  by (simp add: labelled_rows_def zip_map2)

lemma labelled_rows_dropna_rows:
  assumes "wf_frame df" and "dropna_rows (columns df) df = Inr df'"
  shows "labelled_rows df' = filter (\<lambda>lv. \<not> all_null lv) (labelled_rows df)"
  using dropna_rows_Inr(4,5) [OF assms(2)]
  by (simp add: labelled_rows_def [abs_def] flip: select_by_zip)
     (simp add: notna_any_axis1_all_eq [OF assms(1)] select_by_map_pred flip: labelled_rows_def)

lemma labelled_columns_dropna_rows:
  assumes "dropna_rows sub df = Inr df'"
  shows "labelled_columns df' =
     map (\<lambda>(l, vs). (l, select_by (notna_any_axis1 (map (\<lambda>c. c \<in> set sub) (columns df)) df) vs))
       (labelled_columns df)"
  by (simp add: labelled_columns_def dropna_rows_Inr [OF assms] transpose_rect_select_by zip_map2)

lemma labelled_transpose_df:
  "wf_frame df \<Longrightarrow> labelled_columns (transpose_df df) = labelled_rows df"
  "labelled_rows (transpose_df df) = labelled_columns df"
  by (simp_all add: labelled_columns_def labelled_rows_def wf_frame_length
      transpose_rect_involution [OF wf_frame_rect])

lemma labelled_columns_round_df:
  assumes "wf_frame df"
  shows "labelled_columns (round_df n df) =
     map (\<lambda>(l, vs). (l, round_column n vs)) (labelled_columns df)"
proof -
  let ?f = "\<lambda>num c. if num then round_cell n c else c"
  have "list_all (\<lambda>r. length r = length (numeric_mask df)) (cells df)"
    using assms by (simp add: wf_frame_rows)
  from transpose_rect_map_map2 [OF this, of ?f]
  have "transpose_rect (length (columns df)) (cells (round_df n df)) =
        map2 (\<lambda>b. map (?f b)) (numeric_mask df) (transpose_rect (length (columns df)) (cells df))"
    by (simp add: round_df_def Let_def)
  then show ?thesis
    by (intro nth_equalityI)
      (simp_all add: labelled_columns_def numeric_mask_def nth_transpose_rect_column
        round_column_def)
qed

subsection \<open>A well-formed table is determined by its column view\<close>

lemma cells_eq_transpose_labelled_columns:
  assumes "wf_frame df"
  shows "cells df = transpose_rect (length (index df)) (map snd (labelled_columns df))"
  using transpose_rect_involution [OF wf_frame_rect [OF assms]]
  by (simp add: labelled_columns_def)

lemma frame_eqI:
  assumes "wf_frame df" "wf_frame df'"
    and "index df = index df'" "index_name df = index_name df'"
    and "columns_name df = columns_name df'"
    and "labelled_columns df = labelled_columns df'"
  shows "df = df'"
proof -
  from assms(6) have "columns df = columns df'"
    by (metis map_fst_labelled_columns)
  moreover have "cells df = cells df'"
    using assms(1,2,3,6) by (simp add: cells_eq_transpose_labelled_columns)
  ultimately show ?thesis
    using assms(3-5) by simp
qed

lemma labelled_columns_nth:
  "j < length (columns df) \<Longrightarrow>
     labelled_columns df ! j = (columns df ! j, column j (cells df))"
  by (simp add: labelled_columns_def nth_transpose_rect_column)

lemma in_labelled_columnsE:
  assumes "lv \<in> set (labelled_columns df)"
  obtains j where "j < length (columns df)" "lv = (columns df ! j, column j (cells df))"
  using assms by (auto simp: in_set_conv_nth labelled_columns_nth)

text \<open>A row of the table, read off its columns.\<close>

lemma row_of_columns:
  assumes "wf_frame df" and "k < length (index df)"
  shows "map (\<lambda>lv. snd lv ! k) (labelled_columns df) = cells df ! k"
proof -
  from assms have "cells df ! k \<in> set (cells df)"
    by (simp add: wf_frame_length)
  from wf_frame_row [OF assms(1) this] assms show ?thesis
    by (intro nth_equalityI) (simp_all add: labelled_columns_nth wf_frame_length)
qed

text \<open>A table without text has no text in any column.\<close>

lemma numeric_columns:
  assumes "wf_frame df" and "\<not> list_ex (list_ex is_str) (cells df)"
    and "lv \<in> set (labelled_columns df)"
  shows "\<not> list_ex is_str (snd lv)"
proof -
  from assms(3) obtain j where j: "j < length (columns df)" and lv: "snd lv = column j (cells df)"
    by (auto elim: in_labelled_columnsE)
  have "\<not> is_str (r ! j)" if "r \<in> set (cells df)" for r
  proof -
    from that assms(1) j have "r ! j \<in> set r" by (simp add: wf_frame_row)
    with that assms(2) show ?thesis by (auto simp: list_ex_iff)
  qed
  then show ?thesis
    by (auto simp: lv column_def list_ex_iff)
qed

subsection \<open>Dropping empty columns and rows\<close>

lemma no_null_columns_dropna_cols: "wf_frame df \<Longrightarrow> no_null_columns (dropna_cols df)"
  by (simp add: no_null_columns_def labelled_columns_dropna_cols list_all_iff)

lemma dropna_cols_clean:
  assumes "wf_frame df" and "no_null_columns df"
  shows "dropna_cols df = df"
proof -
  have all: "list_all id (notna_any_axis0 df)"
    using assms(2) by (simp add: no_null_columns_def notna_any_axis0_eq list_all_iff)
  have "select_by (notna_any_axis0 df) r = r" if "r \<in> set (cells df)" for r
    using wf_frame_row [OF assms(1) that] all by (simp add: select_by_all_True)
  then have "map (select_by (notna_any_axis0 df)) (cells df) = cells df"
    by (simp add: map_idI)
  with all show ?thesis
    by (simp add: dropna_cols_def Let_def select_by_all_True)
qed

lemma no_null_rows_dropna_rows:
  "wf_frame df \<Longrightarrow> dropna_rows (columns df) df = Inr df' \<Longrightarrow> no_null_rows df'"
  by (simp add: no_null_rows_def labelled_rows_dropna_rows list_all_iff)

text \<open>Dropping the empty rows cannot empty a column: a cell with a value keeps its row.\<close>

lemma no_null_columns_dropna_rows:
  assumes wf: "wf_frame df" and ok: "dropna_rows (columns df) df = Inr df'"
    and cols: "no_null_columns df"
  shows "no_null_columns df'"
proof -
  let ?keep = "notna_any_axis1 (map (\<lambda>c. c \<in> set (columns df)) (columns df)) df"
  have "\<not> all_null (l, select_by ?keep vs)" if "(l, vs) \<in> set (labelled_columns df)" for l vs
  proof -
    from that obtain j where j: "j < length (columns df)" and vs: "vs = column j (cells df)"
      by (auto elim: in_labelled_columnsE)
    from cols that have "\<not> all_null (l, vs)"
      by (auto simp: no_null_columns_def list_all_iff)
    then obtain i where i: "i < length (cells df)" and v: "cells df ! i ! j \<noteq> NaN"
      by (auto simp: all_null_def vs list_all_length)
    from i wf j have "cells df ! i ! j \<in> set (cells df ! i)"
      by (simp add: wf_frame_row)
    with v i wf have "?keep ! i"
      by (auto simp: notna_any_axis1_all_eq labelled_rows_def all_null_def
          wf_frame_length list_all_iff)
    with i have "vs ! i \<in> set (select_by ?keep vs)"
      by (intro in_select_byI) (simp_all add: vs)
    with v i show ?thesis
      by (auto simp: all_null_def vs list_all_iff)
  qed
  then show ?thesis
    by (auto simp: no_null_columns_def labelled_columns_dropna_rows [OF ok] list_all_iff)
qed

subsection \<open>Rounding\<close>

lemma round_df_isna:
  "wf_frame df \<Longrightarrow> map (map isna) (cells (round_df n df)) = map (map isna) (cells df)"
  by (auto simp: round_df_def Let_def wf_frame_row intro!: nth_equalityI split: if_splits)

lemma round_df_decimals:
  assumes "wf_frame df" and "(l, vs) \<in> set (labelled_columns (round_df n df))"
  shows "list_ex is_str vs \<or> list_all (cell_decimals n) vs"
proof -
  have "cell_decimals n (round_cell n c)" for c
    by (cases c) (simp_all add: has_decimals_round)
  with assms show ?thesis
    by (auto simp: labelled_columns_round_df round_column_def list_all_iff split: if_splits)
qed

text \<open>In a table without text every column is numeric, and rounding rounds every cell.\<close>

lemma numeric_mask_numeric:
  assumes "wf_frame df" and "\<not> list_ex (list_ex is_str) (cells df)"
  shows "numeric_mask df = replicate (length (columns df)) True"
proof -
  have "\<not> list_ex is_str (column j (cells df))" if "j < length (columns df)" for j
  proof -
    from that have "labelled_columns df ! j \<in> set (labelled_columns df)"
      by simp
    from numeric_columns [OF assms this] that show ?thesis
      by (simp add: labelled_columns_nth)
  qed
  then show ?thesis
    by (intro nth_equalityI) (simp_all add: numeric_mask_def)
qed

lemma round_df_numeric:
  assumes "wf_frame df" and "\<not> list_ex (list_ex is_str) (cells df)"
  shows "cells (round_df n df) = map (map (round_cell n)) (cells df)"
proof -
  have "map2 (\<lambda>num c. if num then round_cell n c else c) (replicate (length (columns df)) True) r =
      map (round_cell n) r" if "r \<in> set (cells df)" for r
    using wf_frame_row [OF assms(1) that] by (intro nth_equalityI) simp_all
  then show ?thesis
    by (simp add: round_df_def Let_def numeric_mask_numeric [OF assms])
qed

lemma labelled_rows_round_df_numeric:
  assumes "wf_frame df" and "\<not> list_ex (list_ex is_str) (cells df)"
  shows "labelled_rows (round_df n df) = map (\<lambda>(l, r). (l, map (round_cell n) r)) (labelled_rows df)"
  by (simp add: labelled_rows_def round_df_numeric [OF assms] zip_map2)

text \<open>Rounding changes nothing in a table whose numbers have no more decimals.\<close>

lemma cell_within_round:
  assumes "has_decimals n lo" and "has_decimals n hi" and "cell_within lo hi c"
  shows "cell_within lo hi (round_cell n c)"
  using assms round_decimals_between [of n lo hi] by (cases c) simp_all

lemma round_cell_fixpoint: "cell_decimals n c \<Longrightarrow> round_cell n c = c"
  by (cases c) (simp_all add: round_decimals_fixpoint)

lemma round_df_clean:
  assumes "wf_frame df" and "list_all (list_all (cell_decimals n)) (cells df)"
  shows "round_df n df = df"
proof -
  have "map2 (\<lambda>num c. if num then round_cell n c else c) (numeric_mask df) r = r"
    if "r \<in> set (cells df)" for r
    using wf_frame_row [OF assms(1) that] assms(2) that
    by (intro nth_equalityI) (auto simp: list_all_iff round_cell_fixpoint)
  then have "map (\<lambda>r. map2 (\<lambda>num c. if num then round_cell n c else c) (numeric_mask df) r) (cells df) =
      cells df"
    by (intro map_idI)
  then show ?thesis
    by (simp add: round_df_def Let_def)
qed

lemma map_snd_labelled_rows [simp]: "wf_frame df \<Longrightarrow> map snd (labelled_rows df) = cells df"
  by (simp add: labelled_rows_def wf_frame_length)

lemma no_null_rows_iff:
  assumes "wf_frame df"
  shows "no_null_rows df \<longleftrightarrow> list_all (\<lambda>r. \<not> list_all isna r) (cells df)"
proof -
  have "no_null_rows df \<longleftrightarrow> list_all (\<lambda>r. \<not> list_all isna r) (map snd (labelled_rows df))"
    by (simp add: no_null_rows_def all_null_def list_all_iff)
  with assms show ?thesis by simp
qed

lemma no_null_columns_iff:
  "no_null_columns df \<longleftrightarrow>
     list_all (\<lambda>vs. \<not> list_all isna vs) (transpose_rect (length (columns df)) (cells df))"
proof -
  have "map snd (labelled_columns df) = transpose_rect (length (columns df)) (cells df)"
    by (simp add: labelled_columns_def)
  moreover have "no_null_columns df \<longleftrightarrow>
      list_all (\<lambda>vs. \<not> list_all isna vs) (map snd (labelled_columns df))"
    unfolding no_null_columns_def all_null_def list.pred_map comp_def ..
  ultimately show ?thesis by (simp only:)
qed

lemma all_null_round_column [simp]: "all_null (l, round_column n vs) = all_null (l, vs)"
  by (simp add: all_null_def round_column_def list_all_iff)

lemma no_null_columns_round_df:
  "wf_frame df \<Longrightarrow> no_null_columns (round_df n df) = no_null_columns df"
  by (simp add: no_null_columns_def labelled_columns_round_df list.pred_map comp_def
      case_prod_unfold)

lemma no_null_rows_round_df:
  assumes "wf_frame df"
  shows "no_null_rows (round_df n df) = no_null_rows df"
proof -
  have "list_all (\<lambda>r. \<not> list_all isna r) m \<longleftrightarrow> list_all (\<lambda>bs. \<not> list_all id bs) (map (map isna) m)"
    for m :: "cell list list"
    by (simp add: list_all_iff)
  then show ?thesis
    using round_df_isna [OF assms, of n]
    by (simp add: no_null_rows_iff assms wf_round_df)
qed

lemma no_null_transpose_df:
  "wf_frame df \<Longrightarrow> no_null_rows (transpose_df df) = no_null_columns df"
  "wf_frame df \<Longrightarrow> no_null_columns (transpose_df df) = no_null_rows df"
  by (simp_all add: no_null_rows_def no_null_columns_def labelled_transpose_df)

lemma no_null_names [simp]:
  "no_null_rows (df\<lparr>index_name := a\<rparr>) = no_null_rows df"
  "no_null_rows (df\<lparr>columns_name := b\<rparr>) = no_null_rows df"
  "no_null_columns (df\<lparr>index_name := a\<rparr>) = no_null_columns df"
  "no_null_columns (df\<lparr>columns_name := b\<rparr>) = no_null_columns df"
  by (simp_all add: no_null_rows_def no_null_columns_def labelled_rows_def labelled_columns_def)

lemma no_null_set_columns [simp]:
  "length new = length (columns df) \<Longrightarrow>
     no_null_columns (df\<lparr>columns := new\<rparr>) = no_null_columns df"
  "no_null_rows (df\<lparr>columns := new\<rparr>) = no_null_rows df"
  by (simp_all add: no_null_columns_iff no_null_rows_def labelled_rows_def)

subsection \<open>Transposition\<close>

lemma transpose_df_involution: "wf_frame df \<Longrightarrow> transpose_df (transpose_df df) = df"
  by (simp add: transpose_df_def [of "transpose_df df"]
      transpose_rect_involution [OF wf_frame_rect])

lemma cell_at_transpose_df:
  "i < length (index df) \<Longrightarrow> j < length (columns df) \<Longrightarrow> wf_frame df \<Longrightarrow>
     cell_at (transpose_df df) j i = cell_at df i j"
  by (simp add: cell_at_def nth_transpose_rect wf_frame_length)

lemma shape_transpose_df: "shape (transpose_df df) = prod.swap (shape df)"
  by (simp add: shape_def)

lemma shape_dropna_cols:
  "shape (dropna_cols df) =
     (length (index df), length (filter (\<lambda>lv. \<not> all_null lv) (labelled_columns df)))"
  by (simp add: shape_def length_select_by notna_any_axis0_eq filter_map comp_def)

lemma shape_dropna_rows:
  assumes "wf_frame df" and "dropna_rows (columns df) df = Inr df'"
  shows "shape df' =
     (length (filter (\<lambda>lv. \<not> all_null lv) (labelled_rows df)), length (columns df))"
proof -
  have "length (index df') = length (labelled_rows df')"
    using wf_dropna_rows [OF assms] by simp
  then show ?thesis
    by (simp add: shape_def labelled_rows_dropna_rows [OF assms] dropna_rows_Inr(1) [OF assms(2)])
qed

subsection \<open>The example table\<close>

lemma wf_ex_raw: "wf_frame ex_raw"
  by (simp add: wf_frame_def rect_def ex_raw_def)

lemma columns_ex_raw: "columns ex_raw = [''YR1999'', ''YR2000'', ''YR2001'']"
  by (simp add: ex_raw_def)

lemma labelled_columns_ex_raw:
  "labelled_columns ex_raw =
     [(''YR1999'', [NaN, NaN, NaN]),
      (''YR2000'', [Num (1235 / 100), NaN, Num 50]),
      (''YR2001'', [Num (1245 / 100), NaN, NaN])]"
  by code_simp

lemma labelled_rows_ex_raw:
  "labelled_rows ex_raw =
     [(''Aruba'', [NaN, Num (1235 / 100), Num (1245 / 100)]),
      (''Nowhere'', [NaN, NaN, NaN]),
      (''World'', [NaN, Num 50, NaN])]"
  by code_simp

section \<open>Properties of the table operations\<close>

text \<open>C10: \<^verbatim>\<open>dropna(axis=1, how='all')\<close> removes exactly the columns whose cells are all
  missing and no others: the labelled columns of the result are the labelled columns of
  the table that have a value, in their order and with their cells unchanged.\<close>

theorem dropna_cols_removes_exactly_the_empty_columns:
  "wf_frame df \<Longrightarrow>
     labelled_columns (dropna_cols df) = filter (\<lambda>lv. \<not> all_null lv) (labelled_columns df)"
  by (rule labelled_columns_dropna_cols)

theorem dropna_cols_removes_exactly_the_empty_columns_witness:
  "wf_frame ex_raw \<and>
   labelled_columns (dropna_cols ex_raw) =
     [(''YR2000'', [Num (1235 / 100), NaN, Num 50]), (''YR2001'', [Num (1245 / 100), NaN, NaN])]"
  using dropna_cols_removes_exactly_the_empty_columns [OF wf_ex_raw]
  by (simp add: wf_ex_raw labelled_columns_ex_raw all_null_def)

text \<open>C35: \<^verbatim>\<open>dropna(subset=list(df.columns), how='all')\<close> does not raise and removes
  exactly the rows whose cells are all missing: the labelled rows of the result are the
  labelled rows of the table that have a value.\<close>

theorem dropna_rows_removes_exactly_the_empty_rows:
  assumes "wf_frame df"
  shows "\<exists>df'. dropna_rows (columns df) df = Inr df' \<and>
     labelled_rows df' = filter (\<lambda>lv. \<not> all_null lv) (labelled_rows df) \<and>
     columns df' = columns df"
proof -
  obtain df' where ok: "dropna_rows (columns df) df = Inr df'"
    using dropna_rows_raises_iff [of "columns df" df] by (auto simp: not_raises_iff)
  with assms show ?thesis
    by (auto simp: labelled_rows_dropna_rows dropna_rows_Inr(1))
qed

theorem dropna_rows_removes_exactly_the_empty_rows_witness:
  "wf_frame ex_raw \<and>
   (\<exists>df'. dropna_rows (columns ex_raw) ex_raw = Inr df' \<and>
      labelled_rows df' =
        [(''Aruba'', [NaN, Num (1235 / 100), Num (1245 / 100)]), (''World'', [NaN, Num 50, NaN])] \<and>
      columns df' = [''YR1999'', ''YR2000'', ''YR2001''])"
  using dropna_rows_removes_exactly_the_empty_rows [OF wf_ex_raw]
  by (simp add: wf_ex_raw labelled_rows_ex_raw columns_ex_raw all_null_def)

text \<open>\<^verbatim>\<open>dropna\<close> with a \<^verbatim>\<open>subset\<close> raises \<^verbatim>\<open>KeyError\<close> exactly when a label of
  the subset is not a column label, and the error carries the missing labels.\<close>

lemma dropna_rows_key_error:
  "raises (dropna_rows sub df) = (\<not> set sub \<subseteq> set (columns df)) \<and>
   (case dropna_rows sub df of
      Inl e \<Rightarrow> e = KeyError (filter (\<lambda>l. l \<notin> set (columns df)) sub)
    | Inr df' \<Rightarrow> set sub \<subseteq> set (columns df))"
  by (auto simp: dropna_rows_def Let_def filter_empty_conv)

text \<open>C36: Transposing a table twice gives the table back, and the cell in row \<open>i\<close> and
  column \<open>j\<close> of a table is the cell in row \<open>j\<close> and column \<open>i\<close> of its transpose.\<close>

theorem transpose_df_round_trip:
  assumes "wf_frame df"
  shows "transpose_df (transpose_df df) = df \<and>
    list_all (\<lambda>i. list_all (\<lambda>j. cell_at (transpose_df df) j i = cell_at df i j)
      [0..<length (columns df)]) [0..<length (index df)]"
  using assms by (simp add: transpose_df_involution cell_at_transpose_df list_all_iff)

theorem transpose_df_round_trip_witness:
  "wf_frame ex_raw \<and> transpose_df (transpose_df ex_raw) = ex_raw \<and>
   cell_at (transpose_df ex_raw) 1 2 = Num 50"
proof -
  have "cell_at ex_raw 2 1 = Num 50"
    by (simp add: cell_at_def ex_raw_def)
  moreover have "2 < length (index ex_raw)" "1 < length (columns ex_raw)"
    by (simp_all add: ex_raw_def)
  ultimately show ?thesis
    using transpose_df_round_trip [OF wf_ex_raw] wf_ex_raw
    by (auto simp: list_all_iff)
qed

text \<open>Rounding a table is idempotent: a table that \<^verbatim>\<open>round(n)\<close> has produced is not
  changed by rounding it again.\<close>

lemma round_df_idempotent:
  assumes "wf_frame df"
  shows "round_df n (round_df n df) = round_df n df"
proof (rule frame_eqI)
  let ?g = "\<lambda>(l :: label, vs). (l, round_column n vs)"
  have "?g (?g lv) = ?g lv" for lv
    by (cases lv) (simp add: round_column_def list_ex_iff)
  then show "labelled_columns (round_df n (round_df n df)) = labelled_columns (round_df n df)"
    using assms by (simp add: labelled_columns_round_df wf_round_df comp_def)
qed (simp_all add: assms wf_round_df)

text \<open>\<^verbatim>\<open>round\<close> acts column by column: a column that holds a string is left as it
  is, and in every other column each number is rounded and each missing value stays
  missing.\<close>

lemma round_df_by_column:
  "wf_frame df \<Longrightarrow>
     labelled_columns (round_df n df) = map (\<lambda>(l, vs). (l, round_column n vs)) (labelled_columns df)"
  by (rule labelled_columns_round_df)



end
