(* ===== verification/Console.thy ===== *)
theory Console
  imports DataFrame
begin

text \<open>
  The console of the script and the function \<^verbatim>\<open>inspect_dataframe\<close> of
  \<^verbatim>\<open>src/part1_script.py\<close> (lines 71 to 91).  What a run has printed is the list \<open>stdout\<close> of
  the record \<open>console\<close>, one item for each write, in the order of the writes.  An item is a
  text, as \<^verbatim>\<open>print\<close> writes it for strings, numbers, tuples and \<^verbatim>\<open>None\<close>, or a table handed
  to \<^verbatim>\<open>print\<close>, or the summary that \<^verbatim>\<open>df.info()\<close> writes, or the statistics of
  \<^verbatim>\<open>df.describe()\<close>.  For the last three the item records which table was printed; how pandas
  lays the table out in characters is not modelled.

  \<open>str_nat\<close> and \<open>str_shape\<close> are Python's \<^verbatim>\<open>str\<close> on a non-negative integer and on the pair
  that \<^verbatim>\<open>df.shape\<close> returns; \<open>nat_of_str\<close> reads a number back and is used to state that no two
  numbers print alike.  \<open>head_df\<close> is \<^verbatim>\<open>df.head(n)\<close>.  \<open>describe_df\<close> is \<^verbatim>\<open>df.describe()\<close> as far
  as the script depends on it: it raises \<^verbatim>\<open>ValueError\<close> on a table without columns.
  \<open>inspect_output\<close> is what the inspection is found to write.
\<close>

section \<open>The console\<close>

datatype out_item =
    Text string
  | Table dataframe
  | Info dataframe
  | Describe dataframe

record console =
  stdout :: "out_item list"

definition py_print :: "out_item \<Rightarrow> ('e console_scheme, unit) io" where
  "py_print x = io_modify (\<lambda>s. s\<lparr>stdout := stdout s @ [x]\<rparr>)"

section \<open>Printed values\<close>

definition nl :: char where
  "nl = CHR 0x0A"

definition stars :: string where
  "stars = nl # ''********************'' @ [nl]"

definition digit_char :: "nat \<Rightarrow> char" where
  "digit_char d = char_of (48 + d)"

function str_nat :: "nat \<Rightarrow> string" where
  "str_nat n = (if n < 10 then [digit_char n] else str_nat (n div 10) @ [digit_char (n mod 10)])"
  by pat_completeness auto
termination
  by (relation "measure (\<lambda>n. n)") auto

declare str_nat.simps [simp del]

definition str_shape :: "nat \<times> nat \<Rightarrow> string" where
  "str_shape sh = ''('' @ str_nat (fst sh) @ '', '' @ str_nat (snd sh) @ '')''"

definition str_none :: "unit \<Rightarrow> string" where
  "str_none none = ''None''"

text \<open>\<^verbatim>\<open>print(text, shape)\<close>: the two arguments, separated by a blank.\<close>

definition print_shape :: "string \<Rightarrow> nat \<times> nat \<Rightarrow> ('e console_scheme, unit) io" where
  "print_shape text sh = py_print (Text (text @ '' '' @ str_shape sh))"

section \<open>Table methods that the inspection calls\<close>

definition head_df :: "nat \<Rightarrow> dataframe \<Rightarrow> dataframe" where
  "head_df n df = df\<lparr>index := take n (index df), cells := take n (cells df)\<rparr>"

text \<open>\<^verbatim>\<open>df.info()\<close> writes its summary itself and returns \<^verbatim>\<open>None\<close>.\<close>

definition df_info :: "dataframe \<Rightarrow> ('e console_scheme, unit) io" where
  "df_info df = py_print (Info df)"

definition describe_df :: "dataframe \<Rightarrow> out_item result" where
  "describe_df df =
     (if columns df = [] then Inl (ValueError ''Cannot describe a DataFrame without columns'')
      else Inr (Describe df))"

section \<open>The inspection\<close>

definition inspect_dataframe :: "dataframe \<Rightarrow> ('e console_scheme, unit) io" where
  "inspect_dataframe df = io_seq
     [py_print (Text (''Top 5 rows:'' @ [nl])),
      py_print (Table (head_df 5 df)),
      py_print (Text stars),
      py_print (Text (''Column data-type and non-null count:'' @ [nl])),
      io_bind (df_info df) (\<lambda>none. py_print (Text (str_none none))),
      py_print (Text stars),
      py_print (Text (''Basic summary statistics for numerical column:'' @ [nl])),
      io_bind (io_lift (describe_df df)) py_print,
      py_print (Text stars)]"

section \<open>Specification\<close>

text \<open>Reading a printed number.\<close>

definition nat_of_str :: "string \<Rightarrow> nat" where
  "nat_of_str s = foldl (\<lambda>a c. 10 * a + (of_char c - 48)) 0 s"

text \<open>Reading a printed shape: the numbers between the parentheses, before and after the
  comma.\<close>

definition shape_of_str :: "string \<Rightarrow> nat \<times> nat" where
  "shape_of_str s =
     (let body = butlast (tl s)
      in (nat_of_str (takeWhile (\<lambda>c. c \<noteq> CHR '','') body),
          nat_of_str (drop 2 (dropWhile (\<lambda>c. c \<noteq> CHR '','') body))))"

text \<open>What the inspection of a table with a column writes.\<close>

definition inspect_output :: "dataframe \<Rightarrow> out_item list" where
  "inspect_output df =
     [Text (''Top 5 rows:'' @ [nl]), Table (head_df 5 df), Text stars,
      Text (''Column data-type and non-null count:'' @ [nl]), Info df, Text ''None'', Text stars,
      Text (''Basic summary statistics for numerical column:'' @ [nl]), Describe df, Text stars]"

section \<open>Example\<close>

definition ex_console :: console where
  "ex_console = \<lparr>stdout = []\<rparr>"

section \<open>Lemmas\<close>

subsection \<open>Printing\<close>

lemma py_print_run [io_simps]: "py_print x s = (Inr (), s\<lparr>stdout := stdout s @ [x]\<rparr>)"
  by (simp add: py_print_def io_simps)

lemma io_then_print [io_simps]: "io_then (py_print x) k s = k (s\<lparr>stdout := stdout s @ [x]\<rparr>)"
  by (simp add: py_print_def io_simps)

lemma print_shape_run [io_simps]:
  "print_shape text sh s = (Inr (), s\<lparr>stdout := stdout s @ [Text (text @ '' '' @ str_shape sh)]\<rparr>)"
  by (simp add: print_shape_def io_simps)

lemma io_then_print_shape [io_simps]:
  "io_then (print_shape text sh) k s = k (s\<lparr>stdout := stdout s @ [Text (text @ '' '' @ str_shape sh)]\<rparr>)"
  by (simp add: print_shape_def io_simps)

lemma df_info_run [io_simps]: "df_info df s = (Inr (), s\<lparr>stdout := stdout s @ [Info df]\<rparr>)"
  by (simp add: df_info_def io_simps)

lemma inspect_dataframe_run:
  "inspect_dataframe df s =
     (if columns df = []
      then (Inl (ValueError ''Cannot describe a DataFrame without columns''),
            s\<lparr>stdout := stdout s @ take 8 (inspect_output df)\<rparr>)
      else (Inr (), s\<lparr>stdout := stdout s @ inspect_output df\<rparr>))"
  by (simp add: inspect_dataframe_def inspect_output_def describe_df_def str_none_def io_simps)

subsection \<open>Decimal numbers\<close>

lemma str_nat_digit: "n < 10 \<Longrightarrow> str_nat n = [digit_char n]"
  by (subst str_nat.simps) simp

lemma str_nat_step: "10 \<le> n \<Longrightarrow> str_nat n = str_nat (n div 10) @ [digit_char (n mod 10)]"
  by (subst str_nat.simps) simp

lemma of_char_digit_char: "d < 10 \<Longrightarrow> of_char (digit_char d) = 48 + d"
  by (simp add: digit_char_def)

lemma nat_of_str_snoc: "nat_of_str (s @ [c]) = 10 * nat_of_str s + (of_char c - 48)"
  by (simp add: nat_of_str_def)

lemma nat_of_str_str_nat: "nat_of_str (str_nat n) = n"
proof (induction n rule: str_nat.induct)
  case (1 n)
  show ?case
  proof (cases "n < 10")
    case True
    then show ?thesis
      by (simp add: str_nat_digit nat_of_str_def of_char_digit_char)
  next
    case False
    with 1 have "nat_of_str (str_nat (n div 10)) = n div 10" by simp
    with False show ?thesis
      by (simp add: str_nat_step nat_of_str_snoc of_char_digit_char)
  qed
qed

lemma str_nat_inject: "str_nat m = str_nat n \<longleftrightarrow> m = n"
  by (metis nat_of_str_str_nat)

lemma set_str_nat: "set (str_nat n) \<subseteq> digit_char ` {..<10}"
proof (induction n rule: str_nat.induct)
  case (1 n)
  show ?case
  proof (cases "n < 10")
    case True
    then show ?thesis by (simp add: str_nat_digit)
  next
    case False
    with 1 have "set (str_nat (n div 10)) \<subseteq> digit_char ` {..<10}" by simp
    with False show ?thesis
      by (simp add: str_nat_step)
  qed
qed

lemma str_nat_not_Nil [simp]: "str_nat n \<noteq> []"
  by (subst str_nat.simps) simp

lemma length_str_nat:
  "n < 10 ^ length (str_nat n) \<and> (n \<noteq> 0 \<longrightarrow> 10 ^ (length (str_nat n) - 1) \<le> n)"
proof (induction n rule: str_nat.induct)
  case (1 n)
  show ?case
  proof (cases "n < 10")
    case True
    then show ?thesis by (simp add: str_nat_digit)
  next
    case False
    define k where "k = length (str_nat (n div 10)) - 1"
    have len: "length (str_nat (n div 10)) = Suc k"
      using str_nat_not_Nil [of "n div 10"] by (simp add: k_def)
    from False 1 have "n div 10 < 10 ^ Suc k" "10 ^ k \<le> n div 10"
      by (simp_all add: len)
    then have "n < 10 * 10 ^ Suc k" "10 * 10 ^ k \<le> n"
      by (simp_all add: div_less_iff_less_mult less_eq_div_iff_mult_less_eq mult.commute)
    with False show ?thesis
      by (simp add: str_nat_step len)
  qed
qed

lemma digit_char_not_comma: "c \<in> set (str_nat n) \<Longrightarrow> c \<noteq> CHR '',''"
proof
  assume "c \<in> set (str_nat n)" and "c = CHR '',''"
  with set_str_nat [of n] obtain d where "d < 10" "digit_char d = CHR '',''"
    by auto
  from of_char_digit_char [OF this(1)] this(2) show False
    by simp
qed

lemma shape_of_str_str_shape: "shape_of_str (str_shape (m, n)) = (m, n)"
proof -
  let ?P = "\<lambda>c. c \<noteq> CHR '',''"
  have body: "butlast (tl (str_shape (m, n))) = str_nat m @ CHR '','' # CHR '' '' # str_nat n"
    by (simp add: str_shape_def butlast_append)
  have "takeWhile ?P (str_nat m @ CHR '','' # CHR '' '' # str_nat n) = str_nat m"
    by (subst takeWhile_tail) (auto dest: digit_char_not_comma)
  moreover have "dropWhile ?P (str_nat m @ CHR '','' # CHR '' '' # str_nat n) =
      CHR '','' # CHR '' '' # str_nat n"
    by (subst dropWhile_append3) (auto dest: digit_char_not_comma)
  ultimately show ?thesis
    by (simp add: shape_of_str_def body nat_of_str_str_nat)
qed

subsection \<open>The first rows\<close>

lemma head_df_fields [simp]:
  "index (head_df n df) = take n (index df)"
  "cells (head_df n df) = take n (cells df)"
  "columns (head_df n df) = columns df"
  "index_name (head_df n df) = index_name df"
  "columns_name (head_df n df) = columns_name df"
  by (simp_all add: head_df_def)

lemma wf_head_df [frame_wf]: "wf_frame df \<Longrightarrow> wf_frame (head_df n df)"
  unfolding wf_frame_def
  by (intro rectI) (auto simp: rect_length dest: in_set_takeD rect_row)

lemma labelled_rows_head_df: "labelled_rows (head_df n df) = take n (labelled_rows df)"
  by (simp add: labelled_rows_def take_zip)

lemma head_df_all: "wf_frame df \<Longrightarrow> length (index df) \<le> n \<Longrightarrow> head_df n df = df"
  by (simp add: head_df_def wf_frame_length)

section \<open>Properties\<close>

text \<open>C23: \<^verbatim>\<open>inspect_dataframe\<close> writes, in this order: the heading of the first rows, the
  first five rows of the table, the line of stars, the heading of the summary, the summary that
  \<^verbatim>\<open>df.info()\<close> writes itself, the text \<^verbatim>\<open>None\<close> (the value that \<^verbatim>\<open>df.info()\<close>
  returns and that the surrounding \<^verbatim>\<open>print\<close> writes), the stars, the heading of the
  statistics, the statistics and the stars.  On a table without columns \<^verbatim>\<open>df.describe()\<close>
  raises: the function stops with \<^verbatim>\<open>ValueError\<close> after the heading of the statistics.\<close>

theorem inspect_dataframe_output:
  "inspect_dataframe df s =
     (if columns df = []
      then (Inl (ValueError ''Cannot describe a DataFrame without columns''),
            s\<lparr>stdout := stdout s @
              [Text (''Top 5 rows:'' @ [nl]), Table (head_df 5 df), Text stars,
               Text (''Column data-type and non-null count:'' @ [nl]), Info df, Text ''None'',
               Text stars, Text (''Basic summary statistics for numerical column:'' @ [nl])]\<rparr>)
      else (Inr (), s\<lparr>stdout := stdout s @ inspect_output df\<rparr>))"
  by (simp add: inspect_dataframe_run) (simp add: inspect_output_def)

end
