(* ===== verification/Preprocess.thy ===== *)
theory Preprocess
  imports Console
begin

text \<open>
  The function \<^verbatim>\<open>preprocess_df\<close> of \<^verbatim>\<open>src/part1_script.py\<close> (lines 94 to 131): drop the
  empty columns, drop the empty rows, rename the columns, round, transpose, name the index
  \<^verbatim>\<open>Year\<close> and clear the name of the columns, with a message on the console before each
  step and the shapes and the first rows at the end.  The first three steps change the
  caller's table in place and the others make new tables, so \<open>preprocess_df\<close> returns two
  tables: the caller's table as the statements of lines 107 to 114 leave it, and the table it
  returns.  Labels are values here.  In pandas the index of the transposed table can be the
  very object that labels the columns of the caller's table, so that naming it in line 121
  names those columns as well; this sharing depends on the version of pandas and is not
  modelled.  The script never reads the caller's table again.

  \<open>preprocess_tables\<close> is the functional specification of the function: its data flow
  without the messages.  \<open>preprocess_df\<close> returns what \<open>preprocess_tables\<close> returns
  (\<open>preprocess_df_run\<close>), and the lemmas about the tables are proved for
  \<open>preprocess_tables\<close>.  They describe both results on the table that was passed in:
  \<open>row_mask\<close> and \<open>col_mask\<close> are the rows and columns of that table that hold a value.
  \<open>preprocess_output\<close> is what the function is meant to print, for a table and the table
  returned for it.
\<close>

section \<open>Definitions\<close>

text \<open>The data flow of the function, and the function.\<close>

definition preprocess_tables :: "dataframe \<Rightarrow> (dataframe \<times> dataframe) result" where
  "preprocess_tables df =
     (let df1 = dropna_cols df;
          cols_to_check = columns df1
      in result_bind (dropna_rows cols_to_check df1) (\<lambda>df2.
         result_bind (set_columns (map (str_replace ''YR'' []) (columns df2)) df2) (\<lambda>df3.
         let df4 = round_df 1 df3;
             df5 = transpose_df df4;
             df6 = df5\<lparr>index_name := Some ''Year''\<rparr>;
             df7 = df6\<lparr>columns_name := None\<rparr>
         in Inr (df3, df7))))"

definition preprocess_df :: "dataframe \<Rightarrow> ('e console_scheme, dataframe \<times> dataframe) io" where
  "preprocess_df df =
     (let before_prep_shape = shape df
      in io_then (py_print (Text (nl # ''Drop columns with all nulls.'')))
        (let df1 = dropna_cols df
         in io_then (py_print (Text ''Drop rows with all nulls in year columns.''))
           (let cols_to_check = columns df1
            in io_bind (io_lift (dropna_rows cols_to_check df1)) (\<lambda>df2.
               io_then (py_print (Text ''Remove 'YR' from column names.''))
              (io_bind (io_lift (set_columns (map (str_replace ''YR'' []) (columns df2)) df2)) (\<lambda>df3.
               io_then (py_print (Text ''Round percentage values to 1 decimal place in year columns.''))
              (let df4 = round_df 1 df3
               in io_then (py_print (Text ''Take transpose of the dataframe.''))
                 (let df5 = transpose_df df4;
                      df6 = df5\<lparr>index_name := Some ''Year''\<rparr>;
                      df7 = df6\<lparr>columns_name := None\<rparr>
                  in io_then (io_seq
                       [py_print (Text stars),
                        print_shape ''Shape of dataframe before applying preprocessing:'' before_prep_shape,
                        print_shape ''Shape of dataframe after applying preprocessing:'' (shape df7),
                        py_print (Text (''Top 5 rows now:'' @ [nl])),
                        py_print (Table (head_df 5 df7)),
                        py_print (Text stars)])
                     (io_return (df3, df7))))))))))"

text \<open>The table after the two \<^verbatim>\<open>dropna\<close> calls, which cannot fail.\<close>

definition drop_nulls :: "dataframe \<Rightarrow> dataframe" where
  "drop_nulls df =
     (let df1 = dropna_cols df;
          keep = notna_any_axis1 (map (\<lambda>c. c \<in> set (columns df1)) (columns df1)) df1
      in df1\<lparr>index := select_by keep (index df1), cells := select_by keep (cells df1)\<rparr>)"

text \<open>Line 114 on its own: the assignment to \<^verbatim>\<open>df.columns\<close> when the lengths agree.\<close>

definition rename_years :: "dataframe \<Rightarrow> dataframe" where
  "rename_years df = df\<lparr>columns := map (str_replace ''YR'' []) (columns df)\<rparr>"

text \<open>The masks of the two \<^verbatim>\<open>dropna\<close> calls, read off the table that was passed in.\<close>

definition col_mask :: "dataframe \<Rightarrow> bool list" where
  "col_mask df = map (\<lambda>lv. \<not> all_null lv) (labelled_columns df)"

definition row_mask :: "dataframe \<Rightarrow> bool list" where
  "row_mask df = map (\<lambda>lv. \<not> all_null lv) (labelled_rows df)"

text \<open>What the reshaping is meant to print for the table \<open>df\<close> when it returns \<open>r\<close>: five
  progress messages, then the shape of the table as it was passed in, the shape of the
  table returned, and its first five rows.\<close>

definition preprocess_output :: "dataframe \<Rightarrow> dataframe \<Rightarrow> out_item list" where
  "preprocess_output df r =
     map Text [nl # ''Drop columns with all nulls.'', ''Drop rows with all nulls in year columns.'',
       ''Remove 'YR' from column names.'',
       ''Round percentage values to 1 decimal place in year columns.'',
       ''Take transpose of the dataframe.'', stars,
       ''Shape of dataframe before applying preprocessing: '' @ str_shape (shape df),
       ''Shape of dataframe after applying preprocessing: '' @ str_shape (shape r),
       ''Top 5 rows now:'' @ [nl]] @
     [Table (head_df 5 r), Text stars]"

section \<open>Examples\<close>

definition ex_in_place :: dataframe where
  "ex_in_place = \<lparr>index = [''Aruba'', ''World''], index_name = Some ''Country'',
     columns = [''2000'', ''2001''], columns_name = None,
     cells = [[Num (1235 / 100), Num (1245 / 100)], [Num 50, NaN]]\<rparr>"

definition ex_result :: dataframe where
  "ex_result = \<lparr>index = [''2000'', ''2001''], index_name = Some ''Year'',
     columns = [''Aruba'', ''World''], columns_name = None,
     cells = [[Num (62 / 5), Num 50], [Num (62 / 5), NaN]]\<rparr>"

definition ex_printed :: console where
  "ex_printed = \<lparr>stdout = preprocess_output ex_raw ex_result\<rparr>"

section \<open>Lemmas\<close>

lemma dropna_rows_all_columns:
  "dropna_rows (columns df) df =
     Inr (df\<lparr>index := select_by (notna_any_axis1 (map (\<lambda>c. c \<in> set (columns df)) (columns df)) df) (index df),
             cells := select_by (notna_any_axis1 (map (\<lambda>c. c \<in> set (columns df)) (columns df)) df) (cells df)\<rparr>)"
  by (simp add: dropna_rows_def Let_def filter_empty_conv)

lemma dropna_rows_dropna_cols: "dropna_rows (columns (dropna_cols df)) (dropna_cols df) = Inr (drop_nulls df)"
  by (simp only: dropna_rows_all_columns drop_nulls_def Let_def)

lemma preprocess_tables_eq:
  "preprocess_tables df =
     Inr (rename_years (drop_nulls df),
          (transpose_df (round_df 1 (rename_years (drop_nulls df))))
          \<lparr>index_name := Some ''Year'', columns_name := None\<rparr>)"
  unfolding preprocess_tables_def Let_def dropna_rows_dropna_cols rename_years_def by simp

lemma wf_drop_nulls [frame_wf]: "wf_frame df \<Longrightarrow> wf_frame (drop_nulls df)"
  using wf_dropna_rows [OF wf_dropna_cols dropna_rows_dropna_cols] .

lemma wf_rename_years [frame_wf]: "wf_frame df \<Longrightarrow> wf_frame (rename_years df)"
  by (simp add: wf_frame_def rename_years_def)

lemma rename_years_fields [simp]:
  "index (rename_years df) = index df"
  "index_name (rename_years df) = index_name df"
  "columns (rename_years df) = map (str_replace ''YR'' []) (columns df)"
  "columns_name (rename_years df) = columns_name df"
  "cells (rename_years df) = cells df"
  by (simp_all add: rename_years_def)

lemma drop_nulls_clean:
  assumes "wf_frame df"
  shows "no_null_columns (drop_nulls df)" "no_null_rows (drop_nulls df)"
  using assms dropna_rows_dropna_cols [of df]
  by (blast intro: no_null_columns_dropna_rows no_null_rows_dropna_rows
      no_null_columns_dropna_cols wf_dropna_cols)+

text \<open>On a table without empty rows and columns the two \<^verbatim>\<open>dropna\<close> calls change nothing,
  and labels without the token stay as they are.\<close>

lemma dropna_rows_clean:
  assumes "wf_frame df" and "no_null_rows df"
  shows "dropna_rows (columns df) df = Inr df"
proof -
  let ?keep = "notna_any_axis1 (map (\<lambda>c. c \<in> set (columns df)) (columns df)) df"
  from assms(2) have "list_all id ?keep"
    by (simp add: notna_any_axis1_all_eq [OF assms(1)] no_null_rows_def list_all_iff)
  moreover have "length ?keep = length (index df)" "length ?keep = length (cells df)"
    using wf_frame_length [OF assms(1)] by simp_all
  ultimately show ?thesis
    by (simp add: dropna_rows_all_columns select_by_all_True)
qed

lemma drop_nulls_clean_table:
  assumes "wf_frame df" and "no_null_columns df" and "no_null_rows df"
  shows "drop_nulls df = df"
  using dropna_rows_dropna_cols [of df] dropna_rows_clean [OF assms(1,3)]
  by (simp add: dropna_cols_clean [OF assms(1,2)])

lemma rename_years_clean:
  assumes "list_all (\<lambda>l. \<not> sublist ''YR'' l) (columns df)"
  shows "rename_years df = df"
proof -
  from assms have "map (str_replace ''YR'' []) (columns df) = columns df"
    by (intro map_idI) (simp add: list_all_iff str_replace_absent)
  then show ?thesis
    by (simp add: rename_years_def)
qed

subsection \<open>The two dropna calls on the views of the table that was passed in\<close>

lemma col_mask_eq: "notna_any_axis0 df = col_mask df"
  by (simp add: col_mask_def notna_any_axis0_eq)

text \<open>A row is empty in the table without its empty columns iff it is empty in the table.\<close>

lemma all_null_row_dropna_cols:
  assumes "wf_frame df" and "r \<in> set (cells df)"
  shows "list_all isna (select_by (col_mask df) r) \<longleftrightarrow> list_all isna r"
proof
  assume sel: "list_all isna (select_by (col_mask df) r)"
  have len: "length r = length (columns df)"
    using assms by (rule wf_frame_row)
  have "r ! j = NaN" if j: "j < length (columns df)" for j
  proof (cases "col_mask df ! j")
    case True
    with j len have "r ! j \<in> set (select_by (col_mask df) r)"
      by (intro in_select_byI) (simp_all add: col_mask_def)
    with sel show ?thesis by (simp add: list_all_iff)
  next
    case False
    with j have "list_all isna (column j (cells df))"
      by (simp add: col_mask_def labelled_columns_nth all_null_def)
    moreover from assms(2) have "r ! j \<in> set (column j (cells df))"
      by (auto simp: column_def)
    ultimately show ?thesis by (simp add: list_all_iff)
  qed
  with len show "list_all isna r"
    by (simp add: list_all_length)
next
  assume "list_all isna r"
  then show "list_all isna (select_by (col_mask df) r)"
    using set_select_by_subset [of "col_mask df" r] by (auto simp: list_all_iff)
qed

lemma row_mask_dropna_cols:
  assumes "wf_frame df"
  shows "row_mask (dropna_cols df) = row_mask df"
  using all_null_row_dropna_cols [OF assms] wf_frame_length [OF assms]
  by (intro nth_equalityI)
    (simp_all add: row_mask_def labelled_rows_def all_null_def col_mask_eq)

lemma drop_nulls_eq:
  assumes "wf_frame df"
  shows "drop_nulls df =
     (dropna_cols df)\<lparr>index := select_by (row_mask df) (index df),
                       cells := select_by (row_mask df) (cells (dropna_cols df))\<rparr>"
  using notna_any_axis1_all_eq [OF wf_dropna_cols [OF assms]] row_mask_dropna_cols [OF assms]
  by (simp add: drop_nulls_def Let_def row_mask_def)

lemma drop_nulls_fields:
  assumes "wf_frame df"
  shows "index (drop_nulls df) = select_by (row_mask df) (index df)"
    and "columns (drop_nulls df) = select_by (col_mask df) (columns df)"
    and "cells (drop_nulls df) = select_by (row_mask df) (map (select_by (col_mask df)) (cells df))"
    and "index_name (drop_nulls df) = index_name df"
    and "columns_name (drop_nulls df) = columns_name df"
  by (simp_all add: drop_nulls_eq [OF assms] col_mask_eq)

lemma labelled_rows_drop_nulls:
  assumes "wf_frame df"
  shows "labelled_rows (drop_nulls df) =
     map (\<lambda>(l, r). (l, select_by (col_mask df) r)) (filter (\<lambda>lv. \<not> all_null lv) (labelled_rows df))"
  by (simp add: labelled_rows_def [abs_def] drop_nulls_fields [OF assms] select_by_map
      zip_map2 row_mask_def select_by_map_pred flip: select_by_zip)

lemma labelled_columns_drop_nulls:
  assumes "wf_frame df"
  shows "labelled_columns (drop_nulls df) =
     map (\<lambda>(l, vs). (l, select_by (row_mask df) vs)) (filter (\<lambda>lv. \<not> all_null lv) (labelled_columns df))"
  using labelled_columns_dropna_rows [OF dropna_rows_dropna_cols, of df]
    notna_any_axis1_all_eq [OF wf_dropna_cols [OF assms]] row_mask_dropna_cols [OF assms]
  by (simp add: labelled_columns_dropna_cols [OF assms] row_mask_def)

lemma shape_drop_nulls:
  assumes "wf_frame df"
  shows "shape (drop_nulls df) =
     (length (filter (\<lambda>lv. \<not> all_null lv) (labelled_rows df)),
      length (filter (\<lambda>lv. \<not> all_null lv) (labelled_columns df)))"
proof -
  have "length (index (drop_nulls df)) = length (labelled_rows (drop_nulls df))"
    using wf_drop_nulls [OF assms] by simp
  moreover have "length (columns (drop_nulls df)) = length (labelled_columns (drop_nulls df))"
    by simp
  ultimately show ?thesis
    unfolding shape_def labelled_rows_drop_nulls [OF assms] labelled_columns_drop_nulls [OF assms]
    by simp
qed

lemma preprocess_ex_raw: "preprocess_tables ex_raw = Inr (ex_in_place, ex_result)"
  by code_simp

text \<open>The function with its messages returns what the function on tables returns, and
  prints what it is meant to print.\<close>

lemma preprocess_df_run:
  assumes "preprocess_tables df = Inr (a, r)"
  shows "preprocess_df df s = (Inr (a, r), s\<lparr>stdout := stdout s @ preprocess_output df r\<rparr>)"
proof -
  from assms have a: "a = rename_years (drop_nulls df)"
    and r: "r = (transpose_df (round_df 1 a))\<lparr>index_name := Some ''Year'', columns_name := None\<rparr>"
    by (auto simp: preprocess_tables_eq)
  have cols: "set_columns (map (str_replace ''YR'' []) (columns (drop_nulls df))) (drop_nulls df) =
      Inr (rename_years (drop_nulls df))"
    by (simp add: set_columns_def rename_years_def)
  show ?thesis
    unfolding preprocess_df_def Let_def dropna_rows_dropna_cols io_bind_lift(1) cols
    by (simp add: io_simps preprocess_output_def a r)
qed

lemma preprocess_df_returned:
  assumes "preprocess_df df s = (Inr (a, r), s')"
  shows "preprocess_tables df = Inr (a, r)"
    and "s' = s\<lparr>stdout := stdout s @ preprocess_output df r\<rparr>"
proof -
  obtain a' r' where run: "preprocess_tables df = Inr (a', r')"
    by (simp add: preprocess_tables_eq)
  from preprocess_df_run [OF this, of s] assms
  show "preprocess_tables df = Inr (a, r)" "s' = s\<lparr>stdout := stdout s @ preprocess_output df r\<rparr>"
    by (simp_all add: run)
qed

lemma preprocess_ex_run: "preprocess_df ex_raw ex_console = (Inr (ex_in_place, ex_result), ex_printed)"
  by (simp add: preprocess_df_run [OF preprocess_ex_raw] ex_console_def ex_printed_def)

lemma labelled_columns_rename_years:
  "labelled_columns (rename_years df) =
     map (\<lambda>(l, vs). (str_replace ''YR'' [] l, vs)) (labelled_columns df)"
  by (simp add: labelled_columns_def zip_map1)

lemma labelled_rows_names [simp]:
  "labelled_rows (df\<lparr>index_name := a\<rparr>) = labelled_rows df"
  "labelled_rows (df\<lparr>columns_name := b\<rparr>) = labelled_rows df"
  "labelled_columns (df\<lparr>index_name := a\<rparr>) = labelled_columns df"
  "labelled_columns (df\<lparr>columns_name := b\<rparr>) = labelled_columns df"
  by (simp_all add: labelled_rows_def labelled_columns_def)

lemma preprocess_tables_Inr:
  assumes "preprocess_tables df = Inr (a, r)"
  shows "a = rename_years (drop_nulls df)"
    and "r = (transpose_df (round_df 1 a))\<lparr>index_name := Some ''Year'', columns_name := None\<rparr>"
  using assms by (auto simp: preprocess_tables_eq)

lemma shape_preprocess:
  assumes "wf_frame df" and "preprocess_tables df = Inr (a, r)"
  shows "shape r = (length (filter (\<lambda>lv. \<not> all_null lv) (labelled_columns df)),
                    length (filter (\<lambda>lv. \<not> all_null lv) (labelled_rows df)))"
  using shape_drop_nulls [OF assms(1)]
  by (simp add: preprocess_tables_Inr [OF assms(2)] shape_def)

lemma labelled_rows_preprocess:
  assumes "wf_frame df" and "preprocess_tables df = Inr (a, r)"
  shows "labelled_rows r =
     map (\<lambda>(l, vs). (str_replace ''YR'' [] l, round_column 1 (select_by (row_mask df) vs)))
       (filter (\<lambda>lv. \<not> all_null lv) (labelled_columns df))"
proof -
  have "wf_frame a"
    using assms(1) by (simp add: preprocess_tables_Inr(1) [OF assms(2)] wf_rename_years wf_drop_nulls)
  then have "labelled_rows r = map (\<lambda>(l, vs). (l, round_column 1 vs)) (labelled_columns a)"
    by (simp add: preprocess_tables_Inr(2) [OF assms(2)] labelled_transpose_df labelled_columns_round_df)
  also have "labelled_columns a =
      map (\<lambda>(l, vs). (str_replace ''YR'' [] l, select_by (row_mask df) vs))
        (filter (\<lambda>lv. \<not> all_null lv) (labelled_columns df))"
    by (simp add: preprocess_tables_Inr(1) [OF assms(2)] labelled_columns_rename_years
        labelled_columns_drop_nulls [OF assms(1)] case_prod_unfold)
  finally show ?thesis
    by (simp add: case_prod_unfold)
qed

lemma columns_preprocess:
  assumes "wf_frame df" and "preprocess_tables df = Inr (a, r)"
  shows "columns r = map fst (filter (\<lambda>lv. \<not> all_null lv) (labelled_rows df))"
proof -
  have "columns r = index (drop_nulls df)"
    by (simp add: preprocess_tables_Inr [OF assms(2)])
  also have "\<dots> = map fst (labelled_rows (drop_nulls df))"
    using wf_drop_nulls [OF assms(1)] by simp
  finally show ?thesis
    by (simp add: labelled_rows_drop_nulls [OF assms(1)] case_prod_unfold)
qed

lemma wf_preprocess:
  assumes "wf_frame df" and "preprocess_tables df = Inr (a, r)"
  shows "wf_frame a" "wf_frame r"
  using assms(1)
  by (simp_all add: preprocess_tables_Inr [OF assms(2)] wf_rename_years wf_drop_nulls
      wf_round_df wf_transpose_df)

text \<open>Reshaping a table of numbers and missing values gives such a table.\<close>

lemma numeric_preprocess:
  assumes "wf_frame df" and "\<not> list_ex (list_ex is_str) (cells df)"
    and "preprocess_tables df = Inr (a, r)"
  shows "\<not> list_ex (list_ex is_str) (cells r)"
proof -
  have "\<not> list_ex is_str (snd lr)" if "lr \<in> set (labelled_rows r)" for lr
  proof -
    from that obtain lv where lv: "lv \<in> set (labelled_columns df)"
      and lr: "snd lr = round_column 1 (select_by (row_mask df) (snd lv))"
      unfolding labelled_rows_preprocess [OF assms(1,3)] by (auto simp: case_prod_unfold)
    from numeric_columns [OF assms(1,2) lv] set_select_by_subset [of "row_mask df" "snd lv"]
    have "\<not> list_ex is_str (select_by (row_mask df) (snd lv))"
      by (auto simp: list_ex_iff)
    then show ?thesis
      by (simp add: lr round_column_def list_ex_iff)
  qed
  moreover have "cells r = map snd (labelled_rows r)"
    using wf_preprocess(2) [OF assms(1,3)] by (simp add: map_snd_labelled_rows)
  ultimately show ?thesis
    by (auto simp: list_ex_iff)
qed

text \<open>The returned table of a table of numbers, column by column: each row of the input
  that has a value, restricted to the columns that have a value, every number rounded.\<close>

lemma numeric_drop_nulls:
  assumes "wf_frame df" and "\<not> list_ex (list_ex is_str) (cells df)"
  shows "\<not> list_ex (list_ex is_str) (cells (drop_nulls df))"
  using assms(2) set_select_by_subset [of "row_mask df" "map (select_by (col_mask df)) (cells df)"]
    set_select_by_subset [of "col_mask df"]
  by (fastforce simp: drop_nulls_fields(3) [OF assms(1)] list_ex_iff)

lemma labelled_columns_preprocess:
  assumes "wf_frame df" and "\<not> list_ex (list_ex is_str) (cells df)"
    and "preprocess_tables df = Inr (a, r)"
  shows "labelled_columns r =
     map (\<lambda>(l, row). (l, map (round_cell 1) (select_by (col_mask df) row)))
       (filter (\<lambda>lv. \<not> all_null lv) (labelled_rows df))"
    and "index r = map (str_replace ''YR'' []) (select_by (col_mask df) (columns df))"
proof -
  note a = preprocess_tables_Inr(1) [OF assms(3)]
  have wf: "wf_frame a"
    using assms(1,3) by (rule wf_preprocess)
  have num: "\<not> list_ex (list_ex is_str) (cells a)"
    using numeric_drop_nulls [OF assms(1,2)] by (simp add: a)
  have "labelled_columns r = labelled_rows (round_df 1 a)"
    by (simp add: preprocess_tables_Inr(2) [OF assms(3)] labelled_transpose_df wf wf_round_df)
  also have "\<dots> = map (\<lambda>(l, r). (l, map (round_cell 1) r)) (labelled_rows (drop_nulls df))"
    by (simp add: labelled_rows_round_df_numeric [OF wf num]) (simp add: a labelled_rows_def)
  finally show "labelled_columns r =
     map (\<lambda>(l, row). (l, map (round_cell 1) (select_by (col_mask df) row)))
       (filter (\<lambda>lv. \<not> all_null lv) (labelled_rows df))"
    by (simp add: labelled_rows_drop_nulls [OF assms(1)] case_prod_unfold)
  show "index r = map (str_replace ''YR'' []) (select_by (col_mask df) (columns df))"
    by (simp add: preprocess_tables_Inr(2) [OF assms(3)] a drop_nulls_fields(2) [OF assms(1)])
qed

lemma wf_ex_in_place: "wf_frame ex_in_place"
  by (simp add: wf_frame_def rect_def ex_in_place_def)

section \<open>Properties of preprocess\_df\<close>

text \<open>C28: \<^verbatim>\<open>preprocess_df\<close> never raises: the subset of the second \<^verbatim>\<open>dropna\<close> is the
  list of the columns itself and the new column labels are as many as the old ones, so
  neither \<^verbatim>\<open>KeyError\<close> nor \<^verbatim>\<open>ValueError\<close> can occur, whatever the table.\<close>

theorem preprocess_df_never_raises:
  "\<exists>a r. preprocess_df df s = (Inr (a, r), s\<lparr>stdout := stdout s @ preprocess_output df r\<rparr>)"
proof -
  obtain a r where "preprocess_tables df = Inr (a, r)"
    by (simp add: preprocess_tables_eq)
  from preprocess_df_run [OF this] show ?thesis by blast
qed

text \<open>C12: The returned table has one row for each column of the input that has a
  value and one column for each row of the input that has a value: the row count is the
  column count of the input minus the dropped columns, the column count is the row count
  of the input minus the dropped rows.\<close>

theorem preprocess_df_shape:
  assumes "wf_frame df" and "preprocess_df df s = (Inr (a, r), s')"
  shows "shape r = (length (filter (\<lambda>lv. \<not> all_null lv) (labelled_columns df)),
                    length (filter (\<lambda>lv. \<not> all_null lv) (labelled_rows df)))"
  by (rule shape_preprocess [OF assms(1) preprocess_df_returned(1) [OF assms(2)]])

theorem preprocess_df_shape_witness:
  "wf_frame ex_raw \<and> preprocess_df ex_raw ex_console = (Inr (ex_in_place, ex_result), ex_printed) \<and>
   shape ex_raw = (3, 3) \<and> shape ex_result = (2, 2)"
proof -
  have "shape ex_raw = (3, 3)"
    by (simp add: shape_def ex_raw_def)
  with preprocess_df_shape [OF wf_ex_raw preprocess_ex_run] wf_ex_raw preprocess_ex_run
  show ?thesis
    by (simp add: labelled_columns_ex_raw labelled_rows_ex_raw all_null_def)
qed

text \<open>C6: The returned table is the input seen column by column: its rows are the
  columns of the input that have a value, each under its label without the token
  \<^verbatim>\<open>YR\<close>, restricted to the rows of the input that have a value and rounded to one
  decimal; its columns are labelled with the labels of those rows; its index is named
  \<^verbatim>\<open>Year\<close> and its columns have no name.\<close>

theorem preprocess_df_result:
  assumes "wf_frame df" and "preprocess_df df s = (Inr (a, r), s')"
  shows "labelled_rows r =
       map (\<lambda>(l, vs). (str_replace ''YR'' [] l, round_column 1 (select_by (row_mask df) vs)))
         (filter (\<lambda>lv. \<not> all_null lv) (labelled_columns df)) \<and>
     columns r = map fst (filter (\<lambda>lv. \<not> all_null lv) (labelled_rows df)) \<and>
     index_name r = Some ''Year'' \<and> columns_name r = None"
proof -
  note run = preprocess_df_returned(1) [OF assms(2)]
  show ?thesis
    using labelled_rows_preprocess [OF assms(1) run] columns_preprocess [OF assms(1) run]
    by (simp add: preprocess_tables_Inr(2) [OF run])
qed

theorem preprocess_df_result_witness:
  "wf_frame ex_raw \<and> preprocess_df ex_raw ex_console = (Inr (ex_in_place, ex_result), ex_printed) \<and>
   labelled_rows ex_result =
     [(''2000'', [Num (62 / 5), Num 50]), (''2001'', [Num (62 / 5), NaN])] \<and>
   columns ex_result = [''Aruba'', ''World'']"
proof -
  have "map (\<lambda>(l, vs). (str_replace ''YR'' [] l, round_column 1 (select_by (row_mask ex_raw) vs)))
         (filter (\<lambda>lv. \<not> all_null lv) (labelled_columns ex_raw)) =
     [(''2000'', [Num (62 / 5), Num 50]), (''2001'', [Num (62 / 5), NaN])]"
    by code_simp
  moreover have "map fst (filter (\<lambda>lv. \<not> all_null lv) (labelled_rows ex_raw)) = [''Aruba'', ''World'']"
    by code_simp
  ultimately show ?thesis
    using preprocess_df_result [OF wf_ex_raw preprocess_ex_run] wf_ex_raw preprocess_ex_run
    by simp
qed

text \<open>C25: On a table that is already clean the steps before the transpose are no-ops:
  when no row and no column is empty, no label contains the token \<^verbatim>\<open>YR\<close> and no number
  has more than one decimal, \<^verbatim>\<open>preprocess_df\<close> leaves its argument as it was and returns its
  transpose, with the index named \<^verbatim>\<open>Year\<close>.\<close>

theorem preprocess_df_clean_table:
  assumes "wf_frame df" and "no_null_columns df" and "no_null_rows df"
    and "list_all (\<lambda>l. \<not> sublist ''YR'' l) (columns df)"
    and "list_all (list_all (cell_decimals 1)) (cells df)"
  shows "preprocess_df df s =
     (Inr (df, (transpose_df df)\<lparr>index_name := Some ''Year'', columns_name := None\<rparr>),
      s\<lparr>stdout := stdout s @
        preprocess_output df ((transpose_df df)\<lparr>index_name := Some ''Year'', columns_name := None\<rparr>)\<rparr>)"
proof -
  have "preprocess_tables df =
      Inr (df, (transpose_df df)\<lparr>index_name := Some ''Year'', columns_name := None\<rparr>)"
    unfolding preprocess_tables_eq drop_nulls_clean_table [OF assms(1-3)]
      rename_years_clean [OF assms(4)] round_df_clean [OF assms(1,5)] ..
  then show ?thesis
    by (rule preprocess_df_run)
qed

theorem preprocess_df_clean_table_witness:
  "preprocess_df ex_result ex_console =
     (Inr (ex_result, \<lparr>index = [''Aruba'', ''World''], index_name = Some ''Year'',
            columns = [''2000'', ''2001''], columns_name = None,
            cells = [[Num (62 / 5), Num (62 / 5)], [Num 50, NaN]]\<rparr>),
      \<lparr>stdout = preprocess_output ex_result
         \<lparr>index = [''Aruba'', ''World''], index_name = Some ''Year'',
          columns = [''2000'', ''2001''], columns_name = None,
          cells = [[Num (62 / 5), Num (62 / 5)], [Num 50, NaN]]\<rparr>\<rparr>)"
proof -
  have "wf_frame ex_result" "no_null_columns ex_result" "no_null_rows ex_result"
    "list_all (\<lambda>l. \<not> sublist ''YR'' l) (columns ex_result)"
    "list_all (list_all (cell_decimals 1)) (cells ex_result)"
    by code_simp+
  from preprocess_df_clean_table [OF this, of ex_console]
  have "preprocess_df ex_result ex_console =
     (Inr (ex_result, (transpose_df ex_result)\<lparr>index_name := Some ''Year'', columns_name := None\<rparr>),
      ex_console\<lparr>stdout := stdout ex_console @
        preprocess_output ex_result
          ((transpose_df ex_result)\<lparr>index_name := Some ''Year'', columns_name := None\<rparr>)\<rparr>)" .
  moreover have "(transpose_df ex_result)\<lparr>index_name := Some ''Year'', columns_name := None\<rparr> =
      \<lparr>index = [''Aruba'', ''World''], index_name = Some ''Year'',
            columns = [''2000'', ''2001''], columns_name = None,
            cells = [[Num (62 / 5), Num (62 / 5)], [Num 50, NaN]]\<rparr>"
    by code_simp
  ultimately show ?thesis
    by (simp add: ex_console_def)
qed

text \<open>C29: The call changes its argument: the statements of lines 107 to 114 work in
  place, so afterwards the caller's table has lost its empty columns and rows and has the
  renamed labels, under the index it had, but its values are not rounded and it is not
  transposed.  The returned table is the transpose of that table, rounded.\<close>

theorem preprocess_df_changes_its_argument:
  assumes "wf_frame df" and "preprocess_df df s = (Inr (a, r), s')"
  shows "labelled_columns a =
       map (\<lambda>(l, vs). (str_replace ''YR'' [] l, select_by (row_mask df) vs))
         (filter (\<lambda>lv. \<not> all_null lv) (labelled_columns df)) \<and>
     index a = map fst (filter (\<lambda>lv. \<not> all_null lv) (labelled_rows df)) \<and>
     index_name a = index_name df \<and> labelled_rows r = labelled_columns (round_df 1 a)"
proof -
  note run = preprocess_df_returned(1) [OF assms(2)]
  have "index a = map fst (labelled_rows (drop_nulls df))"
    using wf_drop_nulls [OF assms(1)] by (simp add: preprocess_tables_Inr(1) [OF run])
  then have "index a = map fst (filter (\<lambda>lv. \<not> all_null lv) (labelled_rows df))"
    by (simp add: labelled_rows_drop_nulls [OF assms(1)] case_prod_unfold)
  moreover have "labelled_rows r = labelled_columns (round_df 1 a)"
    by (simp add: preprocess_tables_Inr(2) [OF run] labelled_transpose_df)
  ultimately show ?thesis
    by (simp add: preprocess_tables_Inr(1) [OF run] labelled_columns_rename_years
        labelled_columns_drop_nulls [OF assms(1)] drop_nulls_fields [OF assms(1)]
        case_prod_unfold)
qed

theorem preprocess_df_changes_its_argument_witness:
  "wf_frame ex_raw \<and> preprocess_df ex_raw ex_console = (Inr (ex_in_place, ex_result), ex_printed) \<and>
   labelled_columns ex_in_place =
     [(''2000'', [Num (1235 / 100), Num 50]), (''2001'', [Num (1245 / 100), NaN])] \<and>
   index ex_in_place = [''Aruba'', ''World''] \<and> ex_in_place \<noteq> ex_raw"
proof -
  have "map (\<lambda>(l, vs). (str_replace ''YR'' [] l, select_by (row_mask ex_raw) vs))
         (filter (\<lambda>lv. \<not> all_null lv) (labelled_columns ex_raw)) =
     [(''2000'', [Num (1235 / 100), Num 50]), (''2001'', [Num (1245 / 100), NaN])]"
    by code_simp
  moreover have "map fst (filter (\<lambda>lv. \<not> all_null lv) (labelled_rows ex_raw)) = [''Aruba'', ''World'']"
    by code_simp
  moreover have "ex_in_place \<noteq> ex_raw"
    by (simp add: ex_in_place_def ex_raw_def)
  ultimately show ?thesis
    using preprocess_df_changes_its_argument [OF wf_ex_raw preprocess_ex_run]
      wf_ex_raw preprocess_ex_run
    by simp
qed

text \<open>C30: After \<^verbatim>\<open>preprocess_df\<close> no row and no column of the returned table is
  empty: dropping the empty rows after the empty columns cannot empty a column again.\<close>

theorem preprocess_df_leaves_no_empty_line:
  assumes "wf_frame df" and "preprocess_df df s = (Inr (a, r), s')"
  shows "no_null_rows r \<and> no_null_columns r"
proof -
  note run = preprocess_df_returned(1) [OF assms(2)]
  have "no_null_columns a" "no_null_rows a"
    using drop_nulls_clean [OF assms(1)]
    by (simp_all add: preprocess_tables_Inr(1) [OF run] rename_years_def)
  moreover have "wf_frame a"
    using assms(1) run by (rule wf_preprocess)
  ultimately show ?thesis
    by (simp add: preprocess_tables_Inr(2) [OF run] no_null_transpose_df wf_round_df
        no_null_columns_round_df no_null_rows_round_df)
qed

theorem preprocess_df_leaves_no_empty_line_witness:
  "wf_frame ex_raw \<and> preprocess_df ex_raw ex_console = (Inr (ex_in_place, ex_result), ex_printed) \<and>
   \<not> no_null_rows ex_raw \<and> \<not> no_null_columns ex_raw \<and>
   no_null_rows ex_result \<and> no_null_columns ex_result"
proof -
  have "\<not> no_null_rows ex_raw" "\<not> no_null_columns ex_raw"
    by (simp_all add: no_null_rows_def no_null_columns_def labelled_rows_ex_raw
        labelled_columns_ex_raw all_null_def)
  with preprocess_df_leaves_no_empty_line [OF wf_ex_raw preprocess_ex_run]
    wf_ex_raw preprocess_ex_run
  show ?thesis by simp
qed

text \<open>C38: Every number of the returned table has at most one decimal place, unless
  its row holds a string.\<close>

theorem preprocess_df_one_decimal:
  assumes "wf_frame df" and "preprocess_df df s = (Inr (a, r), s')"
  shows "list_all (\<lambda>row. list_ex is_str row \<or> list_all (cell_decimals 1) row) (cells r)"
proof -
  note run = preprocess_df_returned(1) [OF assms(2)]
  have wf: "wf_frame a" "wf_frame r"
    using wf_preprocess [OF assms(1) run] .
  have "list_ex is_str row \<or> list_all (cell_decimals 1) row" if "row \<in> set (cells r)" for row
  proof -
    from that have "row \<in> snd ` set (labelled_rows r)"
      using map_snd_labelled_rows [OF wf(2)] by (metis set_map)
    then obtain l where "(l, row) \<in> set (labelled_rows r)"
      by auto
    then have "(l, row) \<in> set (labelled_columns (round_df 1 a))"
      by (simp add: preprocess_tables_Inr(2) [OF run] labelled_transpose_df)
    with wf(1) show ?thesis by (rule round_df_decimals)
  qed
  then show ?thesis by (simp add: list_all_iff)
qed

theorem preprocess_df_one_decimal_witness:
  "wf_frame ex_raw \<and> preprocess_df ex_raw ex_console = (Inr (ex_in_place, ex_result), ex_printed) \<and>
   \<not> list_all (cell_decimals 1) (cells ex_raw ! 0) \<and>
   list_all (list_all (cell_decimals 1)) (cells ex_result)"
proof -
  have "\<not> list_all (cell_decimals 1) (cells ex_raw ! 0)" by code_simp
  moreover have "list_all (\<lambda>row. \<not> list_ex is_str row) (cells ex_result)"
    by (simp add: ex_result_def)
  ultimately show ?thesis
    using preprocess_df_one_decimal [OF wf_ex_raw preprocess_ex_run] wf_ex_raw preprocess_ex_run
    by (auto simp: list_all_iff)
qed

text \<open>C24: The two shapes that \<^verbatim>\<open>preprocess_df\<close> prints are the shape of the table as it was
  passed in, before the call changed it, and the shape of the table returned: its row count
  is the number of columns of the input that hold a value, its column count the number of such
  rows.  They are printed after the five progress messages and the line of stars and before
  the first five rows of the returned table, and what was on the console before stays
  there.\<close>

theorem preprocess_df_prints_the_shapes:
  assumes "wf_frame df" and "preprocess_df df s = (Inr (a, r), s')"
  shows "take (length (stdout s)) (stdout s') = stdout s \<and>
     drop (length (stdout s) + 6) (stdout s') =
       [Text (''Shape of dataframe before applying preprocessing: ('' @
          str_nat (length (index df)) @ '', '' @ str_nat (length (columns df)) @ '')''),
        Text (''Shape of dataframe after applying preprocessing: ('' @
          str_nat (length (filter (\<lambda>lv. \<not> all_null lv) (labelled_columns df))) @ '', '' @
          str_nat (length (filter (\<lambda>lv. \<not> all_null lv) (labelled_rows df))) @ '')''),
        Text (''Top 5 rows now:'' @ [nl]), Table (head_df 5 r), Text stars]"
proof -
  note run = preprocess_df_returned [OF assms(2)]
  from shape_preprocess [OF assms(1) run(1)] show ?thesis
    by (simp add: run(2) preprocess_output_def str_shape_def shape_def [of df])
qed

theorem preprocess_df_prints_the_shapes_witness:
  "preprocess_df ex_raw ex_console = (Inr (ex_in_place, ex_result), ex_printed) \<and>
   drop 6 (stdout ex_printed) =
     map Text [''Shape of dataframe before applying preprocessing: (3, 3)'',
       ''Shape of dataframe after applying preprocessing: (2, 2)'', ''Top 5 rows now:'' @ [nl]] @
     [Table ex_result, Text stars]"
proof -
  have "length (index ex_raw) = 3" "length (columns ex_raw) = 3"
    "length (filter (\<lambda>lv. \<not> all_null lv) (labelled_columns ex_raw)) = 2"
    "length (filter (\<lambda>lv. \<not> all_null lv) (labelled_rows ex_raw)) = 2"
    "str_nat 3 = ''3''" "str_nat 2 = ''2''" "head_df 5 ex_result = ex_result"
    by code_simp+
  with preprocess_df_prints_the_shapes [OF wf_ex_raw preprocess_ex_run] preprocess_ex_run
  show ?thesis
    by (simp add: ex_console_def)
qed

end
