(* ===== verification/Frame_Access.thy ===== *)
theory Frame_Access
  imports DataFrame "HOL-Library.Multiset"
begin

text \<open>
  The operations of pandas that the driver \<^verbatim>\<open>main\<close> of \<^verbatim>\<open>src/part1_script.py\<close> applies to
  its table, on the record \<open>dataframe\<close>:
  \<^item> \<open>getitem_cols\<close> is \<^verbatim>\<open>df[labels]\<close> with a list of labels (lines 152 and 160): the columns
    with these labels, in the order of the list, every column of a label that occurs several
    times; a \<^verbatim>\<open>KeyError\<close> that lists the labels that are no column.
  \<^item> \<open>mean_axis1\<close> is \<^verbatim>\<open>df.mean(axis=1)\<close> (line 152): for every row the mean of its numbers,
    missing values skipped, a missing value when the row has no number; a \<^verbatim>\<open>TypeError\<close>
    when a cell holds text.  The series it returns is the list of its values, in the order of
    the index of the table.
  \<^item> \<open>setitem_col\<close> is \<^verbatim>\<open>df[label] = values\<close> (line 152) for values aligned with the index of
    the table: it overwrites every column with this label, or appends a new column.
  \<^item> \<open>set_index\<close> is \<^verbatim>\<open>df.set_index(label, inplace=True)\<close> (line 144): the column becomes the
    index and leaves the columns.  Labels are strings in this development: a value of the
    column that is not text stops the model with \<open>Unsupported\<close>.

  The lemmas describe each operation by the labelled columns of its result, and show that the
  mean of a row depends neither on the order of its cells nor on its missing values.
\<close>

section \<open>Definitions\<close>

definition positions_of :: "label \<Rightarrow> label list \<Rightarrow> nat list" where
  "positions_of l cols = filter (\<lambda>j. cols ! j = l) [0..<length cols]"

definition take_columns :: "nat list \<Rightarrow> dataframe \<Rightarrow> dataframe" where
  "take_columns pos df =
     df\<lparr>columns := map ((!) (columns df)) pos, cells := map (\<lambda>r. map ((!) r) pos) (cells df)\<rparr>"

definition getitem_cols :: "label list \<Rightarrow> dataframe \<Rightarrow> dataframe result" where
  "getitem_cols labels df =
     (let missing = filter (\<lambda>l. l \<notin> set (columns df)) labels
      in if missing \<noteq> [] then Inl (KeyError missing)
         else Inr (take_columns (concat (map (\<lambda>l. positions_of l (columns df)) labels)) df))"

fun numbers_of :: "cell list \<Rightarrow> rat list" where
  "numbers_of [] = []"
| "numbers_of (Num x # cs) = x # numbers_of cs"
| "numbers_of (c # cs) = numbers_of cs"

definition mean_row :: "cell list \<Rightarrow> cell" where
  "mean_row r =
     (let xs = numbers_of r
      in if xs = [] then NaN else Num (sum_list xs / of_nat (length xs)))"

definition mean_axis1 :: "dataframe \<Rightarrow> cell list result" where
  "mean_axis1 df =
     (if list_ex (list_ex is_str) (cells df) then Inl TypeError
      else Inr (map mean_row (cells df)))"

definition setitem_col :: "label \<Rightarrow> cell list \<Rightarrow> dataframe \<Rightarrow> dataframe result" where
  "setitem_col l vals df =
     (if length vals \<noteq> length (index df) then Inl (ValueError ''Length of values does not match length of index'')
      else if l \<in> set (columns df)
      then Inr (df\<lparr>cells := map2 (\<lambda>v r. map2 (\<lambda>c x. if c = l then v else x) (columns df) r)
                                vals (cells df)\<rparr>)
      else Inr (df\<lparr>columns := columns df @ [l], cells := map2 (\<lambda>v r. r @ [v]) vals (cells df)\<rparr>))"

fun label_of :: "cell \<Rightarrow> label result" where
  "label_of (Str s) = Inr s"
| "label_of (Num x) = Inl Unsupported"
| "label_of NaN = Inl Unsupported"

fun labels_of :: "cell list \<Rightarrow> label list result" where
  "labels_of [] = Inr []"
| "labels_of (c # cs) =
     result_bind (label_of c) (\<lambda>l. result_bind (labels_of cs) (\<lambda>ls. Inr (l # ls)))"

definition drop_nth :: "nat \<Rightarrow> 'a list \<Rightarrow> 'a list" where
  "drop_nth j xs = take j xs @ drop (Suc j) xs"

definition set_index :: "label \<Rightarrow> dataframe \<Rightarrow> dataframe result" where
  "set_index key df =
     (case positions_of key (columns df) of
        [] \<Rightarrow> Inl (KeyError [key])
      | [j] \<Rightarrow>
          result_bind (labels_of (column j (cells df))) (\<lambda>ls.
            Inr \<lparr>index = ls, index_name = Some key, columns = drop_nth j (columns df),
                 columns_name = columns_name df, cells = map (drop_nth j) (cells df)\<rparr>)
      | j # k # js \<Rightarrow> Inl (ValueError ''Index data must be 1-dimensional''))"

section \<open>Example\<close>

definition ex_labelled :: dataframe where
  "ex_labelled = \<lparr>index = [''ABW'', ''WLD''], index_name = Some ''economy'',
     columns = [''Country'', ''YR2000''], columns_name = None,
     cells = [[Str ''Aruba'', Num 1], [Str ''World'', Num 2]]\<rparr>"

section \<open>Lemmas\<close>

subsection \<open>Selecting columns by label\<close>

lemma positions_of_less: "j \<in> set (positions_of l cols) \<Longrightarrow> j < length cols \<and> cols ! j = l"
  by (simp add: positions_of_def)

lemma positions_of_empty_iff: "positions_of l cols = [] \<longleftrightarrow> l \<notin> set cols"
  by (auto simp: positions_of_def filter_empty_conv in_set_conv_nth)

lemma positions_of_hd:
  assumes "cols \<noteq> []" and "hd cols \<notin> set (tl cols)"
  shows "positions_of (hd cols) cols = [0]"
proof -
  from assms obtain c cs where cols: "cols = c # cs" "c \<notin> set cs"
    by (cases cols) auto
  have "[0..<Suc (length cs)] = 0 # [Suc 0..<Suc (length cs)]"
    by (subst upt_rec) simp
  moreover have "filter (\<lambda>j. (c # cs) ! j = c) [Suc 0..<Suc (length cs)] = []"
    using cols(2) by (auto simp: filter_empty_conv nth_Cons split: nat.splits)
  ultimately show ?thesis
    by (simp add: positions_of_def cols del: upt_Suc)
qed

lemma take_columns_fields [simp]:
  "index (take_columns pos df) = index df"
  "index_name (take_columns pos df) = index_name df"
  "columns_name (take_columns pos df) = columns_name df"
  "columns (take_columns pos df) = map ((!) (columns df)) pos"
  "cells (take_columns pos df) = map (\<lambda>r. map ((!) r) pos) (cells df)"
  by (simp_all add: take_columns_def)

lemma wf_take_columns [frame_wf]: "wf_frame df \<Longrightarrow> wf_frame (take_columns pos df)"
  unfolding wf_frame_def by (intro rectI) (auto simp: rect_length)

lemma labelled_columns_take_columns:
  assumes "wf_frame df" and "list_all (\<lambda>j. j < length (columns df)) pos"
  shows "labelled_columns (take_columns pos df) = map ((!) (labelled_columns df)) pos"
  using transpose_rect_map_nths [OF wf_frame_rows [OF assms(1)] assms(2)] assms(2)
  by (intro nth_equalityI)
    (simp_all add: labelled_columns_def [of "take_columns pos df"] labelled_columns_nth
      nth_transpose_rect_column list_all_length)

lemma labelled_rows_take_columns:
  "labelled_rows (take_columns pos df) = map (\<lambda>(l, r). (l, map ((!) r) pos)) (labelled_rows df)"
  by (simp add: labelled_rows_def zip_map2)

lemma map_nth_positions_of:
  "map ((!) (labelled_columns df)) (positions_of l (columns df)) =
     filter (\<lambda>lv. fst lv = l) (labelled_columns df)"
proof -
  have "positions_of l (columns df) =
      filter (\<lambda>j. fst (labelled_columns df ! j) = l) [0..<length (labelled_columns df)]"
    by (auto simp: positions_of_def labelled_columns_nth intro: filter_cong)
  then show ?thesis
    using map_nth_filter_upt [of "labelled_columns df" "\<lambda>lv. fst lv = l"] by simp
qed

lemma getitem_cols_raises_iff:
  "raises (getitem_cols labels df) \<longleftrightarrow> \<not> set labels \<subseteq> set (columns df)"
  by (auto simp: getitem_cols_def Let_def filter_empty_conv)

lemma getitem_cols_Inr:
  assumes "getitem_cols labels df = Inr df'"
  shows "set labels \<subseteq> set (columns df)"
    and "df' = take_columns (concat (map (\<lambda>l. positions_of l (columns df)) labels)) df"
  using assms by (auto simp: getitem_cols_def Let_def filter_empty_conv split: if_splits)

lemma getitem_cols_present:
  "set labels \<subseteq> set (columns df) \<Longrightarrow>
     getitem_cols labels df =
       Inr (take_columns (concat (map (\<lambda>l. positions_of l (columns df)) labels)) df)"
  by (auto simp: getitem_cols_def Let_def filter_empty_conv)

lemma labelled_columns_getitem_cols:
  assumes "wf_frame df" and "getitem_cols labels df = Inr df'"
  shows "labelled_columns df' =
     concat (map (\<lambda>l. filter (\<lambda>lv. fst lv = l) (labelled_columns df)) labels)"
proof -
  let ?pos = "concat (map (\<lambda>l. positions_of l (columns df)) labels)"
  have "list_all (\<lambda>j. j < length (columns df)) ?pos"
    by (auto simp: list_all_iff dest: positions_of_less)
  then have "labelled_columns df' = map ((!) (labelled_columns df)) ?pos"
    unfolding getitem_cols_Inr(2) [OF assms(2)]
    using assms(1) by (rule labelled_columns_take_columns [rotated])
  then show ?thesis
    by (simp add: map_concat comp_def map_nth_positions_of)
qed

lemma wf_getitem_cols [frame_wf]:
  assumes "wf_frame df" and "getitem_cols labels df = Inr df'"
  shows "wf_frame df'"
  unfolding getitem_cols_Inr(2) [OF assms(2)] using assms(1) by (rule wf_take_columns)

text \<open>Selection from a table whose column labels are distinct.\<close>

lemma filter_eq_distinct: "distinct xs \<Longrightarrow> x \<in> set xs \<Longrightarrow> filter (\<lambda>c. c = x) xs = [x]"
  by (induction xs) (auto simp: filter_empty_conv)

lemma filter_upt_eq: "j < n \<Longrightarrow> filter (\<lambda>i. i = j) [0..<n] = [j]"
  by (induction n) (auto simp: filter_empty_conv less_Suc_eq)

lemma positions_of_distinct:
  assumes "distinct cols" "j < length cols"
  shows "positions_of (cols ! j) cols = [j]"
proof -
  have "filter (\<lambda>i. cols ! i = cols ! j) [0..<length cols] = filter (\<lambda>i. i = j) [0..<length cols]"
    using assms by (intro filter_cong) (auto simp: nth_eq_iff_index_eq)
  with assms(2) show ?thesis
    by (simp add: positions_of_def filter_upt_eq)
qed

lemma map_nth_positions:
  "map ((!) cols) (positions_of l cols) = filter (\<lambda>c. c = l) cols"
  using map_nth_filter_upt [of cols "\<lambda>c. c = l"] by (simp add: positions_of_def)

lemma columns_getitem_cols:
  assumes "getitem_cols labels df = Inr df'" and "distinct (columns df)"
  shows "columns df' = labels"
proof -
  have "concat (map (\<lambda>l. filter (\<lambda>c. c = l) (columns df)) ls) = ls"
    if "set ls \<subseteq> set (columns df)" for ls
    using that assms(2) by (induction ls) (simp_all add: filter_eq_distinct)
  with getitem_cols_Inr [OF assms(1)] show ?thesis
    by (simp add: map_concat comp_def map_nth_positions)
qed

lemma labelled_columns_setitem_col_old:
  assumes "wf_frame df" and "l \<in> set (columns df)" and "setitem_col l vals df = Inr df'"
  shows "labelled_columns df' =
     map (\<lambda>lv. (fst lv, if fst lv = l then vals else snd lv)) (labelled_columns df)"
proof -
  let ?n = "length (columns df)"
  from assms(3) have len: "length vals = length (index df)"
    by (auto simp: setitem_col_def split: if_splits)
  with assms(2,3) have df': "columns df' = columns df"
    "cells df' = map2 (\<lambda>v r. map2 (\<lambda>c x. if c = l then v else x) (columns df) r) vals (cells df)"
    by (auto simp: setitem_col_def)
  have rows: "length (cells df) = length vals"
    using assms(1) len by (simp add: wf_frame_length)
  have row: "length (cells df ! i) = ?n" if "i < length vals" for i
    using that rows assms(1) by (simp add: wf_frame_row)
  have "column j (cells df') = (if columns df ! j = l then vals else column j (cells df))"
    if "j < ?n" for j
    using that rows row by (intro nth_equalityI) (simp_all add: df')
  then show ?thesis
    by (intro nth_equalityI) (simp_all add: labelled_columns_nth df'(1))
qed

text \<open>Looking a column up by its label after a column was appended.\<close>

lemma lookup_old_column:
  assumes "labelled_columns df1 = labelled_columns df @ [(a, v)]" and "l \<in> set (columns df)"
  shows "map_of (labelled_columns df1) l = map_of (labelled_columns df) l"
proof -
  from assms(2) have "l \<in> fst ` set (labelled_columns df)"
    by (metis map_fst_labelled_columns set_map)
  then obtain y where "map_of (labelled_columns df) l = Some y"
    by (metis map_of_eq_None_iff not_Some_eq)
  then show ?thesis
    by (simp add: assms(1) map_add_def)
qed

lemma lookup_new_column:
  assumes "labelled_columns df1 = labelled_columns df @ [(a, v)]" and "a \<notin> set (columns df)"
  shows "map_of (labelled_columns df1) a = Some v"
proof -
  from assms(2) have "a \<notin> fst ` set (labelled_columns df)"
    by (metis map_fst_labelled_columns set_map)
  then have "map_of (labelled_columns df) a = None"
    by (simp add: map_of_eq_None_iff)
  then show ?thesis
    by (simp add: assms(1) map_add_def)
qed

text \<open>With distinct labels a label selects its one column.\<close>

lemma filter_fst_distinct:
  assumes "distinct (map fst xs)" and "(l, v) \<in> set xs"
  shows "filter (\<lambda>lv. fst lv = l) xs = [(l, v)]"
  using assms
proof (induction xs)
  case Nil
  then show ?case by simp
next
  case (Cons x xs)
  show ?case
  proof (cases "fst x = l")
    case True
    with Cons.prems have "l \<notin> fst ` set xs" by auto
    then have "filter (\<lambda>lv. fst lv = l) xs = []" "(l, v) \<notin> set xs"
      by (force simp: filter_empty_conv)+
    with True Cons.prems(2) show ?thesis by auto
  next
    case False
    with Cons show ?thesis by auto
  qed
qed

lemma concat_filter_fst_distinct:
  assumes "distinct (map fst xs)" "set ls \<subseteq> fst ` set xs"
  shows "concat (map (\<lambda>l. filter (\<lambda>lv. fst lv = l) xs) ls) = map (\<lambda>l. (l, the (map_of xs l))) ls"
  using assms(2)
proof (induction ls)
  case Nil
  then show ?case by simp
next
  case (Cons l ls)
  then obtain v where "(l, v) \<in> set xs" by auto
  with assms(1) have "filter (\<lambda>lv. fst lv = l) xs = [(l, v)]" "map_of xs l = Some v"
    by (simp_all add: filter_fst_distinct)
  with Cons show ?case by simp
qed

lemma labelled_columns_getitem_cols_distinct:
  assumes "wf_frame df" and "getitem_cols labels df = Inr df'" and "distinct (columns df)"
  shows "labelled_columns df' = map (\<lambda>l. (l, the (map_of (labelled_columns df) l))) labels"
proof -
  have "fst ` set (labelled_columns df) = set (columns df)"
    by (metis map_fst_labelled_columns set_map)
  with assms(3) getitem_cols_Inr(1) [OF assms(2)] show ?thesis
    unfolding labelled_columns_getitem_cols [OF assms(1,2)]
    by (intro concat_filter_fst_distinct) simp_all
qed

lemma getitem_cols_distinct:
  assumes "wf_frame df" and "distinct (columns df)" and "set labels \<subseteq> set (columns df)"
  shows "\<exists>df'. getitem_cols labels df = Inr df' \<and> wf_frame df' \<and> index df' = index df \<and>
     index_name df' = index_name df \<and> columns_name df' = columns_name df \<and>
     labelled_columns df' = map (\<lambda>l. (l, the (map_of (labelled_columns df) l))) labels"
proof -
  from getitem_cols_present [OF assms(3)] obtain df' where df': "getitem_cols labels df = Inr df'"
    by blast
  with getitem_cols_Inr(2) [OF this] wf_getitem_cols [OF assms(1) this]
    labelled_columns_getitem_cols_distinct [OF assms(1) this assms(2)]
  show ?thesis by simp
qed

subsection \<open>The mean of a row\<close>

lemma mset_numbers_of:
  "mset (numbers_of r) =
     image_mset (\<lambda>c. case c of Num x \<Rightarrow> x | _ \<Rightarrow> 0) (filter_mset (\<lambda>c. \<exists>x. c = Num x) (mset r))"
  by (induction r rule: numbers_of.induct) simp_all

lemma numbers_of_skip_missing: "numbers_of (filter (\<lambda>c. \<not> isna c) r) = numbers_of r"
  by (induction r rule: numbers_of.induct) simp_all

lemma numbers_of_perm: "mset r = mset r' \<Longrightarrow> mset (numbers_of r) = mset (numbers_of r')"
  by (simp add: mset_numbers_of)

lemma mean_row_perm:
  assumes "mset r = mset r'"
  shows "mean_row r = mean_row r'"
proof -
  from assms have m: "mset (numbers_of r) = mset (numbers_of r')"
    by (rule numbers_of_perm)
  then have "sum_list (numbers_of r) = sum_list (numbers_of r')"
    "length (numbers_of r) = length (numbers_of r')"
    "numbers_of r = [] \<longleftrightarrow> numbers_of r' = []"
    by (metis sum_mset_sum_list, metis size_mset, metis mset_zero_iff)
  then show ?thesis
    by (simp add: mean_row_def Let_def)
qed

text \<open>Lists without repetitions that have the same elements: sorting makes them equal, and
  as association lists they are the same map.\<close>

lemma sort_cong_set:
  fixes xs ys :: "'a::linorder list"
  assumes "distinct xs" and "distinct ys" and "set xs = set ys"
  shows "sort xs = sort ys"
proof -
  from assms have "mset (sort ys) = mset xs"
    by (simp add: set_eq_iff_mset_eq_distinct)
  then show ?thesis
    by (rule properties_for_sort) simp
qed

lemma takeWhile_fst_set:
  assumes "distinct (map fst xs)"
  shows "set (takeWhile (\<lambda>lv. P (fst lv)) xs) =
     {lv \<in> set xs. fst lv \<in> set (takeWhile P (map fst xs))}"
  using assms by (induction xs) (auto simp: image_iff)

lemma positions_perm:
  assumes "distinct cols" "mset ls = mset (take w cols)" "w \<le> length cols"
  shows "mset (concat (map (\<lambda>l. positions_of l cols) ls)) = mset [0..<w]"
proof -
  let ?g = "\<lambda>l. mset (positions_of l cols)"
  have "mset (concat (map (\<lambda>l. positions_of l cols) ls)) = sum_list (map ?g ls)"
    by (simp add: mset_concat comp_def)
  also have "\<dots> = sum_mset (image_mset ?g (mset ls))"
    by (metis mset_map sum_mset_sum_list)
  also have "\<dots> = sum_list (map ?g (take w cols))"
    unfolding assms(2) by (metis mset_map sum_mset_sum_list)
  also have "take w cols = map ((!) cols) [0..<w]"
    using assms(3) by (intro nth_equalityI) simp_all
  also have "sum_list (map ?g (map ((!) cols) [0..<w])) = sum_list (map (\<lambda>j. {#j#}) [0..<w])"
    using assms(1,3) unfolding map_map comp_def
    by (intro arg_cong [where f = sum_list] map_cong) (simp_all add: positions_of_distinct)
  also have "\<dots> = mset [0..<w]"
    by (induction w) simp_all
  finally show ?thesis .
qed

lemma mean_row_selected:
  assumes "mset pos = mset [0..<w]" "w \<le> length r"
  shows "mean_row (map ((!) r) pos) = mean_row (take w r)"
proof -
  have "take w r = map ((!) r) [0..<w]"
    using assms(2) by (intro nth_equalityI) simp_all
  with assms(1) have "mset (map ((!) r) pos) = mset (take w r)"
    by (metis mset_map)
  then show ?thesis by (rule mean_row_perm)
qed

lemma set_numbers_of: "set (numbers_of r) = {x. Num x \<in> set r}"
  by (induction r rule: numbers_of.induct) auto

lemma sum_list_between:
  fixes xs :: "rat list"
  assumes "\<forall>x \<in> set xs. a \<le> x \<and> x \<le> b"
  shows "of_nat (length xs) * a \<le> sum_list xs \<and> sum_list xs \<le> of_nat (length xs) * b"
  using assms by (induction xs) (auto simp: algebra_simps intro: add_mono)

lemma mean_row_between:
  assumes "\<forall>x. Num x \<in> set r \<longrightarrow> a \<le> x \<and> x \<le> b"
  shows "mean_row r = NaN \<or> (\<exists>m. mean_row r = Num m \<and> a \<le> m \<and> m \<le> b)"
proof (cases "numbers_of r = []")
  case True
  then show ?thesis by (simp add: mean_row_def)
next
  case False
  let ?n = "of_nat (length (numbers_of r)) :: rat"
  from False have n: "0 < ?n" by simp
  from assms have "\<forall>x \<in> set (numbers_of r). a \<le> x \<and> x \<le> b"
    by (simp add: set_numbers_of)
  from sum_list_between [OF this]
  have "a \<le> sum_list (numbers_of r) / ?n \<and> sum_list (numbers_of r) / ?n \<le> b"
    using n by (simp add: pos_le_divide_eq pos_divide_le_eq mult.commute)
  with False show ?thesis by (simp add: mean_row_def Let_def)
qed

lemma mean_row_within:
  assumes "list_all (cell_within lo hi) r"
  shows "cell_within lo hi (mean_row r)" and "\<not> is_str (mean_row r)"
proof -
  from assms have "\<forall>x. Num x \<in> set r \<longrightarrow> lo \<le> x \<and> x \<le> hi"
    by (auto simp: list_all_iff)
  from mean_row_between [OF this] show "cell_within lo hi (mean_row r)"
    by auto
  show "\<not> is_str (mean_row r)"
    by (simp add: mean_row_def Let_def)
qed

lemma mean_row_NaN_iff: "mean_row r = NaN \<longleftrightarrow> (\<forall>x. Num x \<notin> set r)"
proof -
  have "numbers_of r = [] \<longleftrightarrow> set (numbers_of r) = {}" by simp
  also have "\<dots> \<longleftrightarrow> (\<forall>x. Num x \<notin> set r)" unfolding set_numbers_of by auto
  finally show ?thesis by (simp add: mean_row_def Let_def)
qed

lemma mean_axis1_raises_iff: "raises (mean_axis1 df) \<longleftrightarrow> list_ex (list_ex is_str) (cells df)"
  by (simp add: mean_axis1_def)

lemma mean_axis1_Inr:
  "mean_axis1 df = Inr vs \<Longrightarrow> vs = map mean_row (cells df) \<and> \<not> list_ex (list_ex is_str) (cells df)"
  by (auto simp: mean_axis1_def split: if_splits)

subsection \<open>Assigning a column\<close>

lemma setitem_col_raises_iff:
  "raises (setitem_col l vals df) \<longleftrightarrow> length vals \<noteq> length (index df)"
  by (simp add: setitem_col_def)

lemma setitem_col_new:
  assumes "l \<notin> set (columns df)" and "length vals = length (index df)"
  shows "setitem_col l vals df =
     Inr (df\<lparr>columns := columns df @ [l], cells := map2 (\<lambda>v r. r @ [v]) vals (cells df)\<rparr>)"
  using assms by (simp add: setitem_col_def)

lemma setitem_col_columns:
  assumes "setitem_col l vals df = Inr df'"
  shows "set (columns df') = insert l (set (columns df))"
  using assms by (auto simp: setitem_col_def split: if_splits)

lemma wf_setitem_col [frame_wf]:
  assumes "wf_frame df" and "setitem_col l vals df = Inr df'"
  shows "wf_frame df'"
proof -
  from assms(2) have len: "length vals = length (index df)"
    by (auto simp: setitem_col_def split: if_splits)
  from assms(1) have n: "length (cells df) = length (index df)"
    and r: "\<And>r. r \<in> set (cells df) \<Longrightarrow> length r = length (columns df)"
    by (simp_all add: wf_frame_def rect_length rect_row)
  show ?thesis
  proof (cases "l \<in> set (columns df)")
    case True
    with assms(2) len have "df' = df\<lparr>cells := map2 (\<lambda>v r. map2 (\<lambda>c x. if c = l then v else x) (columns df) r)
                                vals (cells df)\<rparr>"
      by (simp add: setitem_col_def)
    then show ?thesis
      unfolding wf_frame_def using len n r
      by (intro rectI) (auto dest!: set_zip_rightD)
  next
    case False
    with assms(2) len
    have "df' = df\<lparr>columns := columns df @ [l], cells := map2 (\<lambda>v r. r @ [v]) vals (cells df)\<rparr>"
      by (simp add: setitem_col_def)
    then show ?thesis
      unfolding wf_frame_def using len n r
      by (intro rectI) (auto dest!: set_zip_rightD)
  qed
qed

lemma labelled_columns_setitem_col_new:
  assumes "wf_frame df" and "l \<notin> set (columns df)" and "length vals = length (index df)"
    and "setitem_col l vals df = Inr df'"
  shows "labelled_columns df' = labelled_columns df @ [(l, vals)]"
proof -
  let ?n = "length (columns df)"
  have df': "columns df' = columns df @ [l]" "cells df' = map2 (\<lambda>v r. r @ [v]) vals (cells df)"
    using assms(4) unfolding setitem_col_new [OF assms(2,3)] by auto
  have len: "length (cells df) = length vals"
    using assms(1,3) by (simp add: wf_frame_length)
  have row: "length (cells df ! i) = ?n" if "i < length vals" for i
    using that len assms(1) by (simp add: wf_frame_row)
  have "column j (cells df') = column j (cells df)" if "j < ?n" for j
    using that len row by (intro nth_equalityI) (simp_all add: df' nth_append)
  moreover have "column ?n (cells df') = vals"
    using len row by (intro nth_equalityI) (simp_all add: df' nth_append)
  ultimately have "transpose_rect (Suc ?n) (cells df') = transpose_rect ?n (cells df) @ [vals]"
    by (simp add: transpose_rect_def)
  then show ?thesis
    by (simp add: labelled_columns_def df')
qed

subsection \<open>Moving a column into the index\<close>

lemma labels_of_Inr: "labels_of cs = Inr ls \<Longrightarrow> cs = map Str ls"
proof (induction cs arbitrary: ls)
  case Nil
  then show ?case by simp
next
  case (Cons c cs)
  then show ?case
    by (cases c) (auto simp: result_bind_eq_Inr_iff)
qed

lemma labels_of_map_Str [simp]: "labels_of (map Str ls) = Inr ls"
  by (induction ls) simp_all

lemma labels_of_Inl: "labels_of cs = Inl e \<Longrightarrow> e = Unsupported \<and> \<not> list_all is_str cs"
proof (induction cs)
  case Nil
  then show ?case by simp
next
  case (Cons c cs)
  then show ?case
    by (cases c; cases "labels_of cs") (auto simp: result_bind_def)
qed

lemma drop_nth_0 [simp]: "drop_nth 0 xs = tl xs"
  by (simp add: drop_nth_def drop_Suc)

lemma length_drop_nth: "j < length xs \<Longrightarrow> length (drop_nth j xs) = length xs - 1"
  by (simp add: drop_nth_def)

lemma drop_nth_only_map:
  assumes "positions_of x (map f xs) = [j]"
  shows "drop_nth j xs = filter (\<lambda>y. f y \<noteq> x) xs"
proof -
  have only: "i = j" if "i < length xs" "f (xs ! i) = x" for i
  proof -
    from that have "i \<in> set (positions_of x (map f xs))" by (simp add: positions_of_def)
    then show ?thesis unfolding assms by simp
  qed
  have "j \<in> set (positions_of x (map f xs))" unfolding assms by simp
  then have j: "j < length xs" "f (xs ! j) = x" by (auto simp: positions_of_def)
  have "f y \<noteq> x" if "y \<in> set (take j xs)" for y
  proof
    assume "f y = x"
    with that obtain i where "i < j" "f (xs ! i) = x"
      using j(1) by (auto simp: in_set_conv_nth)
    with j(1) only [of i] show False by simp
  qed
  moreover have "f y \<noteq> x" if "y \<in> set (drop (Suc j) xs)" for y
  proof
    assume "f y = x"
    with that obtain i where "i < length (drop (Suc j) xs)" "f (drop (Suc j) xs ! i) = x"
      unfolding in_set_conv_nth by blast
    then have "Suc j + i < length xs" "f (xs ! (Suc j + i)) = x"
      by simp_all
    with only [of "Suc j + i"] show False by simp
  qed
  ultimately have "filter (\<lambda>y. f y \<noteq> x) (take j xs) = take j xs"
    "filter (\<lambda>y. f y \<noteq> x) (drop (Suc j) xs) = drop (Suc j) xs"
    unfolding filter_id_conv by blast+
  with j(2) have "filter (\<lambda>y. f y \<noteq> x) (take j xs @ xs ! j # drop (Suc j) xs) = drop_nth j xs"
    by (simp add: drop_nth_def)
  then show ?thesis
    unfolding id_take_nth_drop [OF j(1), symmetric] by simp
qed

lemma drop_nth_only:
  assumes "positions_of x xs = [j]"
  shows "drop_nth j xs = filter (\<lambda>y. y \<noteq> x) xs"
  using drop_nth_only_map [of x "\<lambda>y. y" xs j] assms by simp

lemma drop_nth_map: "drop_nth j (map f xs) = map f (drop_nth j xs)"
  by (simp add: drop_nth_def take_map drop_map)

lemma drop_nth_zip:
  "length xs = length ys \<Longrightarrow> drop_nth j (zip xs ys) = zip (drop_nth j xs) (drop_nth j ys)"
  by (simp add: drop_nth_def take_zip drop_zip)

lemma drop_nth_transpose_rect:
  assumes "list_all (\<lambda>r. length r = n) m" and "j < n"
  shows "drop_nth j (transpose_rect n m) = transpose_rect (n - 1) (map (drop_nth j) m)"
proof (rule nth_equalityI)
  show "length (drop_nth j (transpose_rect n m)) = length (transpose_rect (n - 1) (map (drop_nth j) m))"
    using assms(2) by (simp add: length_drop_nth)
next
  fix i assume "i < length (drop_nth j (transpose_rect n m))"
  with assms(2) have i: "i < n - 1" by (simp add: length_drop_nth)
  have "drop_nth j r ! i = r ! (if i < j then i else Suc i)" if "r \<in> set m" for r
    using that assms i by (auto simp: drop_nth_def nth_append list_all_iff)
  then have "column i (map (drop_nth j) m) = column (if i < j then i else Suc i) m"
    by (simp add: column_def)
  with i assms(2) show "drop_nth j (transpose_rect n m) ! i =
      transpose_rect (n - 1) (map (drop_nth j) m) ! i"
    by (auto simp: drop_nth_def nth_append transpose_rect_def)
qed

lemma set_index_missing: "key \<notin> set (columns df) \<Longrightarrow> set_index key df = Inl (KeyError [key])"
  using positions_of_empty_iff [of key "columns df"] by (simp add: set_index_def)

lemma set_index_Inr:
  assumes "set_index key df = Inr df'"
  shows "\<exists>j. positions_of key (columns df) = [j] \<and> column j (cells df) = map Str (index df') \<and>
     index_name df' = Some key \<and> columns df' = filter (\<lambda>c. c \<noteq> key) (columns df) \<and>
     columns_name df' = columns_name df \<and> cells df' = map (drop_nth j) (cells df)"
proof -
  from assms obtain j where j: "positions_of key (columns df) = [j]"
    by (auto simp: set_index_def split: list.splits)
  with assms obtain ls where ls: "labels_of (column j (cells df)) = Inr ls"
    and df': "df' = \<lparr>index = ls, index_name = Some key, columns = drop_nth j (columns df),
            columns_name = columns_name df, cells = map (drop_nth j) (cells df)\<rparr>"
    by (auto simp: set_index_def result_bind_eq_Inr_iff)
  from labels_of_Inr [OF ls] have "column j (cells df) = map Str (index df')"
    by (simp add: df')
  moreover have "columns df' = filter (\<lambda>c. c \<noteq> key) (columns df)"
    unfolding drop_nth_only [OF j, symmetric] by (simp add: df')
  ultimately show ?thesis using j by (auto simp: df')
qed

lemma wf_set_index [frame_wf]:
  assumes "wf_frame df" and "set_index key df = Inr df'"
  shows "wf_frame df'"
proof -
  from set_index_Inr [OF assms(2)] obtain j
    where j: "positions_of key (columns df) = [j]"
      and ix: "column j (cells df) = map Str (index df')"
      and df': "columns df' = filter (\<lambda>c. c \<noteq> key) (columns df)"
        "cells df' = map (drop_nth j) (cells df)"
    by blast
  from j have "j \<in> set (positions_of key (columns df))" by simp
  then have less: "j < length (columns df)" by (simp add: positions_of_less)
  have "length (columns df') = length (drop_nth j (columns df))"
    by (simp only: df'(1) drop_nth_only [OF j])
  with less have cols: "length (columns df') = length (columns df) - 1"
    by (simp only: length_drop_nth)
  have "length (index df') = length (column j (cells df))"
    by (simp only: ix length_map)
  then have "length (cells df') = length (index df')"
    by (simp add: df'(2))
  moreover have "length r = length (columns df')" if "r \<in> set (cells df')" for r
  proof -
    from that obtain r0 where "r0 \<in> set (cells df)" "r = drop_nth j r0"
      unfolding df'(2) by auto
    with less wf_frame_row [OF assms(1)] show ?thesis
      by (simp add: cols length_drop_nth)
  qed
  ultimately show ?thesis
    unfolding wf_frame_def by (intro rectI)
qed

lemma set_index_Inl:
  assumes "set_index key df = Inl e"
  shows "e = KeyError [key] \<or> e = ValueError ''Index data must be 1-dimensional'' \<or> e = Unsupported"
proof (cases "positions_of key (columns df)")
  case Nil
  with assms show ?thesis by (simp add: set_index_def)
next
  case (Cons j js)
  show ?thesis
  proof (cases js)
    case Nil
    with Cons assms have "labels_of (column j (cells df)) = Inl e"
      by (cases "labels_of (column j (cells df))") (simp_all add: set_index_def)
    from labels_of_Inl [OF this] show ?thesis by simp
  next
    case (Cons k ks)
    with \<open>positions_of key (columns df) = j # js\<close> assms show ?thesis
      by (simp add: set_index_def)
  qed
qed

lemma labels_of_raises_iff: "raises (labels_of cs) \<longleftrightarrow> \<not> list_all is_str cs"
proof (cases "labels_of cs")
  case (Inl e)
  with labels_of_Inl [OF this] show ?thesis by simp
next
  case (Inr ls)
  with labels_of_Inr [OF this] show ?thesis by (simp add: list_all_iff)
qed

lemma labelled_columns_set_index:
  assumes "wf_frame df" and "set_index key df = Inr df'"
  shows "labelled_columns df' = filter (\<lambda>lv. fst lv \<noteq> key) (labelled_columns df)"
    and "filter (\<lambda>lv. fst lv = key) (labelled_columns df) = [(key, map Str (index df'))]"
proof -
  let ?n = "length (columns df)"
  from set_index_Inr [OF assms(2)] obtain j
    where j: "positions_of key (columns df) = [j]"
      and ix: "column j (cells df) = map Str (index df')"
      and df': "columns df' = filter (\<lambda>c. c \<noteq> key) (columns df)"
        "cells df' = map (drop_nth j) (cells df)"
    by blast
  from j have "j \<in> set (positions_of key (columns df))" by simp
  then have less: "j < ?n" and at: "columns df ! j = key" by (simp_all add: positions_of_less)
  have cols: "columns df' = drop_nth j (columns df)"
    by (simp only: df'(1) drop_nth_only [OF j])
  then have "labelled_columns df' =
      zip (drop_nth j (columns df)) (transpose_rect (?n - 1) (map (drop_nth j) (cells df)))"
    using less by (simp add: labelled_columns_def df'(2) length_drop_nth)
  also have "\<dots> = drop_nth j (labelled_columns df)"
    unfolding drop_nth_transpose_rect [OF wf_frame_rows [OF assms(1)] less, symmetric]
      labelled_columns_def
    by (simp add: drop_nth_zip)
  also have "\<dots> = filter (\<lambda>lv. fst lv \<noteq> key) (labelled_columns df)"
    using j by (intro drop_nth_only_map) simp
  finally show "labelled_columns df' = filter (\<lambda>lv. fst lv \<noteq> key) (labelled_columns df)" .
  from map_nth_positions_of [of df key] j labelled_columns_nth [OF less] at ix
  show "filter (\<lambda>lv. fst lv = key) (labelled_columns df) = [(key, map Str (index df'))]"
    by simp
qed

section \<open>Properties of the table operations\<close>

text \<open>C31: \<^verbatim>\<open>df[labels]\<close> on a rectangular table either raises a \<^verbatim>\<open>KeyError\<close> that lists the
  labels that are no column, exactly when there is such a label, or returns a rectangular table
  with the same index whose columns are, label by label in the order of the list, the columns
  of the input with that label, values unchanged.\<close>

theorem getitem_cols_refines:
  assumes "wf_frame df"
  shows "case getitem_cols labels df of
       Inl e \<Rightarrow> e = KeyError (filter (\<lambda>l. l \<notin> set (columns df)) labels) \<and>
                \<not> set labels \<subseteq> set (columns df)
     | Inr df' \<Rightarrow> set labels \<subseteq> set (columns df) \<and> wf_frame df' \<and> index df' = index df \<and>
         labelled_columns df' =
           concat (map (\<lambda>l. filter (\<lambda>lv. fst lv = l) (labelled_columns df)) labels)"
proof (cases "getitem_cols labels df")
  case (Inl e)
  then show ?thesis
    by (auto simp: getitem_cols_def Let_def filter_empty_conv split: if_splits)
next
  case (Inr df')
  from getitem_cols_Inr [OF this] wf_getitem_cols [OF assms this]
    labelled_columns_getitem_cols [OF assms this] Inr
  show ?thesis by simp
qed

theorem getitem_cols_refines_witness:
  "getitem_cols [''YR2001'', ''YR1999''] ex_raw = Inr (take_columns [2, 0] ex_raw) \<and>
   labelled_columns (take_columns [2, 0] ex_raw) =
     [labelled_columns ex_raw ! 2, labelled_columns ex_raw ! 0]"
proof -
  have run: "getitem_cols [''YR2001'', ''YR1999''] ex_raw = Inr (take_columns [2, 0] ex_raw)"
    by code_simp
  from getitem_cols_refines [OF wf_ex_raw, of "[''YR2001'', ''YR1999'']"] run show ?thesis
    by (simp add: labelled_columns_ex_raw)
qed

text \<open>C14: The mean of a row skips missing values and does not depend on the order of the
  cells: two rows with the same present cells, up to order, have the same mean.\<close>

theorem mean_row_skips_missing:
  assumes "mset (filter (\<lambda>c. \<not> isna c) r) = mset (filter (\<lambda>c. \<not> isna c) r')"
  shows "mean_row r = mean_row r'"
proof -
  have skip: "mean_row (filter (\<lambda>c. \<not> isna c) r) = mean_row r" for r
    unfolding mean_row_def numbers_of_skip_missing ..
  from mean_row_perm [OF assms] show ?thesis
    unfolding skip .
qed

theorem mean_row_skips_missing_witness:
  "mean_row [NaN, Num 10, Num 20] = mean_row [Num 20, NaN, NaN, Num 10] \<and>
   mean_row [Num 20, NaN, NaN, Num 10] = Num 15"
proof -
  have "mean_row [Num 20, NaN, NaN, Num 10] = Num 15" by code_simp
  with mean_row_skips_missing [of "[NaN, Num 10, Num 20]" "[Num 20, NaN, NaN, Num 10]"]
  show ?thesis by simp
qed

text \<open>\<^verbatim>\<open>df[label] = values\<close> on a rectangular table raises exactly when the values are not
  as many as the rows; otherwise the result is rectangular, has the same index, and its columns
  are those of the input with every column of that label replaced by the values, or, when the
  label is new, the columns of the input followed by the new column.\<close>

lemma setitem_col_refines:
  assumes "wf_frame df"
  shows "case setitem_col l vals df of
       Inl e \<Rightarrow> length vals \<noteq> length (index df)
     | Inr df' \<Rightarrow> length vals = length (index df) \<and> wf_frame df' \<and> index df' = index df \<and>
         labelled_columns df' =
           (if l \<in> set (columns df)
            then map (\<lambda>lv. (fst lv, if fst lv = l then vals else snd lv)) (labelled_columns df)
            else labelled_columns df @ [(l, vals)])"
proof (cases "setitem_col l vals df")
  case (Inl e)
  then show ?thesis
    by (auto simp: setitem_col_def split: if_splits)
next
  case (Inr df')
  then have len: "length vals = length (index df)" and "index df' = index df"
    by (auto simp: setitem_col_def split: if_splits)
  with Inr wf_setitem_col [OF assms Inr] labelled_columns_setitem_col_old [OF assms _ Inr]
    labelled_columns_setitem_col_new [OF assms _ len Inr]
  show ?thesis by simp
qed

text \<open>C32: When \<^verbatim>\<open>set_index\<close> returns, the table is rectangular, its index is named after the
  key, the key column of the input is the one column with that label and holds the new index
  labels, and the remaining columns are those of the input, in order and unchanged.\<close>

theorem set_index_refines:
  assumes "wf_frame df" and "set_index key df = Inr df'"
  shows "wf_frame df' \<and> index_name df' = Some key \<and> columns_name df' = columns_name df \<and>
     labelled_columns df' = filter (\<lambda>lv. fst lv \<noteq> key) (labelled_columns df) \<and>
     filter (\<lambda>lv. fst lv = key) (labelled_columns df) = [(key, map Str (index df'))]"
  using wf_set_index [OF assms] set_index_Inr [OF assms(2)] labelled_columns_set_index [OF assms]
  by auto

theorem set_index_refines_witness:
  "wf_frame ex_labelled \<and>
   (\<exists>df'. set_index ''Country'' ex_labelled = Inr df' \<and> index df' = [''Aruba'', ''World''] \<and>
      labelled_columns df' = [(''YR2000'', [Num 1, Num 2])])"
proof -
  have wf: "wf_frame ex_labelled"
    by code_simp
  have "case set_index ''Country'' ex_labelled of Inr df' \<Rightarrow> True | Inl e \<Rightarrow> False"
    by code_simp
  then obtain df' where run: "set_index ''Country'' ex_labelled = Inr df'"
    by (auto split: sum.splits)
  have "labelled_columns ex_labelled =
      [(''Country'', [Str ''Aruba'', Str ''World'']), (''YR2000'', [Num 1, Num 2])]"
    by code_simp
  with set_index_refines [OF wf run] have "index df' = [''Aruba'', ''World'']"
    "labelled_columns df' = [(''YR2000'', [Num 1, Num 2])]"
    by (auto simp: map_eq_Cons_conv)
  with wf run show ?thesis by simp
qed

end
