(* ===== verification/Chart.thy ===== *)
theory Chart
  imports Console
begin

text \<open>
  The function \<^verbatim>\<open>create_chart\<close> of \<^verbatim>\<open>src/part1_script.py\<close> (lines 6 to 68).  The figure
  that plotly builds is a record of its traces (one line per column of the table), its
  title, its axis labels and its dropdown menus; a button of a dropdown is a record of its
  label, its method and its arguments.  A visibility value is \<^verbatim>\<open>True\<close>, \<^verbatim>\<open>False\<close> or
  \<^verbatim>\<open>'legendonly'\<close>.  \<^verbatim>\<open>filter_options\<close> is a Python dictionary: an association list
  in insertion order, whose keys are distinct.

  The loops of the function are recursive functions with the accumulators of the source:
  \<open>visibility_loop\<close> is the loop over the columns (lines 31 to 40), \<open>category_loop\<close> the
  loop over the keys (lines 29 to 43), \<open>buttons_loop\<close> the loop over the enumerated
  categories (lines 47 to 49).  Every dictionary lookup and every list index of the source
  is an operation that can raise; the lemmas show that none does.  \<open>visibility_while\<close>,
  \<open>category_while\<close> and \<open>buttons_while\<close> are the same loops run by position, as Python
  runs them; they end, with the results of the recursive functions.  \<open>px_line\<close> is the call of
  \<^verbatim>\<open>px.line\<close>: the figure \<open>line_figure\<close>, with one line for each column, when the column
  labels are distinct.  \<open>build_figure\<close> is the
  function up to \<^verbatim>\<open>fig.update_layout\<close>, and \<open>create_chart\<close> adds the two effects,
  \<open>fig_show\<close> and \<open>write_html\<close>: showing the figure and writing it to \<^verbatim>\<open>visual.html\<close>.
  The state of the script is the record \<open>world\<close>, which extends the console by the figures
  shown and the files written; \<open>create_chart\<close> is a statement on it.

  What the browser does when a button is chosen is not code of the repository:
  \<open>restyle_visible\<close> and \<open>select_button\<close> model it after the description of the dropdown
  in the specification, and \<open>view_step\<close> and \<open>reachable_view\<close> make the dropdown a state
  machine whose states are the views of the figure.
\<close>

section \<open>Data\<close>

datatype visible = VTrue | VFalse | Legendonly

type_synonym filter_options = "(string \<times> label list) list"

record button =
  button_label :: string
  button_method :: string
  button_args :: "string \<times> visible list"

record trace =
  trace_name :: label
  trace_x :: "label list"
  trace_y :: "cell list"
  trace_visible :: visible

record updatemenu =
  menu_type :: string
  menu_direction :: string
  menu_buttons :: "button list"

record figure =
  fig_data :: "trace list"
  fig_title :: string
  fig_labels :: "(string \<times> string) list"
  fig_updatemenus :: "updatemenu list"
  fig_title_x :: "rat option"

record world = console +
  shown :: "figure list"
  files :: "string \<Rightarrow> figure option"

section \<open>Dictionaries\<close>

definition dict_keys :: "('k \<times> 'v) list \<Rightarrow> 'k list" where
  "dict_keys d = map fst d"

definition dict_get :: "(label \<times> 'v) list \<Rightarrow> label \<Rightarrow> 'v result" where
  "dict_get d k = (case map_of d k of None \<Rightarrow> Inl (KeyError [k]) | Some v \<Rightarrow> Inr v)"

section \<open>The figure\<close>

text \<open>The figure that \<^verbatim>\<open>px.line\<close> makes of a table: one line for each column, over the
  index.  What plotly does with a table in which a column label occurs twice is not modelled:
  there the call ends with \<open>Unsupported\<close>.\<close>

definition line_figure :: "dataframe \<Rightarrow> figure" where
  "line_figure df =
     \<lparr>fig_data = map (\<lambda>j. \<lparr>trace_name = columns df ! j, trace_x = index df,
                          trace_y = column j (cells df), trace_visible = VTrue\<rparr>) [0..<length (columns df)],
      fig_title = ''Percentage (%) of Population Using At Least Basic Sanitation Services'',
      fig_labels = [(''value'', ''Percentage (%) of Population''), (''variable'', ''Filter By:'')],
      fig_updatemenus = [], fig_title_x = None\<rparr>"

definition px_line :: "dataframe \<Rightarrow> figure result" where
  "px_line df = (if distinct (columns df) then Inr (line_figure df) else Inl Unsupported)"

definition update_traces_visible :: "visible \<Rightarrow> figure \<Rightarrow> figure" where
  "update_traces_visible v fig = fig\<lparr>fig_data := map (\<lambda>t. t\<lparr>trace_visible := v\<rparr>) (fig_data fig)\<rparr>"

section \<open>The visibility lists\<close>

definition visibility_entry :: "string \<Rightarrow> label list \<Rightarrow> label \<Rightarrow> visible" where
  "visibility_entry category_name options col =
     (if col \<in> set options then
        (if col = ''Country_Avg_line'' then VTrue
         else if category_name = ''Countries'' then Legendonly
         else VTrue)
      else VFalse)"

fun visibility_loop ::
  "filter_options \<Rightarrow> string \<Rightarrow> label list \<Rightarrow> visible list \<Rightarrow> visible list result" where
  "visibility_loop fo category_name [] visibility_list = Inr visibility_list"
| "visibility_loop fo category_name (col # cols) visibility_list =
     result_bind (dict_get fo category_name) (\<lambda>options.
       visibility_loop fo category_name cols
         (visibility_list @ [visibility_entry category_name options col]))"

fun category_loop ::
  "filter_options \<Rightarrow> label list \<Rightarrow> string list \<Rightarrow> string list \<times> visible list list \<Rightarrow>
     (string list \<times> visible list list) result" where
  "category_loop fo cols [] acc = Inr acc"
| "category_loop fo cols (category_name # keys) (category_list, category_visibility_list) =
     result_bind (visibility_loop fo category_name cols []) (\<lambda>visibility_list.
       category_loop fo cols keys
         (category_list @ [category_name], category_visibility_list @ [visibility_list]))"

fun buttons_loop ::
  "visible list list \<Rightarrow> (nat \<times> string) list \<Rightarrow> button list \<Rightarrow> button list result" where
  "buttons_loop category_visibility_list [] bs = Inr bs"
| "buttons_loop category_visibility_list ((i, g) # rest) bs =
     result_bind (list_get category_visibility_list i) (\<lambda>vis.
       buttons_loop category_visibility_list rest
         (bs @ [\<lparr>button_label = g, button_method = ''restyle'',
                  button_args = (''visible'', vis)\<rparr>]))"

text \<open>The same three loops as Python runs them, position by position (\<open>for_loop\<close>): the
  body of each is the body of the statement, with the variables that it assigns as its
  state.  The outer loop runs the inner one once for each key; an inner loop that did not
  end would stop the model with \<open>Unsupported\<close>, and \<open>visibility_while_eq\<close> shows that there
  is none.\<close>

definition visibility_while ::
  "filter_options \<Rightarrow> string \<Rightarrow> label list \<Rightarrow> visible list \<Rightarrow> (nat \<times> visible list result) option" where
  "visibility_while fo category_name cols visibility_list =
     for_loop cols (\<lambda>col visibility_list.
       result_bind (dict_get fo category_name) (\<lambda>options.
         Inr (visibility_list @ [visibility_entry category_name options col])))
       visibility_list"

definition category_while ::
  "filter_options \<Rightarrow> label list \<Rightarrow> string list \<Rightarrow> string list \<times> visible list list \<Rightarrow>
     (nat \<times> (string list \<times> visible list list) result) option" where
  "category_while fo cols keys acc =
     for_loop keys (\<lambda>category_name (category_list, category_visibility_list).
       case visibility_while fo category_name cols [] of
         None \<Rightarrow> Inl Unsupported
       | Some (n, r) \<Rightarrow> result_bind r (\<lambda>visibility_list.
           Inr (category_list @ [category_name], category_visibility_list @ [visibility_list])))
       acc"

definition buttons_while ::
  "visible list list \<Rightarrow> (nat \<times> string) list \<Rightarrow> button list \<Rightarrow> (nat \<times> button list result) option" where
  "buttons_while category_visibility_list pairs bs =
     for_loop pairs (\<lambda>(i, g) bs.
       result_bind (list_get category_visibility_list i) (\<lambda>vis.
         Inr (bs @ [\<lparr>button_label = g, button_method = ''restyle'',
                      button_args = (''visible'', vis)\<rparr>])))
       bs"

definition all_button :: "dataframe \<Rightarrow> button" where
  "all_button df =
     \<lparr>button_label = ''All'', button_method = ''restyle'',
      button_args = (''visible'', map (\<lambda>i. Legendonly) [0..<length (columns df)])\<rparr>"

definition update_layout :: "button list \<Rightarrow> figure \<Rightarrow> figure" where
  "update_layout bs fig =
     fig\<lparr>fig_updatemenus := [\<lparr>menu_type = ''dropdown'', menu_direction = ''down'',
                               menu_buttons = bs\<rparr>],
          fig_title_x := Some (1 / 2)\<rparr>"

definition build_figure :: "filter_options \<Rightarrow> dataframe \<Rightarrow> figure result" where
  "build_figure fo df =
     result_bind (px_line df) (\<lambda>fig.
     let fig = update_traces_visible Legendonly fig
     in result_bind (category_loop fo (columns df) (dict_keys fo) ([], []))
          (\<lambda>(category_list, category_visibility_list).
        result_bind (buttons_loop category_visibility_list (enumerate 0 category_list) [])
          (\<lambda>bs. Inr (update_layout (all_button df # bs) fig))))"

definition fig_show :: "figure \<Rightarrow> (world, unit) io" where
  "fig_show fig = io_modify (\<lambda>w. w\<lparr>shown := shown w @ [fig]\<rparr>)"

definition write_html :: "string \<Rightarrow> figure \<Rightarrow> (world, unit) io" where
  "write_html path fig = io_modify (\<lambda>w. w\<lparr>files := (files w)(path \<mapsto> fig)\<rparr>)"

definition create_chart :: "filter_options \<Rightarrow> dataframe \<Rightarrow> (world, unit) io" where
  "create_chart fo df =
     io_bind (io_lift (build_figure fo df)) (\<lambda>fig.
     io_then (fig_show fig) (write_html ''visual.html'' fig))"

section \<open>The dropdown in the browser\<close>

definition restyle_visible :: "visible list \<Rightarrow> figure \<Rightarrow> figure" where
  "restyle_visible vs fig = fig\<lparr>fig_data := map2 (\<lambda>t v. t\<lparr>trace_visible := v\<rparr>) (fig_data fig) vs\<rparr>"

definition select_button :: "button \<Rightarrow> figure \<Rightarrow> figure" where
  "select_button b fig = restyle_visible (snd (button_args b)) fig"

section \<open>The specification of the buttons\<close>

definition category_button :: "label list \<Rightarrow> string \<times> label list \<Rightarrow> button" where
  "category_button cols kv =
     \<lparr>button_label = fst kv, button_method = ''restyle'',
      button_args = (''visible'', map (visibility_entry (fst kv) (snd kv)) cols)\<rparr>"

definition fig_buttons :: "figure \<Rightarrow> button list" where
  "fig_buttons fig = concat (map menu_buttons (fig_updatemenus fig))"

definition button_vector :: "button \<Rightarrow> visible list" where
  "button_vector b = snd (button_args b)"

section \<open>The dropdown as a state machine\<close>

text \<open>A state is a figure as the browser shows it, a step is the choice of one of its buttons.  \<open>clicks\<close> is the same for a given list of choices.\<close>

inductive view_step :: "figure \<Rightarrow> figure \<Rightarrow> bool" where
  select: "b \<in> set (fig_buttons fig) \<Longrightarrow> view_step fig (select_button b fig)"

inductive reachable_view :: "figure \<Rightarrow> figure \<Rightarrow> bool" for fig0 :: figure where
  initial: "reachable_view fig0 fig0"
| choose: "reachable_view fig0 fig \<Longrightarrow> view_step fig fig' \<Longrightarrow> reachable_view fig0 fig'"

code_pred view_step .

fun clicks :: "button list \<Rightarrow> figure \<Rightarrow> figure" where
  "clicks [] fig = fig"
| "clicks (b # bs) fig = clicks bs (select_button b fig)"

text \<open>A figure is aligned when every button addresses every line; two figures have the same
  lines when their traces agree in name and data, whatever is visible.\<close>

definition aligned :: "figure \<Rightarrow> bool" where
  "aligned fig \<longleftrightarrow>
     list_all (\<lambda>b. length (button_vector b) = length (fig_data fig)) (fig_buttons fig)"

definition same_lines :: "figure \<Rightarrow> figure \<Rightarrow> bool" where
  "same_lines fig fig' \<longleftrightarrow>
     map (\<lambda>t. (trace_name t, trace_x t, trace_y t)) (fig_data fig) =
     map (\<lambda>t. (trace_name t, trace_x t, trace_y t)) (fig_data fig')"

section \<open>Examples\<close>

definition ex_options :: filter_options where
  "ex_options = [(''Countries'', [''Country_Avg_line'', ''A'', ''B'']), (''Regions'', [''R1''])]"

definition ex_table :: dataframe where
  "ex_table = \<lparr>index = [''2000'', ''2001''], index_name = Some ''Year'',
     columns = [''Country_Avg_line'', ''A'', ''B'', ''R1''], columns_name = None,
     cells = [[Num 1, Num 2, Num 0, Num 5], [Num 1, NaN, Num 1, Num 6]]\<rparr>"

definition ex_figure :: figure where
  "ex_figure =
     update_layout (all_button ex_table # map (category_button (columns ex_table)) ex_options)
       (update_traces_visible Legendonly (line_figure ex_table))"

definition ex_world :: world where
  "ex_world = \<lparr>stdout = [], shown = [], files = Map.empty\<rparr>"

section \<open>Lemmas\<close>

subsection \<open>Dictionaries\<close>

lemma dict_get_Some: "map_of d k = Some v \<Longrightarrow> dict_get d k = Inr v"
  by (simp add: dict_get_def)

lemma dict_get_key: "k \<in> set (dict_keys d) \<Longrightarrow> \<exists>v. dict_get d k = Inr v"
  by (cases "map_of d k") (auto simp: dict_get_def dict_keys_def map_of_eq_None_iff)

lemma dict_get_item: "distinct (dict_keys d) \<Longrightarrow> (k, v) \<in> set d \<Longrightarrow> dict_get d k = Inr v"
  by (simp add: dict_get_def dict_keys_def)

lemma dict_get_raises_iff: "raises (dict_get d k) \<longleftrightarrow> k \<notin> set (dict_keys d)"
proof -
  have "raises (dict_get d k) \<longleftrightarrow> map_of d k = None"
    by (simp add: dict_get_def split: option.splits)
  then show ?thesis
    by (simp add: map_of_eq_None_iff dict_keys_def)
qed

subsection \<open>The loops\<close>

lemma visibility_loop_eq:
  "dict_get fo category_name = Inr options \<Longrightarrow>
     visibility_loop fo category_name cols acc =
       Inr (acc @ map (visibility_entry category_name options) cols)"
  by (induction cols arbitrary: acc) simp_all

lemma category_loop_eq:
  assumes "\<forall>kv \<in> set kvs. dict_get fo (fst kv) = Inr (snd kv)"
  shows "category_loop fo cols (map fst kvs) (cl, cvl) =
     Inr (cl @ map fst kvs, cvl @ map (\<lambda>kv. map (visibility_entry (fst kv) (snd kv)) cols) kvs)"
  using assms
  by (induction kvs arbitrary: cl cvl) (simp_all add: visibility_loop_eq)

lemma buttons_loop_eq:
  assumes "n + length gs \<le> length cvl"
  shows "buttons_loop cvl (enumerate n gs) bs =
     Inr (bs @ map (\<lambda>(i, g). \<lparr>button_label = g, button_method = ''restyle'',
                               button_args = (''visible'', cvl ! i)\<rparr>) (enumerate n gs))"
  using assms
  by (induction gs arbitrary: n bs) simp_all

text \<open>Each recursive loop is the for statement over its body.\<close>

lemma visibility_loop_for_each:
  "visibility_loop fo category_name cols acc =
     for_each (\<lambda>col visibility_list.
       result_bind (dict_get fo category_name) (\<lambda>options.
         Inr (visibility_list @ [visibility_entry category_name options col]))) cols acc"
  by (induction cols arbitrary: acc) (simp_all add: result_bind_assoc)

lemma visibility_while_eq:
  "\<exists>n. visibility_while fo category_name cols acc =
          Some (n, visibility_loop fo category_name cols acc) \<and> n \<le> length cols \<and>
        (raises (visibility_loop fo category_name cols acc) \<or> n = length cols)"
  unfolding visibility_while_def visibility_loop_for_each by (rule for_loop_for_each)

lemma category_loop_for_each:
  "category_loop fo cols keys acc =
     for_each (\<lambda>category_name (category_list, category_visibility_list).
       case visibility_while fo category_name cols [] of
         None \<Rightarrow> Inl Unsupported
       | Some (n, r) \<Rightarrow> result_bind r (\<lambda>visibility_list.
           Inr (category_list @ [category_name], category_visibility_list @ [visibility_list])))
       keys acc"
proof (induction keys arbitrary: acc)
  case (Cons category_name keys)
  obtain n where "visibility_while fo category_name cols [] =
      Some (n, visibility_loop fo category_name cols [])"
    using visibility_while_eq [of fo category_name cols "[]"] by blast
  with Cons show ?case
    by (cases acc) (simp add: result_bind_assoc)
qed simp

lemma buttons_loop_for_each:
  "buttons_loop cvl pairs bs =
     for_each (\<lambda>(i, g) bs.
       result_bind (list_get cvl i) (\<lambda>vis.
         Inr (bs @ [\<lparr>button_label = g, button_method = ''restyle'',
                      button_args = (''visible'', vis)\<rparr>]))) pairs bs"
  by (induction cvl pairs bs rule: buttons_loop.induct) (simp_all add: result_bind_assoc)

lemma all_button_eq:
  "all_button df = \<lparr>button_label = ''All'', button_method = ''restyle'',
     button_args = (''visible'', replicate (length (columns df)) Legendonly)\<rparr>"
  by (simp add: all_button_def map_replicate_const)

text \<open>The three loops together build one button for each entry of the dictionary.\<close>

lemma loops_eq:
  assumes "\<forall>kv \<in> set kvs. dict_get fo (fst kv) = Inr (snd kv)"
  shows "result_bind (category_loop fo cols (map fst kvs) ([], []))
           (\<lambda>(category_list, category_visibility_list).
              buttons_loop category_visibility_list (enumerate 0 category_list) []) =
         Inr (map (category_button cols) kvs)"
proof -
  let ?vis = "\<lambda>kv. map (visibility_entry (fst kv) (snd kv)) cols"
  have "map (\<lambda>(i, g). \<lparr>button_label = g, button_method = ''restyle'',
            button_args = (''visible'', map ?vis kvs ! i)\<rparr>) (enumerate 0 (map fst kvs)) =
        map (category_button cols) kvs"
    by (intro nth_equalityI) (simp_all add: nth_enumerate_eq category_button_def)
  then show ?thesis
    by (simp add: category_loop_eq [OF assms] buttons_loop_eq)
qed

lemma build_figure_repeated: "\<not> distinct (columns df) \<Longrightarrow> build_figure fo df = Inl Unsupported"
  by (simp add: build_figure_def px_line_def)

lemma build_figure_eq:
  assumes "\<forall>kv \<in> set kvs. dict_get fo (fst kv) = Inr (snd kv)" and "dict_keys fo = map fst kvs"
    and "distinct (columns df)"
  shows "build_figure fo df =
     Inr (update_layout (all_button df # map (category_button (columns df)) kvs)
            (update_traces_visible Legendonly (line_figure df)))"
proof -
  have "build_figure fo df =
      result_bind (result_bind (category_loop fo (columns df) (map fst kvs) ([], []))
           (\<lambda>(category_list, category_visibility_list).
              buttons_loop category_visibility_list (enumerate 0 category_list) []))
        (\<lambda>bs. Inr (update_layout (all_button df # bs) (update_traces_visible Legendonly (line_figure df))))"
    by (simp add: build_figure_def px_line_def assms(2,3) result_bind_def split: sum.splits prod.splits)
  then show ?thesis
    by (simp add: loops_eq [OF assms(1)])
qed

lemma build_figure_dict:
  assumes "distinct (dict_keys fo)" and "distinct (columns df)"
  shows "build_figure fo df =
     Inr (update_layout (all_button df # map (category_button (columns df)) fo)
            (update_traces_visible Legendonly (line_figure df)))"
  using assms by (intro build_figure_eq) (auto simp: dict_get_item dict_keys_def)

lemma build_figure_distinct: "build_figure fo df = Inr fig \<Longrightarrow> distinct (columns df)"
  using build_figure_repeated [of df fo] by (cases "distinct (columns df)") simp_all

lemma build_figure_returns:
  assumes "distinct (columns df)"
  shows "\<exists>fig. build_figure fo df = Inr fig"
proof -
  define kvs where "kvs = map (\<lambda>k. (k, the (map_of fo k))) (dict_keys fo)"
  have "map fst kvs = dict_keys fo"
    by (simp add: kvs_def comp_def)
  moreover have "dict_get fo k = Inr (the (map_of fo k))" if "k \<in> set (dict_keys fo)" for k
    using dict_get_key [OF that] by (auto simp: dict_get_def split: option.splits)
  then have "\<forall>kv \<in> set kvs. dict_get fo (fst kv) = Inr (snd kv)"
    by (simp add: kvs_def)
  ultimately show ?thesis
    using build_figure_eq [of kvs fo df] assms by simp
qed

text \<open>The loops of the function never raise: building the figure fails only where the model
  does not follow plotly.\<close>

lemma build_figure_Inl:
  assumes "build_figure fo df = Inl e"
  shows "e = Unsupported" and "\<not> distinct (columns df)"
proof -
  from build_figure_returns [of df fo] assms show "\<not> distinct (columns df)"
    by auto
  from build_figure_repeated [OF this, of fo] assms show "e = Unsupported"
    by simp
qed

lemma build_figure_ex:
  assumes "distinct (columns df)"
  shows "\<exists>kvs. map fst kvs = dict_keys fo \<and> (\<forall>kv \<in> set kvs. dict_get fo (fst kv) = Inr (snd kv)) \<and>
     build_figure fo df =
       Inr (update_layout (all_button df # map (category_button (columns df)) kvs)
              (update_traces_visible Legendonly (line_figure df)))"
proof -
  define kvs where "kvs = map (\<lambda>k. (k, the (map_of fo k))) (dict_keys fo)"
  have keys: "map fst kvs = dict_keys fo"
    by (simp add: kvs_def comp_def)
  have "dict_get fo k = Inr (the (map_of fo k))" if "k \<in> set (dict_keys fo)" for k
    using dict_get_key [OF that] by (auto simp: dict_get_def split: option.splits)
  then have "\<forall>kv \<in> set kvs. dict_get fo (fst kv) = Inr (snd kv)"
    by (simp add: kvs_def)
  with keys show ?thesis
    using build_figure_eq [of kvs fo df] assms by auto
qed

text \<open>The figure that was built.\<close>

lemma build_figure_Inr_ex:
  assumes "build_figure fo df = Inr fig"
  shows "\<exists>kvs. map fst kvs = dict_keys fo \<and> (\<forall>kv \<in> set kvs. dict_get fo (fst kv) = Inr (snd kv)) \<and>
     fig = update_layout (all_button df # map (category_button (columns df)) kvs)
             (update_traces_visible Legendonly (line_figure df))"
  using build_figure_ex [OF build_figure_distinct [OF assms], of fo] assms by auto

lemma build_figure_Inr_dict:
  assumes "distinct (dict_keys fo)" and "build_figure fo df = Inr fig"
  shows "fig = update_layout (all_button df # map (category_button (columns df)) fo)
             (update_traces_visible Legendonly (line_figure df))"
  using build_figure_dict [OF assms(1) build_figure_distinct [OF assms(2)]] assms(2) by simp

subsection \<open>Reading the figure\<close>

lemma fig_buttons_update_layout [simp]: "fig_buttons (update_layout bs fig) = bs"
  by (simp add: fig_buttons_def update_layout_def)

lemma fig_data_update_layout [simp]: "fig_data (update_layout bs fig) = fig_data fig"
  by (simp add: update_layout_def)

lemma fig_data_legendonly [simp]:
  "fig_data (update_traces_visible v (line_figure df)) =
     map (\<lambda>j. \<lparr>trace_name = columns df ! j, trace_x = index df,
                trace_y = column j (cells df), trace_visible = v\<rparr>) [0..<length (columns df)]"
  by (simp add: update_traces_visible_def line_figure_def)

lemma fig_data_labelled_columns:
  "fig_data (update_traces_visible v (line_figure df)) =
     map (\<lambda>lv. \<lparr>trace_name = fst lv, trace_x = index df, trace_y = snd lv, trace_visible = v\<rparr>)
       (labelled_columns df)"
  by (intro nth_equalityI) (simp_all add: labelled_columns_nth)

lemma button_vector_simps [simp]:
  "button_vector (all_button df) = replicate (length (columns df)) Legendonly"
  "button_vector (category_button cols kv) = map (visibility_entry (fst kv) (snd kv)) cols"
  "button_label (all_button df) = ''All''"
  "button_label (category_button cols kv) = fst kv"
  by (simp_all add: button_vector_def all_button_eq category_button_def)

lemma visibility_entry_outside: "col \<notin> set options \<Longrightarrow> visibility_entry c options col = VFalse"
  and visibility_entry_average:
    "''Country_Avg_line'' \<in> set options \<Longrightarrow> visibility_entry c options ''Country_Avg_line'' = VTrue"
  and visibility_entry_country:
    "col \<in> set options \<Longrightarrow> col \<noteq> ''Country_Avg_line'' \<Longrightarrow>
       visibility_entry ''Countries'' options col = Legendonly"
  and visibility_entry_group:
    "col \<in> set options \<Longrightarrow> c \<noteq> ''Countries'' \<Longrightarrow> visibility_entry c options col = VTrue"
  by (simp_all add: visibility_entry_def)

text \<open>The vectors of a table whose columns are grouped by category.\<close>

lemma vector_countries:
  assumes "''Country_Avg_line'' \<notin> set (cs @ gs)" and "set cs \<inter> set gs = {}"
  shows "map (visibility_entry ''Countries'' (''Country_Avg_line'' # cs)) (''Country_Avg_line'' # cs @ gs) =
     VTrue # replicate (length cs) Legendonly @ replicate (length gs) VFalse"
proof -
  have "map (visibility_entry ''Countries'' (''Country_Avg_line'' # cs)) cs =
      replicate (length cs) Legendonly"
    using assms(1) by (intro map_const_on visibility_entry_country) auto
  moreover have "map (visibility_entry ''Countries'' (''Country_Avg_line'' # cs)) gs =
      replicate (length gs) VFalse"
    using assms by (intro map_const_on visibility_entry_outside) auto
  ultimately show ?thesis
    by (simp add: visibility_entry_average)
qed

lemma vector_group:
  assumes "set before \<inter> set gs = {}" and "set gs \<inter> set after = {}" and "c \<noteq> ''Countries''"
    and "''Country_Avg_line'' \<notin> set gs"
  shows "map (visibility_entry c gs) (before @ gs @ after) =
     replicate (length before) VFalse @ replicate (length gs) VTrue @ replicate (length after) VFalse"
proof -
  have "map (visibility_entry c gs) before = replicate (length before) VFalse"
    using assms(1) by (intro map_const_on visibility_entry_outside) auto
  moreover have "map (visibility_entry c gs) after = replicate (length after) VFalse"
    using assms(2) by (intro map_const_on visibility_entry_outside) auto
  moreover have "map (visibility_entry c gs) gs = replicate (length gs) VTrue"
    using assms(3) by (intro map_const_on visibility_entry_group) auto
  ultimately show ?thesis by simp
qed

lemma create_chart_run:
  "build_figure fo df = Inr fig \<Longrightarrow>
     create_chart fo df w =
       (Inr (), w\<lparr>shown := shown w @ [fig], files := (files w)(''visual.html'' \<mapsto> fig)\<rparr>)"
  by (simp add: create_chart_def fig_show_def write_html_def io_simps)

lemma create_chart_fails:
  "build_figure fo df = Inl e \<Longrightarrow> create_chart fo df w = (Inl e, w)"
  by (simp add: create_chart_def io_simps)

lemma create_chart_returns:
  assumes "distinct (columns df)"
  shows "\<exists>fig. create_chart fo df w =
       (Inr (), w\<lparr>shown := shown w @ [fig], files := (files w)(''visual.html'' \<mapsto> fig)\<rparr>) \<and>
     build_figure fo df = Inr fig"
  using build_figure_returns [OF assms, of fo] by (auto simp: create_chart_run)

lemma ex_options_distinct: "distinct (dict_keys ex_options)"
  by (simp add: ex_options_def dict_keys_def)

lemma build_ex_figure: "build_figure ex_options ex_table = Inr ex_figure"
proof -
  have "distinct (columns ex_table)"
    by (simp add: ex_table_def)
  from build_figure_dict [OF ex_options_distinct this] show ?thesis
    by (simp add: ex_figure_def)
qed

subsection \<open>Choosing buttons\<close>

inductive_cases view_stepE: "view_step fig fig'"

lemma fig_buttons_select [simp]: "fig_buttons (select_button b fig) = fig_buttons fig"
  by (simp add: select_button_def restyle_visible_def fig_buttons_def)

lemma fig_data_select:
  assumes "length (button_vector b) = length (fig_data fig)"
  shows "length (fig_data (select_button b fig)) = length (fig_data fig)"
    and "map trace_visible (fig_data (select_button b fig)) = button_vector b"
    and "same_lines (select_button b fig) fig"
  using assms
  by (auto simp: select_button_def restyle_visible_def button_vector_def same_lines_def
      intro!: nth_equalityI)

lemma aligned_select:
  assumes "aligned fig" and "b \<in> set (fig_buttons fig)"
  shows "aligned (select_button b fig)"
  using assms by (simp add: aligned_def list_all_iff fig_data_select(1))

lemma select_select:
  assumes "length (button_vector b) = length (fig_data fig)"
    and "length (button_vector b') = length (fig_data fig)"
  shows "select_button b' (select_button b fig) = select_button b' fig"
proof -
  have "map2 (\<lambda>t v. t\<lparr>trace_visible := v\<rparr>) (map2 (\<lambda>t v. t\<lparr>trace_visible := v\<rparr>) ts vs) vs' =
      map2 (\<lambda>t v. t\<lparr>trace_visible := v\<rparr>) ts vs'"
    if "length vs = length ts" "length vs' = length ts" for ts :: "trace list" and vs vs'
    using that by (intro nth_equalityI) simp_all
  with assms show ?thesis
    by (simp add: select_button_def restyle_visible_def button_vector_def)
qed

lemma same_lines_trans: "same_lines a b \<Longrightarrow> same_lines b c \<Longrightarrow> same_lines a c"
  by (simp add: same_lines_def)

lemma reachable_view_invariant:
  assumes "reachable_view fig0 fig" and "aligned fig0"
  shows "aligned fig \<and> fig_buttons fig = fig_buttons fig0 \<and> same_lines fig fig0"
  using assms
proof (induction rule: reachable_view.induct)
  case initial
  then show ?case by (simp add: same_lines_def)
next
  case (choose fig fig')
  from choose.hyps(2) obtain b where b: "b \<in> set (fig_buttons fig)" "fig' = select_button b fig"
    by (rule view_stepE)
  from choose.IH [OF choose.prems] have inv: "aligned fig" "fig_buttons fig = fig_buttons fig0"
    "same_lines fig fig0" by simp_all
  from inv(1) b(1) have "length (button_vector b) = length (fig_data fig)"
    by (simp add: aligned_def list_all_iff)
  from fig_data_select(3) [OF this] inv aligned_select [OF inv(1) b(1)] show ?case
    by (auto simp: b(2) intro: same_lines_trans)
qed

lemma reachable_view_buttons:
  "reachable_view fig0 fig \<Longrightarrow> fig_buttons fig = fig_buttons fig0"
  by (induction rule: reachable_view.induct) (auto elim: view_stepE)

lemma reachable_clicks:
  assumes "set bs \<subseteq> set (fig_buttons fig0)" and "reachable_view fig0 fig"
  shows "reachable_view fig0 (clicks bs fig)"
  using assms
proof (induction bs arbitrary: fig)
  case Nil
  then show ?case by simp
next
  case (Cons b bs)
  from Cons.prems reachable_view_buttons [OF Cons.prems(2)]
  have "view_step fig (select_button b fig)"
    by (intro view_step.select) simp
  with Cons.prems(2) have "reachable_view fig0 (select_button b fig)"
    by (rule reachable_view.choose)
  with Cons show ?case by simp
qed

lemma aligned_build_figure: "build_figure fo df = Inr fig \<Longrightarrow> aligned fig"
proof -
  assume "build_figure fo df = Inr fig"
  from build_figure_Inr_ex [OF this] obtain kvs where
    "fig = update_layout (all_button df # map (category_button (columns df)) kvs)
       (update_traces_visible Legendonly (line_figure df))"
    by auto
  then show ?thesis
    by (auto simp: aligned_def list_all_iff)
qed

section \<open>Properties of the chart\<close>

text \<open>C8: For a dictionary (distinct keys), the three loops of \<^verbatim>\<open>create_chart\<close> build
  exactly the button list of the comprehension: the button All, then one button for each
  category, in the order of the dictionary, whose vector is the visibility entry of every
  column of the table, in the order of the columns.  The figure has one menu, a dropdown that
  opens downwards, and its options are these buttons: one more than there are categories.\<close>

theorem buttons_are_the_comprehension:
  assumes "distinct (dict_keys fo)" and "build_figure fo df = Inr fig"
  shows "fig_updatemenus fig =
       [\<lparr>menu_type = ''dropdown'', menu_direction = ''down'',
         menu_buttons = all_button df # map (category_button (columns df)) fo\<rparr>] \<and>
     fig_buttons fig = all_button df # map (category_button (columns df)) fo \<and>
     length (fig_buttons fig) = length fo + 1"
  by (simp add: build_figure_Inr_dict [OF assms]) (simp add: update_layout_def)

theorem buttons_are_the_comprehension_witness:
  "distinct (dict_keys ex_options) \<and> build_figure ex_options ex_table = Inr ex_figure \<and>
   map button_vector (fig_buttons ex_figure) =
     [[Legendonly, Legendonly, Legendonly, Legendonly],
      [VTrue, Legendonly, Legendonly, VFalse],
      [VFalse, VFalse, VFalse, VTrue]]"
proof -
  have "map button_vector (fig_buttons ex_figure) =
     [[Legendonly, Legendonly, Legendonly, Legendonly],
      [VTrue, Legendonly, Legendonly, VFalse],
      [VFalse, VFalse, VFalse, VTrue]]"
    using buttons_are_the_comprehension [OF ex_options_distinct build_ex_figure]
    by (simp add: ex_options_def ex_table_def visibility_entry_def)
  with ex_options_distinct build_ex_figure show ?thesis by simp
qed

text \<open>C9: In the vector of the category Countries, a column of the category is
  \<^verbatim>\<open>'legendonly'\<close>, except the column \<^verbatim>\<open>Country_Avg_line\<close>, which is \<^verbatim>\<open>True\<close>; a
  column outside the category is \<^verbatim>\<open>False\<close>.\<close>

theorem countries_vector:
  assumes "distinct (dict_keys fo)" and "build_figure fo df = Inr fig"
    and "(''Countries'', options) \<in> set fo"
  shows "\<exists>b \<in> set (fig_buttons fig). button_label b = ''Countries'' \<and>
     button_vector b =
       map (\<lambda>col. if col \<notin> set options then VFalse
                   else if col = ''Country_Avg_line'' then VTrue else Legendonly) (columns df)"
proof -
  let ?b = "category_button (columns df) (''Countries'', options)"
  from assms(3) have "?b \<in> set (fig_buttons fig)"
    by (auto simp: build_figure_Inr_dict [OF assms(1,2)])
  moreover have "button_label ?b = ''Countries''"
    by simp
  moreover have "button_vector ?b =
      map (\<lambda>col. if col \<notin> set options then VFalse
                   else if col = ''Country_Avg_line'' then VTrue else Legendonly) (columns df)"
    by (simp add: visibility_entry_def)
  ultimately show ?thesis by blast
qed

theorem countries_vector_witness:
  "distinct (dict_keys ex_options) \<and> build_figure ex_options ex_table = Inr ex_figure \<and>
   (''Countries'', [''Country_Avg_line'', ''A'', ''B'']) \<in> set ex_options \<and>
   (\<exists>b \<in> set (fig_buttons ex_figure). button_label b = ''Countries'' \<and>
      button_vector b = [VTrue, Legendonly, Legendonly, VFalse])"
proof -
  have m: "(''Countries'', [''Country_Avg_line'', ''A'', ''B'']) \<in> set ex_options"
    by (simp add: ex_options_def)
  from countries_vector [OF ex_options_distinct build_ex_figure m]
  have "\<exists>b \<in> set (fig_buttons ex_figure). button_label b = ''Countries'' \<and>
      button_vector b = [VTrue, Legendonly, Legendonly, VFalse]"
    by (simp add: ex_table_def)
  with ex_options_distinct build_ex_figure m show ?thesis by simp
qed

text \<open>The loops of \<^verbatim>\<open>create_chart\<close> never raise, whatever the dictionary and the table: the
  key of every lookup comes from the dictionary and the index of every list access from the
  list.  The figure is built for every table with distinct column labels.\<close>

lemma build_figure_never_raises: "distinct (columns df) \<Longrightarrow> \<not> raises (build_figure fo df)"
  using build_figure_returns [of df fo] by (auto simp: not_raises_iff)

text \<open>C13: The first button is All; its vector has one entry for each column of the
  table and every entry is \<^verbatim>\<open>'legendonly'\<close>.\<close>

theorem all_button_is_first:
  "build_figure fo df = Inr fig \<Longrightarrow>
     button_label (hd (fig_buttons fig)) = ''All'' \<and>
     button_vector (hd (fig_buttons fig)) = replicate (length (columns df)) Legendonly"
  using build_figure_Inr_ex [of fo df fig] by auto

theorem all_button_is_first_witness:
  "build_figure ex_options ex_table = Inr ex_figure \<and>
   button_label (hd (fig_buttons ex_figure)) = ''All'' \<and>
   button_vector (hd (fig_buttons ex_figure)) = [Legendonly, Legendonly, Legendonly, Legendonly]"
proof -
  from all_button_is_first [OF build_ex_figure]
  have "button_label (hd (fig_buttons ex_figure)) = ''All'' \<and>
    button_vector (hd (fig_buttons ex_figure)) = [Legendonly, Legendonly, Legendonly, Legendonly]"
    by (simp add: ex_table_def)
  with build_ex_figure show ?thesis by simp
qed

text \<open>C27: The vector of every button has exactly one entry for each trace of the
  figure, and the traces are the columns of the table in their order, each
  \<^verbatim>\<open>'legendonly'\<close> at first: a button never addresses a trace that does not exist and
  never leaves a trace out.\<close>

theorem vectors_are_aligned_with_traces:
  assumes "build_figure fo df = Inr fig"
  shows "list_all (\<lambda>b. length (button_vector b) = length (fig_data fig)) (fig_buttons fig) \<and>
     map trace_name (fig_data fig) = columns df \<and>
     list_all (\<lambda>t. trace_visible t = Legendonly \<and> trace_x t = index df) (fig_data fig)"
proof -
  from build_figure_Inr_ex [OF assms] obtain kvs where
    "fig = update_layout (all_button df # map (category_button (columns df)) kvs)
       (update_traces_visible Legendonly (line_figure df))"
    by auto
  then show ?thesis
    by (auto simp: list_all_iff comp_def intro: nth_equalityI)
qed

theorem vectors_are_aligned_with_traces_witness:
  "build_figure ex_options ex_table = Inr ex_figure \<and>
   map (\<lambda>b. length (button_vector b)) (fig_buttons ex_figure) = [4, 4, 4] \<and>
   map trace_name (fig_data ex_figure) = [''Country_Avg_line'', ''A'', ''B'', ''R1'']"
proof -
  have "length (fig_data ex_figure) = 4"
    by (simp add: ex_figure_def ex_table_def)
  moreover have "length (fig_buttons ex_figure) = 3"
    by (simp add: ex_figure_def ex_options_def)
  ultimately have "map (\<lambda>b. length (button_vector b)) (fig_buttons ex_figure) = [4, 4, 4]"
    using vectors_are_aligned_with_traces [OF build_ex_figure]
    by (auto simp: list_all_iff length_Suc_conv numeral_3_eq_3)
  with vectors_are_aligned_with_traces [OF build_ex_figure] build_ex_figure
  show ?thesis by (simp add: ex_table_def)
qed

text \<open>C33: Choosing the button of a category shows exactly the columns of that
  category: afterwards the trace of a column has the visibility entry of the column for
  the category, so a column outside the category is hidden, and the names and the data of
  the traces are unchanged.\<close>

theorem select_button_shows_the_category:
  assumes "distinct (dict_keys fo)" and "build_figure fo df = Inr fig" and "(k, options) \<in> set fo"
  shows "category_button (columns df) (k, options) \<in> set (fig_buttons fig) \<and>
     map trace_visible (fig_data (select_button (category_button (columns df) (k, options)) fig)) =
       map (visibility_entry k options) (columns df) \<and>
     map trace_name (fig_data (select_button (category_button (columns df) (k, options)) fig)) =
       columns df"
proof -
  have fig: "fig = update_layout (all_button df # map (category_button (columns df)) fo)
      (update_traces_visible Legendonly (line_figure df))"
    by (rule build_figure_Inr_dict [OF assms(1,2)])
  have "map trace_visible (fig_data (restyle_visible (map f (columns df)) fig)) = map f (columns df)"
    "map trace_name (fig_data (restyle_visible (map f (columns df)) fig)) = columns df"
    for f :: "label \<Rightarrow> visible"
    by (auto simp: restyle_visible_def fig intro!: nth_equalityI)
  with assms(3) show ?thesis
    by (simp add: select_button_def fig flip: button_vector_def)
qed

theorem select_button_shows_the_category_witness:
  "distinct (dict_keys ex_options) \<and> build_figure ex_options ex_table = Inr ex_figure \<and>
   (''Regions'', [''R1'']) \<in> set ex_options \<and>
   map trace_visible
     (fig_data (select_button (category_button (columns ex_table) (''Regions'', [''R1''])) ex_figure)) =
     [VFalse, VFalse, VFalse, VTrue]"
proof -
  have m: "(''Regions'', [''R1'']) \<in> set ex_options"
    by (simp add: ex_options_def)
  have "map (visibility_entry ''Regions'' [''R1'']) (columns ex_table) =
      [VFalse, VFalse, VFalse, VTrue]"
    by (simp add: ex_table_def visibility_entry_def)
  with select_button_shows_the_category [OF ex_options_distinct build_ex_figure m]
    ex_options_distinct build_ex_figure m
  show ?thesis by simp
qed

text \<open>C34: Whatever buttons are chosen, in whatever order, the figure keeps its lines: the
  traces of every reachable view have the names and the data of the traces built from the
  table, the buttons stay the same, and every button still addresses every line.\<close>

theorem reachable_views_keep_the_lines:
  assumes "build_figure fo df = Inr fig0" and "reachable_view fig0 fig"
  shows "same_lines fig fig0 \<and> fig_buttons fig = fig_buttons fig0 \<and> aligned fig \<and>
     map trace_name (fig_data fig) = columns df"
proof -
  from build_figure_Inr_ex [OF assms(1)] obtain kvs where
    "fig0 = update_layout (all_button df # map (category_button (columns df)) kvs)
       (update_traces_visible Legendonly (line_figure df))"
    by auto
  then have "map trace_name (fig_data fig0) = columns df"
    by (auto simp: comp_def intro: nth_equalityI)
  moreover note inv = reachable_view_invariant [OF assms(2) aligned_build_figure [OF assms(1)]]
  then have "map trace_name (fig_data fig) = map trace_name (fig_data fig0)"
    unfolding same_lines_def by (metis (mono_tags, lifting) list.map_comp fst_conv comp_def map_eq_conv)
  ultimately show ?thesis
    using inv by simp
qed

theorem reachable_views_keep_the_lines_witness:
  "reachable_view ex_figure (clicks (rev (fig_buttons ex_figure)) ex_figure) \<and>
   map trace_name (fig_data (clicks (rev (fig_buttons ex_figure)) ex_figure)) =
     [''Country_Avg_line'', ''A'', ''B'', ''R1'']"
proof -
  have r: "reachable_view ex_figure (clicks (rev (fig_buttons ex_figure)) ex_figure)"
    by (intro reachable_clicks reachable_view.initial) simp
  from reachable_views_keep_the_lines [OF build_ex_figure r] r show ?thesis
    by (simp add: ex_table_def)
qed

text \<open>The dropdown has no memory: every view that can be reached by choosing buttons is
  the figure as built or the view of one button applied to it, so what is shown depends on
  the last choice only.\<close>

lemma view_is_the_last_choice:
  assumes "build_figure fo df = Inr fig0" and "reachable_view fig0 fig"
  shows "fig = fig0 \<or> (\<exists>b \<in> set (fig_buttons fig0). fig = select_button b fig0)"
  using assms(2) aligned_build_figure [OF assms(1)]
proof (induction rule: reachable_view.induct)
  case initial
  then show ?case by simp
next
  case (choose fig fig')
  from choose.hyps(2) obtain b where b: "b \<in> set (fig_buttons fig)" "fig' = select_button b fig"
    by (rule view_stepE)
  from reachable_view_buttons [OF choose.hyps(1)]
  have same: "fig_buttons fig = fig_buttons fig0" .
  from choose.prems b(1) have len: "length (button_vector b) = length (fig_data fig0)"
    by (simp add: aligned_def list_all_iff same)
  from choose.IH [OF choose.prems] show ?case
  proof
    assume "fig = fig0"
    with b same show ?thesis by auto
  next
    assume "\<exists>c \<in> set (fig_buttons fig0). fig = select_button c fig0"
    then obtain c where c: "c \<in> set (fig_buttons fig0)" "fig = select_button c fig0" by blast
    from choose.prems c(1) have "length (button_vector c) = length (fig_data fig0)"
      by (simp add: aligned_def list_all_iff)
    from select_select [OF this len] b same show ?thesis
      by (auto simp: c(2))
  qed
qed

text \<open>\<^verbatim>\<open>create_chart\<close> returns for every dictionary and every table with distinct column
  labels.  It shows the figure it has built, after the figures shown before, and then writes
  it to \<^verbatim>\<open>visual.html\<close>, replacing what the file held; no other file is touched and nothing
  is printed.\<close>

lemma create_chart_writes_the_figure:
  assumes "distinct (columns df)"
  shows "\<exists>fig w'. build_figure fo df = Inr fig \<and> create_chart fo df w = (Inr (), w') \<and>
     shown w' = shown w @ [fig] \<and> files w' ''visual.html'' = Some fig \<and>
     (\<forall>path. path \<noteq> ''visual.html'' \<longrightarrow> files w' path = files w path) \<and>
     stdout w' = stdout w"
  using build_figure_returns [OF assms, of fo] by (auto simp: create_chart_run)


end
