(* ===== verification/Chart_Table.thy ===== *)
theory Chart_Table
  imports Frame_Access Chart
begin

text \<open>
  The table step of the driver \<^verbatim>\<open>main\<close> of \<^verbatim>\<open>src/part1_script.py\<close> (lines 149 to 163),
  between the reshaping and the chart: \<open>prepare_chart_table\<close> finds the position of the
  column \<^verbatim>\<open>World\<close>, sorts the labels before it, adds the column \<^verbatim>\<open>Country_Avg_line\<close> with
  the mean of these columns in every row, reorders the columns by category and builds the
  dictionary of filter options.  \<open>income_grps\<close> and \<open>region_grps\<close> are the group labels of
  lines 156 and 157.  Every step that can raise in Python returns an error here.

  \<open>country_columns\<close>, \<open>country_avg\<close> and \<open>chart_columns\<close> say what the step is meant to
  compute, and \<open>chart_ready\<close> describes the tables it is meant for.  The lemmas show that on
  such a table the step computes exactly that, which errors it raises otherwise, and what
  figure \<open>build_figure\<close> makes of its result.
\<close>

section \<open>Definitions\<close>

definition income_grps :: "label list" where
  "income_grps = [''Low income'', ''Lower middle income'', ''Upper middle income'', ''High income'']"

definition region_grps :: "label list" where
  "region_grps = [''East Asia & Pacific'', ''Europe & Central Asia'', ''Latin America & Caribbean'',
     ''Middle East & North Africa'', ''North America'', ''South Asia'', ''Sub-Saharan Africa'']"

definition prepare_chart_table :: "dataframe \<Rightarrow> (filter_options \<times> dataframe) result" where
  "prepare_chart_table sanit_df =
     result_bind (list_index ''World'' (columns sanit_df)) (\<lambda>world_index.
     let countries = sort (take world_index (columns sanit_df))
     in result_bind (getitem_cols countries sanit_df) (\<lambda>selected.
        result_bind (mean_axis1 selected) (\<lambda>avg.
        result_bind (setitem_col ''Country_Avg_line'' avg sanit_df) (\<lambda>sanit_df.
        let countries = ''Country_Avg_line'' # countries
        in result_bind (getitem_cols (countries @ region_grps @ income_grps) sanit_df) (\<lambda>sanit_df.
           Inr ([(''Countries'', countries), (''Income Groups'', income_grps),
                 (''Regions'', region_grps)], sanit_df))))))"

text \<open>What the driver is meant to compute, stated on the table it receives: the country
  columns are those before the column \<^verbatim>\<open>World\<close>, and the average line is the mean of the
  cells of these columns in every row.\<close>

definition country_columns :: "dataframe \<Rightarrow> label list" where
  "country_columns df = takeWhile (\<lambda>c. c \<noteq> ''World'') (columns df)"

definition country_avg :: "dataframe \<Rightarrow> cell list" where
  "country_avg df = map (\<lambda>r. mean_row (take (length (country_columns df)) r)) (cells df)"

definition chart_columns :: "dataframe \<Rightarrow> label list" where
  "chart_columns df = sort (country_columns df) @ region_grps @ income_grps"

text \<open>The tables on which the driver is meant to run: distinct column labels, the sentinel and
  the eleven group columns present, no column called \<^verbatim>\<open>Country_Avg_line\<close> yet, and numbers or
  missing values only.\<close>

definition chart_ready :: "dataframe \<Rightarrow> bool" where
  "chart_ready df \<longleftrightarrow>
     wf_frame df \<and> distinct (columns df) \<and> ''World'' \<in> set (columns df) \<and>
     set (region_grps @ income_grps) \<subseteq> set (columns df) \<and>
     ''Country_Avg_line'' \<notin> set (columns df) \<and> \<not> list_ex (list_ex is_str) (cells df)"

section \<open>Examples\<close>

definition ex_years :: dataframe where
  "ex_years = \<lparr>index = [''2000'', ''2001'', ''2002''], index_name = Some ''Year'',
     columns = [''Chad'', ''Aruba'', ''World''] @ region_grps @ income_grps, columns_name = None,
     cells = [[Num 10, Num 20, Num 50] @ replicate 11 (Num 60),
              [NaN, Num (123 / 10), Num 51] @ replicate 11 NaN,
              [Num (124 / 10), Num (123 / 10), Num 52] @ replicate 11 NaN]\<rparr>"

section \<open>Lemmas\<close>

lemma country_columns_subset: "set (country_columns df) \<subseteq> set (columns df)"
  by (auto simp: country_columns_def dest: set_takeWhileD)

lemma length_country_columns: "length (country_columns df) \<le> length (columns df)"
  by (simp add: country_columns_def length_takeWhile_le)

lemma take_country_columns:
  "take (length (country_columns df)) (columns df) = country_columns df"
  unfolding country_columns_def by (rule takeWhile_eq_take [symmetric])

text \<open>The mean of the selected country columns is the mean of the cells before \<^verbatim>\<open>World\<close>:
  sorting the labels permutes the cells of a row, and the mean does not depend on their order.\<close>

lemma mean_of_selected_countries:
  assumes "wf_frame df" and "distinct (columns df)"
    and "getitem_cols (sort (country_columns df)) df = Inr sel"
  shows "map mean_row (cells sel) = country_avg df"
proof -
  let ?w = "length (country_columns df)"
  let ?pos = "concat (map (\<lambda>l. positions_of l (columns df)) (sort (country_columns df)))"
  have "mset (sort (country_columns df)) = mset (take ?w (columns df))"
    by (simp add: take_country_columns)
  from positions_perm [OF assms(2) this length_country_columns]
  have pos: "mset ?pos = mset [0..<?w]" .
  have "mean_row (map ((!) r) ?pos) = mean_row (take ?w r)" if "r \<in> set (cells df)" for r
    using that assms(1) length_country_columns [of df]
    by (intro mean_row_selected [OF pos]) (simp add: wf_frame_def rect_row)
  then show ?thesis
    unfolding getitem_cols_Inr(2) [OF assms(3)] country_avg_def by simp
qed

lemma no_str_take_columns:
  assumes "wf_frame df" and "\<not> list_ex (list_ex is_str) (cells df)"
    and "list_all (\<lambda>j. j < length (columns df)) pos"
  shows "\<not> list_ex (list_ex is_str) (cells (take_columns pos df))"
proof -
  have "\<not> is_str (r ! j)" if "r \<in> set (cells df)" "j \<in> set pos" for r j
  proof -
    from that assms(1,3) have "j < length r"
      by (simp add: wf_frame_def rect_row list_all_iff)
    with that(1) assms(2) show ?thesis
      by (auto simp: list_ex_iff)
  qed
  then show ?thesis
    by (auto simp: list_ex_iff)
qed

lemma country_mean_ready:
  assumes "chart_ready df"
  shows "result_bind (getitem_cols (sort (country_columns df)) df) mean_axis1 = Inr (country_avg df)"
proof -
  let ?pos = "concat (map (\<lambda>l. positions_of l (columns df)) (sort (country_columns df)))"
  from assms have wf: "wf_frame df" and dist: "distinct (columns df)"
    and num: "\<not> list_ex (list_ex is_str) (cells df)"
    by (simp_all add: chart_ready_def)
  have sel: "getitem_cols (sort (country_columns df)) df = Inr (take_columns ?pos df)"
    using country_columns_subset [of df] by (intro getitem_cols_present) simp
  have "list_all (\<lambda>j. j < length (columns df)) ?pos"
    by (auto simp: list_all_iff dest: positions_of_less)
  from no_str_take_columns [OF wf num this] mean_of_selected_countries [OF wf dist sel]
  show ?thesis
    by (simp add: sel mean_axis1_def)
qed

lemma add_avg_ready:
  assumes "chart_ready df"
  shows "\<exists>df1. setitem_col ''Country_Avg_line'' (country_avg df) df = Inr df1 \<and> wf_frame df1 \<and>
     index df1 = index df \<and> index_name df1 = index_name df \<and> columns_name df1 = columns_name df \<and>
     columns df1 = columns df @ [''Country_Avg_line''] \<and>
     labelled_columns df1 = labelled_columns df @ [(''Country_Avg_line'', country_avg df)]"
proof -
  from assms have wf: "wf_frame df" and new: "''Country_Avg_line'' \<notin> set (columns df)"
    by (simp_all add: chart_ready_def)
  have len: "length (country_avg df) = length (index df)"
    using wf by (simp add: country_avg_def wf_frame_length)
  from setitem_col_new [OF new len] obtain df1
    where df1: "setitem_col ''Country_Avg_line'' (country_avg df) df = Inr df1" by blast
  with setitem_col_new [OF new len] wf_setitem_col [OF wf df1]
    labelled_columns_setitem_col_new [OF wf new len df1]
  show ?thesis by auto
qed

lemma group_labels:
  "''Country_Avg_line'' \<notin> set (region_grps @ income_grps)"
  "''World'' \<notin> set (region_grps @ income_grps)"
  "distinct (region_grps @ income_grps)"
  "length region_grps = 7" "length income_grps = 4"
  by (simp_all add: region_grps_def income_grps_def)

lemma chart_columns_subset: "chart_ready df \<Longrightarrow> set (chart_columns df) \<subseteq> set (columns df)"
  using country_columns_subset [of df] by (auto simp: chart_ready_def chart_columns_def)

text \<open>When the sentinel is there, the slice before its position is the list of country columns.\<close>

lemma prepare_chart_table_present:
  assumes "''World'' \<in> set (columns df)"
  shows "prepare_chart_table df =
     result_bind (getitem_cols (sort (country_columns df)) df) (\<lambda>selected.
     result_bind (mean_axis1 selected) (\<lambda>avg.
     result_bind (setitem_col ''Country_Avg_line'' avg df) (\<lambda>sanit_df.
     result_bind (getitem_cols (''Country_Avg_line'' # chart_columns df) sanit_df) (\<lambda>sanit_df.
       Inr ([(''Countries'', ''Country_Avg_line'' # sort (country_columns df)),
             (''Income Groups'', income_grps), (''Regions'', region_grps)], sanit_df)))))"
proof -
  have "take (length (takeWhile (\<lambda>c. c \<noteq> ''World'') (columns df))) (columns df) = country_columns df"
    using take_country_columns [of df] by (simp add: country_columns_def)
  then show ?thesis
    unfolding prepare_chart_table_def list_index_present [OF assms] result_bind_Inr Let_def
    by (simp add: chart_columns_def)
qed

lemma prepare_chart_table_steps:
  assumes "chart_ready df"
    and "setitem_col ''Country_Avg_line'' (country_avg df) df = Inr df1"
    and "getitem_cols (''Country_Avg_line'' # chart_columns df) df1 = Inr df'"
  shows "prepare_chart_table df =
      Inr ([(''Countries'', ''Country_Avg_line'' # sort (country_columns df)),
            (''Income Groups'', income_grps), (''Regions'', region_grps)], df')"
proof -
  from assms(1) have "''World'' \<in> set (columns df)"
    by (simp add: chart_ready_def)
  from prepare_chart_table_present [OF this] country_mean_ready [OF assms(1)] assms(2,3)
  show ?thesis
    by (auto simp: result_bind_def split: sum.splits)
qed

lemma prepare_chart_table_ready:
  assumes "chart_ready df"
  shows "\<exists>df'. prepare_chart_table df =
            Inr ([(''Countries'', ''Country_Avg_line'' # sort (country_columns df)),
                  (''Income Groups'', income_grps), (''Regions'', region_grps)], df') \<and>
          wf_frame df' \<and> index df' = index df \<and> index_name df' = index_name df \<and>
          columns_name df' = columns_name df \<and>
          labelled_columns df' = (''Country_Avg_line'', country_avg df) #
             map (\<lambda>l. (l, the (map_of (labelled_columns df) l))) (chart_columns df)"
proof -
  let ?labels = "''Country_Avg_line'' # chart_columns df"
  from assms have dist: "distinct (columns df)" and new: "''Country_Avg_line'' \<notin> set (columns df)"
    by (simp_all add: chart_ready_def)
  from add_avg_ready [OF assms] obtain df1
    where df1: "setitem_col ''Country_Avg_line'' (country_avg df) df = Inr df1"
      and wf1: "wf_frame df1" and cols1: "columns df1 = columns df @ [''Country_Avg_line'']"
      and names1: "index df1 = index df" "index_name df1 = index_name df"
        "columns_name df1 = columns_name df"
      and lc1: "labelled_columns df1 = labelled_columns df @ [(''Country_Avg_line'', country_avg df)]"
    by blast
  have "distinct (columns df1)" "set ?labels \<subseteq> set (columns df1)"
    using dist new chart_columns_subset [OF assms] by (auto simp: cols1)
  from getitem_cols_distinct [OF wf1 this] obtain df'
    where df': "getitem_cols ?labels df1 = Inr df'" and wf': "wf_frame df'"
      and names': "index df' = index df1" "index_name df' = index_name df1"
        "columns_name df' = columns_name df1"
      and lc': "labelled_columns df' = map (\<lambda>l. (l, the (map_of (labelled_columns df1) l))) ?labels"
    by blast
  have "map (\<lambda>l. (l, the (map_of (labelled_columns df1) l))) (chart_columns df) =
      map (\<lambda>l. (l, the (map_of (labelled_columns df) l))) (chart_columns df)"
    using chart_columns_subset [OF assms] by (auto simp: lookup_old_column [OF lc1])
  with lc' lookup_new_column [OF lc1 new]
  have "labelled_columns df' = (''Country_Avg_line'', country_avg df) #
      map (\<lambda>l. (l, the (map_of (labelled_columns df) l))) (chart_columns df)"
    by simp
  with prepare_chart_table_steps [OF assms df1 df'] wf' names' names1 show ?thesis
    by simp
qed

lemma world_not_chart_column: "''World'' \<notin> set (chart_columns df)"
  using group_labels(2) by (auto simp: chart_columns_def country_columns_def dest: set_takeWhileD)

lemma prepare_chart_table_errors:
  assumes "wf_frame df" and "prepare_chart_table df = Inl e"
  shows "e = ValueError ''is not in list'' \<or> e = TypeError \<or>
     (\<exists>ls. e = KeyError ls \<and> ls \<noteq> [] \<and> set ls \<subseteq> set (region_grps @ income_grps) - set (columns df))"
proof (cases "''World'' \<in> set (columns df)")
  case False
  with assms(2) show ?thesis
    by (simp add: prepare_chart_table_def list_index_absent)
next
  case True
  let ?cs = "sort (country_columns df)"
  let ?pos = "concat (map (\<lambda>l. positions_of l (columns df)) ?cs)"
  let ?sel = "take_columns ?pos df"
  have sel: "getitem_cols ?cs df = Inr ?sel"
    using country_columns_subset [of df] by (intro getitem_cols_present) simp
  show ?thesis
  proof (cases "mean_axis1 ?sel")
    case (Inl e')
    with assms(2) sel have "e = TypeError"
      unfolding prepare_chart_table_present [OF True]
      by (auto simp: mean_axis1_def split: if_splits)
    then show ?thesis by simp
  next
    case (Inr avg)
    with mean_axis1_Inr [OF this] assms(1) have "length avg = length (index df)"
      by (simp add: wf_frame_length)
    then have "\<not> raises (setitem_col ''Country_Avg_line'' avg df)"
      unfolding setitem_col_raises_iff by simp
    then obtain df1 where df1: "setitem_col ''Country_Avg_line'' avg df = Inr df1"
      unfolding not_raises_iff by blast
    let ?missing = "filter (\<lambda>l. l \<notin> set (columns df1)) (''Country_Avg_line'' # chart_columns df)"
    from assms(2) sel Inr df1 have "e = KeyError ?missing" "?missing \<noteq> []"
      unfolding prepare_chart_table_present [OF True]
      by (auto simp: getitem_cols_def Let_def split: if_splits)
    moreover have "set ?missing \<subseteq> set (region_grps @ income_grps) - set (columns df)"
      using country_columns_subset [of df] unfolding setitem_col_columns [OF df1]
      by (auto simp: chart_columns_def)
    ultimately show ?thesis by blast
  qed
qed

text \<open>The chart of a prepared table.\<close>

lemma script_options_distinct:
  "distinct (dict_keys [(''Countries'', cs), (''Income Groups'', igs), (''Regions'', rgs)])"
  by (simp add: dict_keys_def)

lemma chart_of_prepared_table:
  assumes "chart_ready df" and "prepare_chart_table df = Inr (fo, df')"
  shows "build_figure fo df' = Inr fig \<Longrightarrow>
     fig = update_layout (all_button df' # map (category_button (columns df')) fo)
            (update_traces_visible Legendonly (line_figure df'))"
    and "fo = [(''Countries'', ''Country_Avg_line'' # sort (country_columns df)),
               (''Income Groups'', income_grps), (''Regions'', region_grps)]"
    and "columns df' = ''Country_Avg_line'' # sort (country_columns df) @ region_grps @ income_grps"
proof -
  from prepare_chart_table_ready [OF assms(1)] assms(2)
  have fo: "fo = [(''Countries'', ''Country_Avg_line'' # sort (country_columns df)),
               (''Income Groups'', income_grps), (''Regions'', region_grps)]"
    and lc: "labelled_columns df' = (''Country_Avg_line'', country_avg df) #
        map (\<lambda>l. (l, the (map_of (labelled_columns df) l))) (chart_columns df)"
    by auto
  from fo show "fo = [(''Countries'', ''Country_Avg_line'' # sort (country_columns df)),
               (''Income Groups'', income_grps), (''Regions'', region_grps)]" .
  from lc have "map fst (labelled_columns df') = ''Country_Avg_line'' # chart_columns df"
    by (simp add: comp_def)
  then show "columns df' = ''Country_Avg_line'' # sort (country_columns df) @ region_grps @ income_grps"
    by (simp add: chart_columns_def)
  show "fig = update_layout (all_button df' # map (category_button (columns df')) fo)
            (update_traces_visible Legendonly (line_figure df'))"
    if "build_figure fo df' = Inr fig"
    using that unfolding fo by (rule build_figure_Inr_dict [OF script_options_distinct])
qed

text \<open>The dropdown of a prepared table, entry by entry, when no country is named like a
  group.\<close>

lemma prepared_dropdown:
  assumes "chart_ready df" and "set (country_columns df) \<inter> set (region_grps @ income_grps) = {}"
    and "prepare_chart_table df = Inr (fo, df')" and "build_figure fo df' = Inr fig"
  shows "map (\<lambda>b. (button_label b, button_vector b)) (fig_buttons fig) =
    (let n = length (country_columns df) in
     [(''All'', replicate (n + 12) Legendonly),
      (''Countries'', VTrue # replicate n Legendonly @ replicate 11 VFalse),
      (''Income Groups'', replicate (n + 8) VFalse @ replicate 4 VTrue),
      (''Regions'', replicate (n + 1) VFalse @ replicate 7 VTrue @ replicate 4 VFalse)])"
proof -
  let ?cs = "sort (country_columns df)"
  note step = chart_of_prepared_table [OF assms(1,3)]
  from assms(1) country_columns_subset [of df]
  have new: "''Country_Avg_line'' \<notin> set (?cs @ region_grps @ income_grps)"
    using group_labels(1) by (auto simp: chart_ready_def)
  have regions: "set (''Country_Avg_line'' # ?cs) \<inter> set region_grps = {}"
      "set region_grps \<inter> set income_grps = {}" "''Country_Avg_line'' \<notin> set region_grps"
    and incomes: "set (''Country_Avg_line'' # ?cs @ region_grps) \<inter> set income_grps = {}"
      "set income_grps \<inter> set [] = {}" "''Country_Avg_line'' \<notin> set income_grps"
    using new assms(2) group_labels(3) by auto
  have "map (visibility_entry ''Countries'' (''Country_Avg_line'' # ?cs)) (columns df') =
      VTrue # replicate (length ?cs) Legendonly @ replicate (length (region_grps @ income_grps)) VFalse"
    unfolding step(3) using new assms(2) by (intro vector_countries) simp_all
  then have countries: "map (visibility_entry ''Countries'' (''Country_Avg_line'' # ?cs)) (columns df') =
      VTrue # replicate (length (country_columns df)) Legendonly @ replicate 11 VFalse"
    by (simp add: group_labels)
  from vector_group [OF incomes(1,2) _ incomes(3), of "''Income Groups''"]
  have income: "map (visibility_entry ''Income Groups'' income_grps) (columns df') =
      replicate (length (country_columns df) + 8) VFalse @ replicate 4 VTrue"
    by (simp add: step(3) group_labels replicate_add [symmetric] del: replicate_Suc)
  from vector_group [OF regions(1,2) _ regions(3), of "''Regions''"]
  have region: "map (visibility_entry ''Regions'' region_grps) (columns df') =
      replicate (length (country_columns df) + 1) VFalse @ replicate 7 VTrue @ replicate 4 VFalse"
    by (simp add: step(3) group_labels)
  have len: "length (columns df') = length (country_columns df) + 12"
    by (simp add: step(3) group_labels)
  have "fig_buttons fig = all_button df' # map (category_button (columns df')) fo"
    unfolding step(1) [OF assms(4)] by simp
  then show ?thesis
    unfolding step(2) by (simp add: countries income region len Let_def)
qed

text \<open>The labels of the chart table are distinct, and the figure is built, when no country
  column bears the label of a group.\<close>

lemma prepared_distinct:
  assumes "chart_ready df" and "set (country_columns df) \<inter> set (region_grps @ income_grps) = {}"
    and "prepare_chart_table df = Inr (fo, df')"
  shows "distinct (columns df')"
proof -
  from assms(1) have "distinct (country_columns df)" "''Country_Avg_line'' \<notin> set (country_columns df)"
    using country_columns_subset [of df]
    by (auto simp: chart_ready_def country_columns_def intro: distinct_takeWhile)
  with assms(2) group_labels(1,3) show ?thesis
    unfolding chart_of_prepared_table(3) [OF assms(1,3)] by auto
qed

lemma prepared_figure:
  assumes "chart_ready df" and "set (country_columns df) \<inter> set (region_grps @ income_grps) = {}"
    and "prepare_chart_table df = Inr (fo, df')"
  obtains fig where "build_figure fo df' = Inr fig"
  using build_figure_returns [OF prepared_distinct [OF assms], of fo] by blast

lemma chart_ready_ex_years: "chart_ready ex_years"
  by code_simp

text \<open>The figure of the chart table: one line per column, named and valued as the column.\<close>

lemma figure_of_prepared_table:
  assumes "chart_ready r" and "prepare_chart_table r = Inr (fo, df')"
    and "build_figure fo df' = Inr fig"
  shows "map trace_name (fig_data fig) = ''Country_Avg_line'' # chart_columns r"
    and "map trace_y (fig_data fig) = country_avg r #
        map (\<lambda>l. the (map_of (labelled_columns r) l)) (chart_columns r)"
    and "list_all (\<lambda>t. trace_x t = index r \<and> trace_visible t = Legendonly) (fig_data fig)"
    and "map button_label (fig_buttons fig) = [''All'', ''Countries'', ''Income Groups'', ''Regions'']"
proof -
  from prepare_chart_table_ready [OF assms(1)] assms(2)
  have ix: "index df' = index r"
    and lc: "labelled_columns df' = (''Country_Avg_line'', country_avg r) #
             map (\<lambda>l. (l, the (map_of (labelled_columns r) l))) (chart_columns r)"
    by auto
  note step = chart_of_prepared_table [OF assms(1,2)]
  note eq = step(1) [OF assms(3)]
  have traces: "map (\<lambda>t. (trace_name t, trace_y t)) (fig_data fig) = labelled_columns df'"
    by (intro nth_equalityI) (simp_all add: eq labelled_columns_nth)
  have "map trace_name (fig_data fig) = map fst (labelled_columns df')"
    "map trace_y (fig_data fig) = map snd (labelled_columns df')"
    unfolding traces [symmetric] by (simp_all add: comp_def)
  then show "map trace_name (fig_data fig) = ''Country_Avg_line'' # chart_columns r"
    "map trace_y (fig_data fig) = country_avg r #
        map (\<lambda>l. the (map_of (labelled_columns r) l)) (chart_columns r)"
    unfolding lc by (simp_all add: comp_def)
  show "list_all (\<lambda>t. trace_x t = index r \<and> trace_visible t = Legendonly) (fig_data fig)"
    by (simp add: eq ix list_all_iff)
  show "map button_label (fig_buttons fig) = [''All'', ''Countries'', ''Income Groups'', ''Regions'']"
    by (simp add: eq step(2))
qed

lemma figure_lines:
  assumes "chart_ready r" and "prepare_chart_table r = Inr (fo, df')"
    and "build_figure fo df' = Inr fig"
  shows "map (\<lambda>t. (trace_name t, trace_x t, trace_y t)) (fig_data fig) =
     (''Country_Avg_line'', index r, country_avg r) #
     map (\<lambda>l. (l, index r, the (map_of (labelled_columns r) l))) (chart_columns r)"
proof -
  from prepare_chart_table_ready [OF assms(1)] assms(2)
  have ix: "index df' = index r"
    and lc: "labelled_columns df' = (''Country_Avg_line'', country_avg r) #
             map (\<lambda>l. (l, the (map_of (labelled_columns r) l))) (chart_columns r)"
    by auto
  note eq = chart_of_prepared_table(1) [OF assms]
  have "map (\<lambda>t. (trace_name t, trace_x t, trace_y t)) (fig_data fig) =
      map (\<lambda>lv. (fst lv, index r, snd lv)) (labelled_columns df')"
    by (intro nth_equalityI) (simp_all add: eq ix labelled_columns_nth)
  then show ?thesis
    by (simp add: lc comp_def)
qed

text \<open>The average line, read off the columns of the table: in every row the mean over the
  columns before \<^verbatim>\<open>World\<close>.\<close>

lemma country_avg_eq:
  assumes "wf_frame df"
  shows "country_avg df =
     map (\<lambda>k. mean_row (map (\<lambda>lv. snd lv ! k) (takeWhile (\<lambda>lv. fst lv \<noteq> ''World'') (labelled_columns df))))
       [0..<length (index df)]"
proof -
  have "map (\<lambda>lv. snd lv ! k) (takeWhile (\<lambda>lv. fst lv \<noteq> ''World'') (labelled_columns df)) =
      take (length (country_columns df)) (cells df ! k)" if "k < length (index df)" for k
    unfolding takeWhile_fst [of "\<lambda>c. c \<noteq> ''World''"]
    by (simp add: country_columns_def take_map [symmetric] row_of_columns [OF assms that])
  then show ?thesis
    using wf_frame_length [OF assms]
    by (intro nth_equalityI) (simp_all add: country_avg_def)
qed

lemma groups_apart_ex_years:
  "set (country_columns ex_years) \<inter> set (region_grps @ income_grps) = {}"
  by code_simp

text \<open>The step stops with Python's \<^verbatim>\<open>ValueError\<close> of \<^verbatim>\<open>list.index\<close> exactly when the
  table has no column \<^verbatim>\<open>World\<close>; no other step raises this error.\<close>

lemma prepare_chart_table_needs_world:
  "(prepare_chart_table df = Inl (ValueError ''is not in list'')) = (''World'' \<notin> set (columns df))"
proof (cases "''World'' \<in> set (columns df)")
  case True
  then show ?thesis
    unfolding prepare_chart_table_def list_index_present [OF True] Let_def
    by (auto simp: result_bind_def getitem_cols_def setitem_col_def mean_axis1_def Let_def
        split: sum.splits if_splits)
next
  case False
  then show ?thesis
    by (simp add: prepare_chart_table_def list_index_absent)
qed

text \<open>When the sentinel is there but a region or an income group has no column, the step
  stops at the reordering of the columns with a \<^verbatim>\<open>KeyError\<close> that lists exactly the missing
  group labels, in the order regions, income groups.\<close>

lemma prepare_chart_table_missing_groups:
  assumes "wf_frame df" and "''World'' \<in> set (columns df)"
    and "\<not> list_ex (list_ex is_str) (cells df)"
    and "\<not> set (region_grps @ income_grps) \<subseteq> set (columns df)"
  shows "prepare_chart_table df =
     Inl (KeyError (filter (\<lambda>l. l \<notin> set (columns df)) (region_grps @ income_grps)))"
proof -
  let ?cs = "sort (country_columns df)"
  let ?pos = "concat (map (\<lambda>l. positions_of l (columns df)) ?cs)"
  let ?avg = "map mean_row (cells (take_columns ?pos df))"
  have sel: "getitem_cols ?cs df = Inr (take_columns ?pos df)"
    using country_columns_subset [of df] by (intro getitem_cols_present) simp
  have "list_all (\<lambda>j. j < length (columns df)) ?pos"
    by (auto simp: list_all_iff dest: positions_of_less)
  from no_str_take_columns [OF assms(1,3) this]
  have mean: "mean_axis1 (take_columns ?pos df) = Inr ?avg"
    by (simp add: mean_axis1_def)
  have "length ?avg = length (index df)"
    using assms(1) by (simp add: wf_frame_length)
  then have "\<not> raises (setitem_col ''Country_Avg_line'' ?avg df)"
    unfolding setitem_col_raises_iff by simp
  then obtain df1 where df1: "setitem_col ''Country_Avg_line'' ?avg df = Inr df1"
    unfolding not_raises_iff by blast
  have "filter (\<lambda>l. l \<notin> set (columns df1)) ?cs = []"
    using country_columns_subset [of df]
    unfolding setitem_col_columns [OF df1] by (auto simp: filter_empty_conv)
  moreover have "filter (\<lambda>l. l \<notin> set (columns df1)) (region_grps @ income_grps) =
      filter (\<lambda>l. l \<notin> set (columns df)) (region_grps @ income_grps)"
    using group_labels(1) unfolding setitem_col_columns [OF df1]
    by (intro filter_cong) auto
  ultimately have "filter (\<lambda>l. l \<notin> set (columns df1)) (''Country_Avg_line'' # ?cs @ region_grps @ income_grps) =
      filter (\<lambda>l. l \<notin> set (columns df)) (region_grps @ income_grps)"
    unfolding setitem_col_columns [OF df1] by simp
  moreover from assms(4) have "filter (\<lambda>l. l \<notin> set (columns df)) (region_grps @ income_grps) \<noteq> []"
    unfolding filter_empty_conv by blast
  ultimately have "getitem_cols (''Country_Avg_line'' # ?cs @ region_grps @ income_grps) df1 =
      Inl (KeyError (filter (\<lambda>l. l \<notin> set (columns df)) (region_grps @ income_grps)))"
    unfolding getitem_cols_def Let_def by (simp del: filter.simps filter_append)
  with sel mean df1 show ?thesis
    unfolding prepare_chart_table_present [OF assms(2)] chart_columns_def by simp
qed

text \<open>A country column that bears the label of a group is selected twice, and the chart
  table has a repeated label.\<close>

lemma prepared_repeated:
  assumes "chart_ready df" and "set (country_columns df) \<inter> set (region_grps @ income_grps) \<noteq> {}"
    and "prepare_chart_table df = Inr (fo, df')"
  shows "build_figure fo df' = Inl Unsupported"
proof -
  from assms(2) have "\<not> distinct (columns df')"
    unfolding chart_of_prepared_table(3) [OF assms(1,3)] by auto
  then show ?thesis by (rule build_figure_repeated)
qed

text \<open>The ways the table step and the chart builder can go on a table of numbers with
  distinct column labels.\<close>

lemma chart_steps_cases:
  assumes "wf_frame r" and "\<not> list_ex (list_ex is_str) (cells r)" and "distinct (columns r)"
    and "''Country_Avg_line'' \<notin> set (columns r)"
  obtains (no_world) "''World'' \<notin> set (columns r)"
      "prepare_chart_table r = Inl (ValueError ''is not in list'')"
  | (no_groups) "''World'' \<in> set (columns r)" "\<not> set (region_grps @ income_grps) \<subseteq> set (columns r)"
      "prepare_chart_table r =
         Inl (KeyError (filter (\<lambda>l. l \<notin> set (columns r)) (region_grps @ income_grps)))"
  | (repeated) fo df' where "chart_ready r"
      "set (country_columns r) \<inter> set (region_grps @ income_grps) \<noteq> {}"
      "prepare_chart_table r = Inr (fo, df')" "build_figure fo df' = Inl Unsupported"
  | (chart) fo df' fig where "chart_ready r"
      "set (country_columns r) \<inter> set (region_grps @ income_grps) = {}"
      "prepare_chart_table r = Inr (fo, df')" "build_figure fo df' = Inr fig"
proof -
  consider "''World'' \<notin> set (columns r)"
    | "''World'' \<in> set (columns r)" "\<not> set (region_grps @ income_grps) \<subseteq> set (columns r)"
    | "chart_ready r"
    using assms by (auto simp: chart_ready_def)
  then show thesis
  proof cases
    case 1
    with no_world show ?thesis
      by (simp add: prepare_chart_table_needs_world)
  next
    case 2
    from no_groups [OF 2 prepare_chart_table_missing_groups [OF assms(1) 2(1) assms(2) 2(2)]]
    show ?thesis .
  next
    case 3
    from prepare_chart_table_ready [OF 3] obtain fo df'
      where run: "prepare_chart_table r = Inr (fo, df')" by blast
    show ?thesis
    proof (cases "set (country_columns r) \<inter> set (region_grps @ income_grps) = {}")
      case True
      from prepared_figure [OF 3 True run] chart [OF 3 True run] show ?thesis
        by blast
    next
      case False
      from repeated [OF 3 False run prepared_repeated [OF 3 False run]] show ?thesis .
    qed
  qed
qed

section \<open>Properties\<close>

text \<open>C7: On a table that is ready for charting the driver's table step returns, and the table
  it hands to the chart builder is, column by column, the average line (in every row the mean of
  the cells before the column \<^verbatim>\<open>World\<close>, missing values skipped) followed by the country
  columns in alphabetical order, the seven regions and the four income groups, each with the
  values it had.\<close>

theorem prepare_chart_table_refines:
  assumes "chart_ready df"
  shows "\<exists>fo df'. prepare_chart_table df = Inr (fo, df') \<and>
     labelled_columns df' = (''Country_Avg_line'', country_avg df) #
        map (\<lambda>l. (l, the (map_of (labelled_columns df) l))) (chart_columns df)"
  using prepare_chart_table_ready [OF assms] by blast

theorem prepare_chart_table_refines_witness:
  "\<exists>fo df'. prepare_chart_table ex_years = Inr (fo, df') \<and>
     take 3 (labelled_columns df') =
       [(''Country_Avg_line'', [Num 15, Num (123 / 10), Num (1235 / 100)]),
        (''Aruba'', [Num 20, Num (123 / 10), Num (123 / 10)]),
        (''Chad'', [Num 10, NaN, Num (124 / 10)])]"
proof -
  have "(''Country_Avg_line'', country_avg ex_years) #
      map (\<lambda>l. (l, the (map_of (labelled_columns ex_years) l))) (take 2 (chart_columns ex_years)) =
      [(''Country_Avg_line'', [Num 15, Num (123 / 10), Num (1235 / 100)]),
       (''Aruba'', [Num 20, Num (123 / 10), Num (123 / 10)]),
       (''Chad'', [Num 10, NaN, Num (124 / 10)])]"
    by code_simp
  with prepare_chart_table_refines [OF chart_ready_ex_years] show ?thesis
    by (auto simp: take_map)
qed

text \<open>C11: The filter options the driver builds are the three categories in the order Countries,
  Income Groups, Regions; the columns of the chart table are the members of Countries, Regions
  and Income Groups in that order, so every line of the chart belongs to a category, and the
  sentinel column \<^verbatim>\<open>World\<close> is not drawn.\<close>

theorem prepare_chart_table_categories:
  assumes "chart_ready df" and "prepare_chart_table df = Inr (fo, df')"
  shows "fo = [(''Countries'', ''Country_Avg_line'' # sort (country_columns df)),
               (''Income Groups'', income_grps), (''Regions'', region_grps)] \<and>
    columns df' = ''Country_Avg_line'' # sort (country_columns df) @ region_grps @ income_grps \<and>
    ''World'' \<notin> set (columns df')"
proof -
  from prepare_chart_table_ready [OF assms(1)] assms(2)
  have fo: "fo = [(''Countries'', ''Country_Avg_line'' # sort (country_columns df)),
               (''Income Groups'', income_grps), (''Regions'', region_grps)]"
    and "labelled_columns df' = (''Country_Avg_line'', country_avg df) #
        map (\<lambda>l. (l, the (map_of (labelled_columns df) l))) (chart_columns df)"
    by auto
  then have "map fst (labelled_columns df') = ''Country_Avg_line'' # chart_columns df"
    by (simp add: comp_def)
  then have "columns df' = ''Country_Avg_line'' # chart_columns df"
    by simp
  with fo world_not_chart_column [of df] show ?thesis
    by (simp add: chart_columns_def)
qed

theorem prepare_chart_table_categories_witness:
  "\<exists>fo df'. prepare_chart_table ex_years = Inr (fo, df') \<and>
     map fst fo = [''Countries'', ''Income Groups'', ''Regions''] \<and>
     columns df' = [''Country_Avg_line'', ''Aruba'', ''Chad''] @ region_grps @ income_grps"
proof -
  from prepare_chart_table_ready [OF chart_ready_ex_years] obtain fo df'
    where run: "prepare_chart_table ex_years = Inr (fo, df')" by blast
  have "sort (country_columns ex_years) = [''Aruba'', ''Chad'']"
    by code_simp
  with prepare_chart_table_categories [OF chart_ready_ex_years run] run show ?thesis
    by simp
qed

end
