(* ===== verification/Data_Flow.thy ===== *)
theory Data_Flow
  imports Preprocess Chart_Table
begin

text \<open>
  The way of the data through \<^verbatim>\<open>main\<close> of \<^verbatim>\<open>src/part1_script.py\<close>, from the table that
  the service answers with to the table that is charted, without the effects.  \<open>fetched_ok\<close>
  describes the answer the script is written for: a rectangular table whose first column,
  \<^verbatim>\<open>Country\<close>, holds the names of the economies as text, and whose other columns hold
  numbers or missing values.  \<open>reporting\<close> lists the economies of such a table that have a
  value in some year, and \<open>reported\<close> the same for the indexed table.  \<open>economies\<close>,
  \<open>year_mask\<close>, \<open>years\<close>, \<open>chart_lines\<close> and \<open>average_line\<close> say, in terms of the fetched
  table alone, what the chart is meant to show: for each reporting economy its values in the
  years in which some economy reports, rounded to one decimal, and the average over the
  economies listed before \<^verbatim>\<open>World\<close>.  \<open>chartable\<close> describes the answers for which the
  script is written, and \<open>chart_table\<close>, \<open>chart_frame\<close>, \<open>chart_options\<close> and \<open>chart_figure\<close>
  are what the script is meant to make of such an answer.

  The lemmas follow such a table through \<open>set_index\<close>, \<open>preprocess_tables\<close>,
  \<open>prepare_chart_table\<close> and \<open>build_figure\<close>: no step raises when the reporting economies
  have distinct names and include the sentinel and the groups, the reshaped table holds
  \<open>chart_lines\<close> over \<open>years\<close>, the table step returns \<open>chart_options\<close> and \<open>chart_frame\<close>, and
  the chart builder \<open>chart_figure\<close>.  Two answers with the same years, the same set of lines
  and the same names before \<^verbatim>\<open>World\<close> have the same figure, and the values of the figure
  lie within the bounds of the values of the answer.
\<close>

section \<open>Definitions\<close>

text \<open>The economies of the indexed table that report a value in some year: the rows that
  the reshaping keeps, which become the columns of the reshaped table.\<close>

definition reported :: "dataframe \<Rightarrow> label list" where
  "reported t = map fst (filter (\<lambda>lv. \<not> all_null lv) (labelled_rows t))"

text \<open>What the service is expected to answer: a rectangular table whose first column,
  \<^verbatim>\<open>Country\<close>, holds the names of the economies as text, and whose other columns hold numbers
  or missing values.  \<open>reporting\<close> lists the names of the economies that have a value in some
  column, in the order of the rows.\<close>

fun the_str :: "cell \<Rightarrow> label" where
  "the_str (Str s) = s"
| "the_str (Num x) = []"
| "the_str NaN = []"

definition fetched_ok :: "dataframe \<Rightarrow> bool" where
  "fetched_ok raw \<longleftrightarrow>
     wf_frame raw \<and> columns raw \<noteq> [] \<and> hd (columns raw) = ''Country'' \<and>
     ''Country'' \<notin> set (tl (columns raw)) \<and>
     list_all (\<lambda>row. is_str (hd row) \<and> \<not> list_ex is_str (tl row)) (cells raw)"

definition reporting :: "dataframe \<Rightarrow> label list" where
  "reporting raw =
     map (\<lambda>row. the_str (hd row)) (filter (\<lambda>row. \<not> list_all isna (tl row)) (cells raw))"

definition reporting_rows :: "dataframe \<Rightarrow> cell list list" where
  "reporting_rows raw = filter (\<lambda>row. \<not> list_all isna (tl row)) (cells raw)"

text \<open>What the chart is meant to show of such an answer.  \<open>economies\<close> is the answer row by
  row: each economy with its values, year by year.  \<open>year_mask\<close> marks the years in which
  some economy reports a value, and \<open>years\<close> are their labels without the token \<^verbatim>\<open>YR\<close>.
  \<open>chart_lines\<close> gives each reporting economy its line: its values in these years, rounded
  to one decimal.  \<open>average_line\<close> is, year by year, the mean of the lines of the economies
  listed before \<^verbatim>\<open>World\<close>.\<close>

definition economies :: "dataframe \<Rightarrow> (label \<times> cell list) list" where
  "economies raw = map (\<lambda>row. (the_str (hd row), tl row)) (cells raw)"

definition year_mask :: "dataframe \<Rightarrow> bool list" where
  "year_mask raw =
     map (\<lambda>j. list_ex (\<lambda>cv. \<not> isna (snd cv ! j)) (economies raw)) [0..<length (columns raw) - 1]"

definition years :: "dataframe \<Rightarrow> label list" where
  "years raw = map (str_replace ''YR'' []) (select_by (year_mask raw) (tl (columns raw)))"

definition chart_lines :: "dataframe \<Rightarrow> (label \<times> cell list) list" where
  "chart_lines raw =
     map (\<lambda>cv. (fst cv, map (round_cell 1) (select_by (year_mask raw) (snd cv))))
       (filter (\<lambda>cv. \<not> all_null cv) (economies raw))"

definition average_line :: "dataframe \<Rightarrow> cell list" where
  "average_line raw =
     map (\<lambda>k. mean_row (map (\<lambda>cl. snd cl ! k)
                  (takeWhile (\<lambda>cl. fst cl \<noteq> ''World'') (chart_lines raw))))
       [0..<length (years raw)]"

text \<open>The chart of such an answer.  \<open>chart_table\<close> lists the columns of the table that is
  charted: the average line, the reporting economies listed before \<^verbatim>\<open>World\<close> in alphabetical
  order, the regions and the income groups, each with its line.  \<open>chart_frame\<close> is that table,
  \<open>chart_options\<close> the dictionary of the dropdown, and \<open>chart_figure\<close> the figure that the
  chart builder makes of them.  \<open>chartable\<close> describes the answers for which the script is
  written: of the expected form, the reporting economies with distinct names, none of them
  \<^verbatim>\<open>Country_Avg_line\<close>, the sentinel and the eleven groups among them, and no group listed
  before the sentinel.\<close>

definition chartable :: "dataframe \<Rightarrow> bool" where
  "chartable raw \<longleftrightarrow>
     fetched_ok raw \<and> distinct (reporting raw) \<and>
     set (''World'' # region_grps @ income_grps) \<subseteq> set (reporting raw) \<and>
     ''Country_Avg_line'' \<notin> set (reporting raw) \<and>
     set (takeWhile (\<lambda>c. c \<noteq> ''World'') (reporting raw)) \<inter> set (region_grps @ income_grps) = {}"

definition chart_table :: "dataframe \<Rightarrow> (label \<times> cell list) list" where
  "chart_table raw =
     (''Country_Avg_line'', average_line raw) #
     map (\<lambda>c. (c, the (map_of (chart_lines raw) c)))
       (sort (takeWhile (\<lambda>c. c \<noteq> ''World'') (reporting raw)) @ region_grps @ income_grps)"

definition chart_frame :: "dataframe \<Rightarrow> dataframe" where
  "chart_frame raw =
     \<lparr>index = years raw, index_name = Some ''Year'', columns = map fst (chart_table raw),
      columns_name = None,
      cells = transpose_rect (length (years raw)) (map snd (chart_table raw))\<rparr>"

definition chart_options :: "dataframe \<Rightarrow> filter_options" where
  "chart_options raw =
     [(''Countries'', ''Country_Avg_line'' # sort (takeWhile (\<lambda>c. c \<noteq> ''World'') (reporting raw))),
      (''Income Groups'', income_grps), (''Regions'', region_grps)]"

definition chart_figure :: "dataframe \<Rightarrow> figure" where
  "chart_figure raw =
     update_layout
       (all_button (chart_frame raw) #
        map (category_button (columns (chart_frame raw))) (chart_options raw))
       (update_traces_visible Legendonly (line_figure (chart_frame raw)))"

section \<open>Examples\<close>

definition ex_fetched :: dataframe where
  "ex_fetched = \<lparr>index = [''TCD'', ''ABW'', ''ZZZ'', ''WLD'', ''EAS'', ''ECS'', ''LCN'', ''MEA'', ''NAC'',
       ''SAS'', ''SSF'', ''LIC'', ''LMC'', ''UMC'', ''HIC''],
     index_name = Some ''economy'',
     columns = [''Country'', ''YR1999'', ''YR2000'', ''YR2001'', ''YR2002''], columns_name = None,
     cells = [[Str ''Chad'', NaN, Num 10, NaN, Num (1244 / 100)],
              [Str ''Aruba'', NaN, Num 20, Num (1234 / 100), Num (1226 / 100)],
              [Str ''Nowhere'', NaN, NaN, NaN, NaN],
              [Str ''World'', NaN, Num 50, Num 51, Num 52]] @
             map (\<lambda>l. [Str l, NaN, Num 60, NaN, NaN]) (region_grps @ income_grps)\<rparr>"

definition ex_indexed :: dataframe where
  "ex_indexed = \<lparr>index = [''Chad'', ''Aruba'', ''Nowhere'', ''World''] @ region_grps @ income_grps,
     index_name = Some ''Country'',
     columns = [''YR1999'', ''YR2000'', ''YR2001'', ''YR2002''], columns_name = None,
     cells = [[NaN, Num 10, NaN, Num (1244 / 100)], [NaN, Num 20, Num (1234 / 100), Num (1226 / 100)],
              [NaN, NaN, NaN, NaN], [NaN, Num 50, Num 51, Num 52]] @
             replicate 11 [NaN, Num 60, NaN, NaN]\<rparr>"

text \<open>The same answer with the economies listed in another order and without the economy
  that reports nothing, and an answer in which no group reports.\<close>

definition ex_relisted :: dataframe where
  "ex_relisted = \<lparr>index = [''ABW'', ''TCD'', ''WLD'', ''HIC'', ''UMC'', ''LMC'', ''LIC'', ''SSF'', ''SAS'',
       ''NAC'', ''MEA'', ''LCN'', ''ECS'', ''EAS''],
     index_name = Some ''economy'',
     columns = [''Country'', ''YR1999'', ''YR2000'', ''YR2001'', ''YR2002''], columns_name = None,
     cells = [[Str ''Aruba'', NaN, Num 20, Num (1234 / 100), Num (1226 / 100)],
              [Str ''Chad'', NaN, Num 10, NaN, Num (1244 / 100)],
              [Str ''World'', NaN, Num 50, Num 51, Num 52]] @
             map (\<lambda>l. [Str l, NaN, Num 60, NaN, NaN]) (rev (region_grps @ income_grps))\<rparr>"

definition ex_no_groups :: dataframe where
  "ex_no_groups = \<lparr>index = [''ABW'', ''WLD'', ''HIC''], index_name = Some ''economy'',
     columns = [''Country'', ''YR2000'', ''YR2001''], columns_name = None,
     cells = [[Str ''Aruba'', Num (62 / 5), Num (62 / 5)], [Str ''World'', Num 50, NaN],
              [Str ''High income'', NaN, NaN]]\<rparr>"

section \<open>Lemmas\<close>

text \<open>A table without columns has nothing to report, so the reshaped table has no column
  either.\<close>

lemma reported_no_columns:
  assumes "wf_frame t" and "columns t = []"
  shows "reported t = []"
proof -
  have "all_null lv" if "lv \<in> set (labelled_rows t)" for lv
  proof -
    from that have "snd lv \<in> set (cells t)"
      unfolding labelled_rows_def by (metis set_zip_rightD prod.collapse)
    from wf_frame_row [OF assms(1) this] assms(2) show ?thesis
      by (simp add: all_null_def)
  qed
  then show ?thesis
    by (simp add: reported_def filter_empty_conv)
qed

lemma ex_fetched_steps:
  "\<exists>t ip. set_index ''Country'' ex_fetched = Inr t \<and> preprocess_tables t = Inr (ip, ex_years)"
proof -
  have "case set_index ''Country'' ex_fetched of
          Inr t \<Rightarrow> (case preprocess_tables t of Inr (ip, r) \<Rightarrow> r = ex_years | Inl e \<Rightarrow> False)
        | Inl e \<Rightarrow> False"
    by code_simp
  then show ?thesis
    by (auto split: sum.splits)
qed

lemma set_index_ex_fetched: "set_index ''Country'' ex_fetched = Inr ex_indexed"
  by code_simp

lemma chart_ready_columns:
  assumes "wf_frame t" and "preprocess_tables t = Inr (a, r)" and "chart_ready r"
  shows "columns t \<noteq> []"
proof
  assume "columns t = []"
  from reported_no_columns [OF assms(1) this] columns_preprocess [OF assms(1,2)]
  have "columns r = []"
    by (simp add: reported_def)
  with assms(3) show False
    by (simp add: chart_ready_def)
qed

lemma wf_ex_fetched: "wf_frame ex_fetched"
  by code_simp

subsection \<open>From the answer of the service to the chart\<close>

lemma is_str_the_str: "is_str c \<Longrightarrow> Str (the_str c) = c"
  by (cases c) simp_all

lemma set_index_fetched:
  assumes "fetched_ok raw"
  shows "set_index ''Country'' raw =
     Inr \<lparr>index = map (\<lambda>row. the_str (hd row)) (cells raw), index_name = Some ''Country'',
          columns = tl (columns raw), columns_name = columns_name raw,
          cells = map tl (cells raw)\<rparr>"
proof -
  from assms have wf: "wf_frame raw" and cols: "columns raw \<noteq> []" "hd (columns raw) = ''Country''"
    "''Country'' \<notin> set (tl (columns raw))"
    and rows: "list_all (\<lambda>row. is_str (hd row) \<and> \<not> list_ex is_str (tl row)) (cells raw)"
    by (simp_all add: fetched_ok_def)
  from positions_of_hd [OF cols(1)] cols(2,3)
  have pos: "positions_of ''Country'' (columns raw) = [0]" by simp
  have ne: "row \<noteq> []" if "row \<in> set (cells raw)" for row
    using wf_frame_row [OF wf that] cols(1) by auto
  have "column 0 (cells raw) = map Str (map (\<lambda>row. the_str (hd row)) (cells raw))"
    using rows ne by (auto simp: column_def list_all_iff hd_conv_nth is_str_the_str)
  then have "labels_of (column 0 (cells raw)) = Inr (map (\<lambda>row. the_str (hd row)) (cells raw))"
    by (simp only: labels_of_map_Str)
  then show ?thesis
    by (simp add: set_index_def pos)
qed

lemma reported_fetched:
  assumes "fetched_ok raw" and "set_index ''Country'' raw = Inr t"
  shows "reported t = reporting raw" and "\<not> list_ex (list_ex is_str) (cells t)"
proof -
  from set_index_fetched [OF assms(1)] assms(2)
  have t: "index t = map (\<lambda>row. the_str (hd row)) (cells raw)" "cells t = map tl (cells raw)"
    by auto
  show "reported t = reporting raw"
    by (simp add: reported_def reporting_def labelled_rows_def t zip_map_map zip_same_conv_map
        filter_map comp_def all_null_def)
  from assms(1) show "\<not> list_ex (list_ex is_str) (cells t)"
    by (auto simp: fetched_ok_def t list_all_iff list_ex_iff)
qed

text \<open>The indexed table holds the economies row by row, and the reshaped table holds their
  lines column by column, over the years that have a value.\<close>

lemma fetched_indexed:
  assumes "fetched_ok raw" and "set_index ''Country'' raw = Inr t"
  shows "labelled_rows t = economies raw" and "col_mask t = year_mask raw"
    and "columns t = tl (columns raw)"
proof -
  from set_index_fetched [OF assms(1)] assms(2)
  have t: "index t = map (\<lambda>row. the_str (hd row)) (cells raw)" "cells t = map tl (cells raw)"
    "columns t = tl (columns raw)"
    by auto
  show "labelled_rows t = economies raw"
    by (simp add: labelled_rows_def economies_def t zip_map_map zip_same_conv_map)
  show "columns t = tl (columns raw)"
    by (rule t(3))
  have "notna_any_axis0 t = year_mask raw"
    by (simp add: notna_any_axis0_def year_mask_def economies_def t column_def
        list_all_iff list_ex_iff)
  then show "col_mask t = year_mask raw"
    by (simp only: col_mask_eq)
qed

lemma fetched_lines:
  assumes "fetched_ok raw" and "set_index ''Country'' raw = Inr t"
    and "preprocess_tables t = Inr (a, r)"
  shows "labelled_columns r = chart_lines raw" and "index r = years raw"
proof -
  from assms(1) have "wf_frame raw"
    by (simp add: fetched_ok_def)
  note wf = wf_set_index [OF this assms(2)]
  note lc = labelled_columns_preprocess [OF wf reported_fetched(2) [OF assms(1,2)] assms(3)]
  note ix = fetched_indexed [OF assms(1,2)]
  show "labelled_columns r = chart_lines raw"
    by (simp add: lc(1) ix chart_lines_def case_prod_unfold)
  show "index r = years raw"
    by (simp add: lc(2) ix years_def)
qed

lemma reporting_chart_lines: "reporting raw = map fst (chart_lines raw)"
  by (simp add: reporting_def chart_lines_def economies_def filter_map comp_def all_null_def)

text \<open>The steps of the script up to the reshaped table, on an answer of the expected form.\<close>

lemma fetched_reshaped:
  assumes "fetched_ok raw"
  obtains t a r where "set_index ''Country'' raw = Inr t" "columns t = tl (columns raw)"
    "preprocess_tables t = Inr (a, r)" "wf_frame r" "columns r = reporting raw"
    "\<not> list_ex (list_ex is_str) (cells r)"
proof -
  from set_index_fetched [OF assms] obtain t where t: "set_index ''Country'' raw = Inr t"
    by blast
  from assms have "wf_frame raw" by (simp add: fetched_ok_def)
  note wf = wf_set_index [OF this t]
  note rep = reported_fetched [OF assms t]
  obtain a r where pre: "preprocess_tables t = Inr (a, r)"
    by (simp add: preprocess_tables_eq)
  from columns_preprocess [OF wf pre] have "columns r = reporting raw"
    by (simp add: rep(1) [symmetric] reported_def)
  from that [OF t fetched_indexed(3) [OF assms t] pre wf_preprocess(2) [OF wf pre] this
      numeric_preprocess [OF wf rep(2) pre]]
  show thesis .
qed

text \<open>The table step on the reshaped table returns the options and the table of the chart.\<close>

lemma fetched_chart_table:
  assumes "fetched_ok raw" and "set_index ''Country'' raw = Inr t"
    and "preprocess_tables t = Inr (a, r)" and "chart_ready r"
  shows "prepare_chart_table r = Inr (chart_options raw, chart_frame raw)"
    and "labelled_columns (chart_frame raw) = chart_table raw" and "wf_frame (chart_frame raw)"
proof -
  note lines = fetched_lines [OF assms(1-3)]
  from assms(4) have wf: "wf_frame r"
    by (simp add: chart_ready_def)
  from lines(1) have cols: "columns r = reporting raw"
    by (metis map_fst_labelled_columns reporting_chart_lines)
  from country_avg_eq [OF wf] have avg: "country_avg r = average_line raw"
    by (simp add: lines average_line_def years_def)
  from prepare_chart_table_ready [OF assms(4)] obtain df'
    where run: "prepare_chart_table r = Inr (chart_options raw, df')"
      and df': "wf_frame df'" "index df' = index r" "index_name df' = index_name r"
        "columns_name df' = columns_name r"
      and "labelled_columns df' = (''Country_Avg_line'', country_avg r) #
        map (\<lambda>l. (l, the (map_of (labelled_columns r) l))) (chart_columns r)"
    by (auto simp: chart_options_def country_columns_def cols)
  then have lc: "labelled_columns df' = chart_table raw"
    by (simp add: chart_table_def avg lines chart_columns_def country_columns_def cols)
  then have "columns df' = map fst (chart_table raw)"
    by (metis map_fst_labelled_columns)
  moreover from df'(2-4) have "index df' = years raw" "index_name df' = Some ''Year''"
    "columns_name df' = None"
    by (simp_all add: lines(2)) (simp_all add: preprocess_tables_Inr(2) [OF assms(3)])
  moreover note cells_eq_transpose_labelled_columns [OF df'(1)]
  ultimately have "df' = chart_frame raw"
    by (intro dataframe.equality) (simp_all add: chart_frame_def lc)
  with run df'(1) lc show "prepare_chart_table r = Inr (chart_options raw, chart_frame raw)"
    "labelled_columns (chart_frame raw) = chart_table raw" "wf_frame (chart_frame raw)"
    by simp_all
qed

text \<open>The steps of the script on an answer for which it is written.\<close>

lemma fetched_steps:
  assumes "chartable raw"
  obtains t a r where "set_index ''Country'' raw = Inr t" "columns t \<noteq> []"
    "preprocess_tables t = Inr (a, r)" "chart_ready r" "columns r = reporting raw"
    "prepare_chart_table r = Inr (chart_options raw, chart_frame raw)"
    "build_figure (chart_options raw) (chart_frame raw) = Inr (chart_figure raw)"
proof -
  from assms have ok: "fetched_ok raw" and rep: "distinct (reporting raw)"
    "set (''World'' # region_grps @ income_grps) \<subseteq> set (reporting raw)"
    "''Country_Avg_line'' \<notin> set (reporting raw)"
    and apart: "set (takeWhile (\<lambda>c. c \<noteq> ''World'') (reporting raw)) \<inter>
      set (region_grps @ income_grps) = {}"
    by (simp_all add: chartable_def)
  from fetched_reshaped [OF ok] obtain t a r
    where t: "set_index ''Country'' raw = Inr t" and pre: "preprocess_tables t = Inr (a, r)"
      and r: "wf_frame r" "columns r = reporting raw" "\<not> list_ex (list_ex is_str) (cells r)" .
  from r rep have ready: "chart_ready r"
    by (simp add: chart_ready_def)
  from ok have "wf_frame raw" by (simp add: fetched_ok_def)
  note cols = chart_ready_columns [OF wf_set_index [OF this t] pre ready]
  note run = fetched_chart_table(1) [OF ok t pre ready]
  from apart have "set (country_columns r) \<inter> set (region_grps @ income_grps) = {}"
    by (simp add: country_columns_def r(2))
  from prepared_figure [OF ready this run] obtain fig
    where fig: "build_figure (chart_options raw) (chart_frame raw) = Inr fig" .
  from chart_of_prepared_table(1) [OF ready run fig] have "fig = chart_figure raw"
    by (simp add: chart_figure_def)
  with that [OF t cols pre ready r(2) run] fig show thesis
    by simp
qed

text \<open>The lines of the figure are the columns of the chart table, drawn over the years.\<close>

lemma chart_figure_lines:
  assumes "chartable raw"
  shows "fig_data (chart_figure raw) =
     map (\<lambda>lv. \<lparr>trace_name = fst lv, trace_x = years raw, trace_y = snd lv,
                 trace_visible = Legendonly\<rparr>) (chart_table raw)"
proof -
  from fetched_steps [OF assms] obtain t a r
    where "set_index ''Country'' raw = Inr t" "preprocess_tables t = Inr (a, r)" "chart_ready r" .
  from assms fetched_chart_table(2) [OF _ this]
  have "labelled_columns (chart_frame raw) = chart_table raw"
    by (simp add: chartable_def)
  with fig_data_labelled_columns [of Legendonly "chart_frame raw"] show ?thesis
    by (simp add: chart_figure_def chart_frame_def del: fig_data_legendonly)
qed

subsection \<open>Answers with the same lines\<close>

text \<open>The chart is made of the years, of the lines as a set, and of the set of names listed
  before \<^verbatim>\<open>World\<close>: sorting the names and looking the lines up by name removes the order of
  the listing, and the mean does not depend on it.\<close>

lemma before_world_lines:
  assumes "distinct (reporting raw)"
  shows "set (takeWhile (\<lambda>cl. fst cl \<noteq> ''World'') (chart_lines raw)) =
     {cl \<in> set (chart_lines raw). fst cl \<in> set (takeWhile (\<lambda>c. c \<noteq> ''World'') (reporting raw))}"
  using assms unfolding reporting_chart_lines by (rule takeWhile_fst_set)

lemma distinct_chart_lines: "distinct (reporting raw) \<Longrightarrow> distinct (chart_lines raw)"
  unfolding reporting_chart_lines by (rule distinct_map [THEN iffD1, THEN conjunct1])

lemma average_line_cong:
  assumes "distinct (reporting raw)" and "distinct (reporting raw')"
    and "years raw' = years raw" and "set (chart_lines raw') = set (chart_lines raw)"
    and "set (takeWhile (\<lambda>c. c \<noteq> ''World'') (reporting raw')) =
         set (takeWhile (\<lambda>c. c \<noteq> ''World'') (reporting raw))"
  shows "average_line raw' = average_line raw"
proof -
  let ?before = "\<lambda>raw. takeWhile (\<lambda>cl. fst cl \<noteq> ''World'') (chart_lines raw)"
  have "set (?before raw') = set (?before raw)"
    by (simp add: before_world_lines assms)
  moreover have "distinct (?before raw')" "distinct (?before raw)"
    using assms(1,2) by (simp_all add: distinct_chart_lines distinct_takeWhile)
  ultimately have "mset (?before raw') = mset (?before raw)"
    by (simp add: set_eq_iff_mset_eq_distinct)
  then have "mset (map (\<lambda>cl. snd cl ! k) (?before raw')) = mset (map (\<lambda>cl. snd cl ! k) (?before raw))"
    for k by simp
  from mean_row_perm [OF this] show ?thesis
    by (simp add: average_line_def assms(3))
qed

lemma chart_figure_cong:
  assumes "distinct (reporting raw)" and "distinct (reporting raw')"
    and "years raw' = years raw" and "set (chart_lines raw') = set (chart_lines raw)"
    and "set (takeWhile (\<lambda>c. c \<noteq> ''World'') (reporting raw')) =
         set (takeWhile (\<lambda>c. c \<noteq> ''World'') (reporting raw))"
  shows "chart_figure raw' = chart_figure raw"
proof -
  from assms(1,2,5)
  have sorted: "sort (takeWhile (\<lambda>c. c \<noteq> ''World'') (reporting raw')) =
      sort (takeWhile (\<lambda>c. c \<noteq> ''World'') (reporting raw))"
    by (intro sort_cong_set distinct_takeWhile)
  from assms(1,2,4) have "map_of (chart_lines raw') = map_of (chart_lines raw)"
    by (simp add: map_of_inject_set reporting_chart_lines)
  with sorted average_line_cong [OF assms] have "chart_table raw' = chart_table raw"
    by (simp add: chart_table_def)
  with sorted assms(3) show ?thesis
    by (simp add: chart_figure_def chart_frame_def chart_options_def)
qed

text \<open>The years and the set of lines depend on the set of the rows that report a value,
  not on their order and not on the rows that report nothing.\<close>

lemma chart_lines_rows:
  "chart_lines raw =
     map (\<lambda>row. (the_str (hd row), map (round_cell 1) (select_by (year_mask raw) (tl row))))
       (reporting_rows raw)"
  by (simp add: chart_lines_def economies_def reporting_rows_def filter_map comp_def all_null_def)

lemma year_mask_rows:
  assumes "wf_frame raw"
  shows "year_mask raw =
     map (\<lambda>j. list_ex (\<lambda>row. \<not> isna (tl row ! j)) (reporting_rows raw)) [0..<length (columns raw) - 1]"
proof -
  have "\<not> list_all isna (tl row)"
    if "row \<in> set (cells raw)" "j < length (columns raw) - 1" "\<not> isna (tl row ! j)" for row j
  proof -
    from wf_frame_row [OF assms that(1)] that(2) have "j < length (tl row)"
      by simp
    with that(3) show ?thesis
      by (auto simp: list_all_length)
  qed
  then show ?thesis
    by (auto simp: year_mask_def economies_def reporting_rows_def list_ex_iff)
qed

lemma lines_of_rows:
  assumes "wf_frame raw" and "wf_frame raw'" and "columns raw' = columns raw"
    and "set (reporting_rows raw') = set (reporting_rows raw)"
  shows "years raw' = years raw" and "set (chart_lines raw') = set (chart_lines raw)"
proof -
  from assms(3,4) have mask: "year_mask raw' = year_mask raw"
    by (simp add: year_mask_rows assms(1,2) list_ex_iff)
  then show "years raw' = years raw"
    by (simp add: years_def assms(3))
  from mask assms(4) show "set (chart_lines raw') = set (chart_lines raw)"
    by (simp add: chart_lines_rows)
qed

subsection \<open>The values of the chart\<close>

text \<open>Every value of a line is the rounded value of a cell of the answer, and every line has
  a value for each year.\<close>

lemma chart_line_row:
  assumes "cl \<in> set (chart_lines raw)"
  obtains row where "row \<in> set (cells raw)"
    "snd cl = map (round_cell 1) (select_by (year_mask raw) (tl row))"
  using assms by (auto simp: chart_lines_def economies_def)

lemma length_chart_line:
  assumes "fetched_ok raw" and "cl \<in> set (chart_lines raw)"
  shows "length (snd cl) = length (years raw)"
proof -
  from chart_line_row [OF assms(2)] obtain row where row: "row \<in> set (cells raw)"
    and line: "snd cl = map (round_cell 1) (select_by (year_mask raw) (tl row))" .
  from assms(1) have "wf_frame raw" by (simp add: fetched_ok_def)
  from wf_frame_row [OF this row] have "length (tl row) = length (year_mask raw)"
    by (simp add: year_mask_def)
  then show ?thesis
    by (simp add: line years_def year_mask_def mask_simps)
qed

lemma chart_lines_within:
  assumes "fetched_ok raw" and "has_decimals 1 lo" and "has_decimals 1 hi"
    and "list_all (list_all (cell_within lo hi)) (cells raw)"
    and "cl \<in> set (chart_lines raw)"
  shows "list_all (\<lambda>c. cell_within lo hi c \<and> \<not> is_str c) (snd cl)"
proof -
  from chart_line_row [OF assms(5)] obtain row where row: "row \<in> set (cells raw)"
    and line: "snd cl = map (round_cell 1) (select_by (year_mask raw) (tl row))" .
  from assms(1) row have num: "\<not> list_ex is_str (tl row)"
    by (simp add: fetched_ok_def list_all_iff)
  from assms(4) row have within: "list_all (cell_within lo hi) row"
    by (simp add: list_all_iff)
  have "cell_within lo hi (round_cell 1 c) \<and> \<not> is_str (round_cell 1 c)"
    if "c \<in> set (select_by (year_mask raw) (tl row))" for c
  proof
    from that set_select_by_subset [of "year_mask raw" "tl row"] have c: "c \<in> set (tl row)"
      by auto
    from in_set_tl [OF c] within have "cell_within lo hi c"
      by (simp add: list_all_iff)
    then show "cell_within lo hi (round_cell 1 c)"
      by (rule cell_within_round [OF assms(2,3)])
    from c num show "\<not> is_str (round_cell 1 c)"
      by (simp add: list_ex_iff)
  qed
  then show ?thesis
    unfolding line list_all_iff by simp
qed

text \<open>Rounding to one decimal and averaging keep the values of the chart within bounds that
  have one decimal themselves.\<close>

lemma chart_table_within:
  assumes "chartable raw" and "has_decimals 1 lo" and "has_decimals 1 hi"
    and "list_all (list_all (cell_within lo hi)) (cells raw)"
    and "lv \<in> set (chart_table raw)"
  shows "list_all (\<lambda>c. cell_within lo hi c \<and> \<not> is_str c) (snd lv)"
proof -
  from assms(1) have ok: "fetched_ok raw"
    and groups: "set (region_grps @ income_grps) \<subseteq> set (reporting raw)"
    by (simp_all add: chartable_def)
  note line = chart_lines_within [OF ok assms(2-4)]
  from assms(5) consider "lv = (''Country_Avg_line'', average_line raw)"
    | c where "c \<in> set (reporting raw)" "lv = (c, the (map_of (chart_lines raw) c))"
    using groups by (auto simp: chart_table_def dest: set_takeWhileD)
  then show ?thesis
  proof cases
    case 1
    have "cell_within lo hi (snd cl ! k)"
      if "cl \<in> set (chart_lines raw)" "k < length (years raw)" for cl k
      using line [OF that(1)] that(2) by (simp add: list_all_length length_chart_line [OF ok that(1)])
    then have "list_all (cell_within lo hi) (map (\<lambda>cl. snd cl ! k)
        (takeWhile (\<lambda>cl. fst cl \<noteq> ''World'') (chart_lines raw)))" if "k < length (years raw)" for k
      using that by (auto simp: list_all_iff dest: set_takeWhileD)
    from mean_row_within [OF this] 1 show ?thesis
      by (simp add: average_line_def list_all_iff)
  next
    case 2
    from 2(1) obtain vs where "map_of (chart_lines raw) c = Some vs"
      by (auto simp: reporting_chart_lines dest: weak_map_of_SomeI)
    with line [OF map_of_SomeD [OF this]] 2(2) show ?thesis
      by simp
  qed
qed

subsection \<open>The examples\<close>

lemma chartable_ex_fetched: "chartable ex_fetched"
  by code_simp

lemma chartable_ex_relisted: "chartable ex_relisted"
  by code_simp

end
