(* ===== verification/Main_Script.thy ===== *)
theory Main_Script
  imports Data_Flow
begin

text \<open>
  The driver \<^verbatim>\<open>main\<close> of \<^verbatim>\<open>src/part1_script.py\<close> (lines 134 to 165).  \<open>main\<close> is a
  statement on the world of the script (console, figures shown, files written) that takes the
  data service as its argument.  The service is the record \<open>wbgapi\<close> of the two calls the
  script makes: what \<^verbatim>\<open>wb.series.metadata.get\<close> and \<^verbatim>\<open>wb.data.DataFrame\<close> answer for an
  indicator, a value or an error; the metadata is represented by the text that \<^verbatim>\<open>print\<close>
  writes for it.  \<open>main\<close> prints the heading and the metadata, fetches the table, moves the
  column \<^verbatim>\<open>Country\<close> into the index, inspects the table, reshapes it with \<open>preprocess_df\<close>,
  prepares the chart table with \<open>prepare_chart_table\<close> and calls \<open>create_chart\<close>.  The first
  error ends the run in the state reached.  \<open>script\<close> is the call \<^verbatim>\<open>main()\<close> of line 167:
  the run of \<open>main\<close> from the state in which the process starts.

  \<open>main_output\<close> is what a run that reaches the chart has printed, and \<open>script_figure\<close> is
  the data flow of the script without its effects.  The lemmas run \<open>main\<close> statement by
  statement; \<open>main_fetch_cases\<close> lists the ways the first statements can go and
  \<open>main_cases\<close> the seven ways a run can go, each with the state it ends in; \<open>script_chart\<close>
  is the run on an answer for which the script is written.
\<close>

section \<open>Definitions\<close>

record wbgapi =
  series_metadata_get :: "string \<Rightarrow> string result"
  data_DataFrame :: "string \<Rightarrow> dataframe result"

definition main :: "wbgapi \<Rightarrow> (world, unit) io" where
  "main wb =
     io_then (py_print (Text (''Metadata about the Indicator: People using at least basic '' @
                              ''sanitation services (Percentage of population)'')))
    (io_bind (io_lift (series_metadata_get wb ''SH.STA.BASS.ZS'')) (\<lambda>metadata.
     io_then (py_print (Text metadata))
    (io_bind (io_lift (data_DataFrame wb ''SH.STA.BASS.ZS'')) (\<lambda>sanit_df.
     io_bind (io_lift (set_index ''Country'' sanit_df)) (\<lambda>sanit_df.
     io_then (inspect_dataframe sanit_df)
    (io_bind (preprocess_df sanit_df) (\<lambda>(in_place, sanit_df).
     io_bind (io_lift (prepare_chart_table sanit_df)) (\<lambda>(filter_options, sanit_df).
       create_chart filter_options sanit_df))))))))"

text \<open>The call of line 167, which runs the script: the process starts with an empty console
  and no figure shown, and finds the files that earlier runs have left.\<close>

definition script :: "wbgapi \<Rightarrow> (string \<Rightarrow> figure option) \<Rightarrow> unit result \<times> world" where
  "script wb fs = main wb \<lparr>stdout = [], shown = [], files = fs\<rparr>"

text \<open>What a run of the script that reaches the chart has printed: the heading, the
  metadata \<open>md\<close>, the inspection of the indexed table \<open>t\<close> and the report of the reshaping of
  \<open>t\<close> into \<open>r\<close>.\<close>

definition heading :: out_item where
  "heading = Text (''Metadata about the Indicator: People using at least basic '' @
                   ''sanitation services (Percentage of population)'')"

definition main_output :: "string \<Rightarrow> dataframe \<Rightarrow> dataframe \<Rightarrow> out_item list" where
  "main_output md t r = [heading, Text md] @ inspect_output t @ preprocess_output t r"

text \<open>The data flow of the script without its effects: the figure it is meant to draw, as a
  function of what the service answers, or the error with which it is meant to stop.\<close>

definition script_figure :: "wbgapi \<Rightarrow> figure result" where
  "script_figure wb =
     result_bind (series_metadata_get wb ''SH.STA.BASS.ZS'') (\<lambda>metadata.
     result_bind (data_DataFrame wb ''SH.STA.BASS.ZS'') (\<lambda>fetched.
     result_bind (set_index ''Country'' fetched) (\<lambda>indexed.
     result_bind (describe_df indexed) (\<lambda>statistics.
     result_bind (preprocess_tables indexed) (\<lambda>(in_place, reshaped).
     result_bind (prepare_chart_table reshaped) (\<lambda>(filter_options, chart_table).
       build_figure filter_options chart_table))))))"

text \<open>A service that answers with a given table, and one that is not reachable.\<close>

definition ex_service :: "dataframe \<Rightarrow> wbgapi" where
  "ex_service raw = \<lparr>series_metadata_get = (\<lambda>k. Inr (''Metadata of '' @ k)),
                     data_DataFrame = (\<lambda>k. Inr raw)\<rparr>"

definition ex_offline :: wbgapi where
  "ex_offline = \<lparr>series_metadata_get = (\<lambda>k. Inl (APIError ''no connection'')),
                 data_DataFrame = (\<lambda>k. Inl (APIError ''no connection''))\<rparr>"

section \<open>Lemmas\<close>

lemma ex_service_fields:
  "series_metadata_get (ex_service raw) ''SH.STA.BASS.ZS'' = Inr ''Metadata of SH.STA.BASS.ZS''"
  "data_DataFrame (ex_service raw) ''SH.STA.BASS.ZS'' = Inr raw"
  by (simp_all add: ex_service_def)

text \<open>The runs of the script, by the statement that ends them.\<close>

lemma main_metadata_fails:
  assumes "series_metadata_get wb ''SH.STA.BASS.ZS'' = Inl e"
  shows "main wb w = (Inl e, w\<lparr>stdout := stdout w @ [heading]\<rparr>)"
  using assms by (simp add: main_def heading_def io_simps)

lemma main_fetched:
  assumes "series_metadata_get wb ''SH.STA.BASS.ZS'' = Inr md"
  shows "main wb w =
     io_bind (io_lift (data_DataFrame wb ''SH.STA.BASS.ZS'')) (\<lambda>sanit_df.
     io_bind (io_lift (set_index ''Country'' sanit_df)) (\<lambda>sanit_df.
     io_then (inspect_dataframe sanit_df)
    (io_bind (preprocess_df sanit_df) (\<lambda>(in_place, sanit_df).
     io_bind (io_lift (prepare_chart_table sanit_df)) (\<lambda>(filter_options, sanit_df).
       create_chart filter_options sanit_df)))))
     (w\<lparr>stdout := stdout w @ [heading, Text md]\<rparr>)"
  using assms by (simp add: main_def heading_def io_simps)

lemma main_data_fails:
  assumes "series_metadata_get wb ''SH.STA.BASS.ZS'' = Inr md"
    and "data_DataFrame wb ''SH.STA.BASS.ZS'' = Inl e"
  shows "main wb w = (Inl e, w\<lparr>stdout := stdout w @ [heading, Text md]\<rparr>)"
  using assms(2) by (simp add: main_fetched [OF assms(1)] io_simps)

lemma main_set_index_fails:
  assumes "series_metadata_get wb ''SH.STA.BASS.ZS'' = Inr md"
    and "data_DataFrame wb ''SH.STA.BASS.ZS'' = Inr raw" and "set_index ''Country'' raw = Inl e"
  shows "main wb w = (Inl e, w\<lparr>stdout := stdout w @ [heading, Text md]\<rparr>)"
  using assms(2,3) by (simp add: main_fetched [OF assms(1)] io_simps)

lemma main_describe_fails:
  assumes "series_metadata_get wb ''SH.STA.BASS.ZS'' = Inr md"
    and "data_DataFrame wb ''SH.STA.BASS.ZS'' = Inr raw" and "set_index ''Country'' raw = Inr t"
    and "columns t = []"
  shows "main wb w = (Inl (ValueError ''Cannot describe a DataFrame without columns''),
            w\<lparr>stdout := stdout w @ [heading, Text md] @ take 8 (inspect_output t)\<rparr>)"
proof -
  let ?w = "w\<lparr>stdout := stdout w @ [heading, Text md]\<rparr>"
  from assms(4) have "inspect_dataframe t ?w =
      (Inl (ValueError ''Cannot describe a DataFrame without columns''),
       ?w\<lparr>stdout := stdout ?w @ take 8 (inspect_output t)\<rparr>)"
    by (simp add: inspect_dataframe_run)
  note ins = io_then_run(2) [of "inspect_dataframe t" ?w, OF this]
  show ?thesis
    unfolding main_fetched [OF assms(1)] assms(2,3) io_bind_lift(1) ins by simp
qed

lemma main_reshaped:
  assumes "series_metadata_get wb ''SH.STA.BASS.ZS'' = Inr md"
    and "data_DataFrame wb ''SH.STA.BASS.ZS'' = Inr raw" and "set_index ''Country'' raw = Inr t"
    and "columns t \<noteq> []" and "preprocess_tables t = Inr (in_place, r)"
  shows "main wb w =
     io_bind (io_lift (prepare_chart_table r)) (\<lambda>(filter_options, sanit_df).
       create_chart filter_options sanit_df) (w\<lparr>stdout := stdout w @ main_output md t r\<rparr>)"
proof -
  let ?w = "w\<lparr>stdout := stdout w @ [heading, Text md]\<rparr>"
  from assms(4) have "inspect_dataframe t ?w = (Inr (), ?w\<lparr>stdout := stdout ?w @ inspect_output t\<rparr>)"
    by (simp add: inspect_dataframe_run)
  note ins = io_then_run(1) [of "inspect_dataframe t" ?w, OF this]
  note pre = io_bind_run(1) [of "preprocess_df t", OF preprocess_df_run [OF assms(5)]]
  show ?thesis
    unfolding main_fetched [OF assms(1)] assms(2,3) io_bind_lift(1) ins pre
    by (simp add: main_output_def)
qed

lemma main_prepare_fails:
  assumes "series_metadata_get wb ''SH.STA.BASS.ZS'' = Inr md"
    and "data_DataFrame wb ''SH.STA.BASS.ZS'' = Inr raw" and "set_index ''Country'' raw = Inr t"
    and "columns t \<noteq> []" and "preprocess_tables t = Inr (in_place, r)"
    and "prepare_chart_table r = Inl e"
  shows "main wb w = (Inl e, w\<lparr>stdout := stdout w @ main_output md t r\<rparr>)"
  using assms(6) by (simp add: main_reshaped [OF assms(1-5)] io_simps)

lemma main_run:
  assumes "series_metadata_get wb ''SH.STA.BASS.ZS'' = Inr md"
    and "data_DataFrame wb ''SH.STA.BASS.ZS'' = Inr raw" and "set_index ''Country'' raw = Inr t"
    and "columns t \<noteq> []" and "preprocess_tables t = Inr (in_place, r)"
    and "prepare_chart_table r = Inr (fo, df')" and "build_figure fo df' = Inr fig"
  shows "main wb w =
     (Inr (), w\<lparr>stdout := stdout w @ main_output md t r, shown := shown w @ [fig],
               files := (files w)(''visual.html'' \<mapsto> fig)\<rparr>)"
  using assms(6) by (simp add: main_reshaped [OF assms(1-5)] io_simps create_chart_run [OF assms(7)])

lemma main_chart_fails:
  assumes "series_metadata_get wb ''SH.STA.BASS.ZS'' = Inr md"
    and "data_DataFrame wb ''SH.STA.BASS.ZS'' = Inr raw" and "set_index ''Country'' raw = Inr t"
    and "columns t \<noteq> []" and "preprocess_tables t = Inr (in_place, r)"
    and "prepare_chart_table r = Inr (fo, df')" and "build_figure fo df' = Inl e"
  shows "main wb w = (Inl e, w\<lparr>stdout := stdout w @ main_output md t r\<rparr>)"
  using assms(6) by (simp add: main_reshaped [OF assms(1-5)] io_simps create_chart_fails [OF assms(7)])

text \<open>Every run is one of these: the case analysis that the properties of the whole script
  share.  The first rule follows a run up to the indexed table, the second to its end.\<close>

lemma main_fetch_cases:
  obtains (no_metadata) e where "series_metadata_get wb ''SH.STA.BASS.ZS'' = Inl e"
      "main wb w = (Inl e, w\<lparr>stdout := stdout w @ [heading]\<rparr>)"
  | (no_data) md e where "series_metadata_get wb ''SH.STA.BASS.ZS'' = Inr md"
      "data_DataFrame wb ''SH.STA.BASS.ZS'' = Inl e"
      "main wb w = (Inl e, w\<lparr>stdout := stdout w @ [heading, Text md]\<rparr>)"
  | (no_index) md raw e where "series_metadata_get wb ''SH.STA.BASS.ZS'' = Inr md"
      "data_DataFrame wb ''SH.STA.BASS.ZS'' = Inr raw" "set_index ''Country'' raw = Inl e"
      "main wb w = (Inl e, w\<lparr>stdout := stdout w @ [heading, Text md]\<rparr>)"
  | (indexed) md raw t where "series_metadata_get wb ''SH.STA.BASS.ZS'' = Inr md"
      "data_DataFrame wb ''SH.STA.BASS.ZS'' = Inr raw" "set_index ''Country'' raw = Inr t"
proof (cases "series_metadata_get wb ''SH.STA.BASS.ZS''")
  case (Inl e)
  from no_metadata [OF Inl main_metadata_fails [OF Inl]] show ?thesis .
next
  case md: (Inr md)
  show ?thesis
  proof (cases "data_DataFrame wb ''SH.STA.BASS.ZS''")
    case (Inl e)
    from no_data [OF md Inl main_data_fails [OF md Inl]] show ?thesis .
  next
    case raw: (Inr raw)
    show ?thesis
    proof (cases "set_index ''Country'' raw")
      case (Inl e)
      from no_index [OF md raw Inl main_set_index_fails [OF md raw Inl]] show ?thesis .
    next
      case (Inr t)
      from indexed [OF md raw Inr] show ?thesis .
    qed
  qed
qed

lemma main_cases:
  obtains (metadata) e where "series_metadata_get wb ''SH.STA.BASS.ZS'' = Inl e"
      "main wb w = (Inl e, w\<lparr>stdout := stdout w @ [heading]\<rparr>)"
  | (data) md e where "series_metadata_get wb ''SH.STA.BASS.ZS'' = Inr md"
      "data_DataFrame wb ''SH.STA.BASS.ZS'' = Inl e"
      "main wb w = (Inl e, w\<lparr>stdout := stdout w @ [heading, Text md]\<rparr>)"
  | (set_index) md raw e where "series_metadata_get wb ''SH.STA.BASS.ZS'' = Inr md"
      "data_DataFrame wb ''SH.STA.BASS.ZS'' = Inr raw" "set_index ''Country'' raw = Inl e"
      "main wb w = (Inl e, w\<lparr>stdout := stdout w @ [heading, Text md]\<rparr>)"
  | (describe) md raw t where "series_metadata_get wb ''SH.STA.BASS.ZS'' = Inr md"
      "data_DataFrame wb ''SH.STA.BASS.ZS'' = Inr raw" "set_index ''Country'' raw = Inr t"
      "columns t = []"
      "main wb w = (Inl (ValueError ''Cannot describe a DataFrame without columns''),
            w\<lparr>stdout := stdout w @ [heading, Text md] @ take 8 (inspect_output t)\<rparr>)"
  | (prepare) md raw t in_place r e where "series_metadata_get wb ''SH.STA.BASS.ZS'' = Inr md"
      "data_DataFrame wb ''SH.STA.BASS.ZS'' = Inr raw" "set_index ''Country'' raw = Inr t"
      "columns t \<noteq> []" "preprocess_tables t = Inr (in_place, r)" "prepare_chart_table r = Inl e"
      "main wb w = (Inl e, w\<lparr>stdout := stdout w @ main_output md t r\<rparr>)"
  | (plot) md raw t in_place r fo df' e where "series_metadata_get wb ''SH.STA.BASS.ZS'' = Inr md"
      "data_DataFrame wb ''SH.STA.BASS.ZS'' = Inr raw" "set_index ''Country'' raw = Inr t"
      "columns t \<noteq> []" "preprocess_tables t = Inr (in_place, r)"
      "prepare_chart_table r = Inr (fo, df')" "build_figure fo df' = Inl e"
      "main wb w = (Inl e, w\<lparr>stdout := stdout w @ main_output md t r\<rparr>)"
  | (chart) md raw t in_place r fo df' fig where "series_metadata_get wb ''SH.STA.BASS.ZS'' = Inr md"
      "data_DataFrame wb ''SH.STA.BASS.ZS'' = Inr raw" "set_index ''Country'' raw = Inr t"
      "columns t \<noteq> []" "preprocess_tables t = Inr (in_place, r)"
      "prepare_chart_table r = Inr (fo, df')" "build_figure fo df' = Inr fig"
      "main wb w = (Inr (), w\<lparr>stdout := stdout w @ main_output md t r, shown := shown w @ [fig],
               files := (files w)(''visual.html'' \<mapsto> fig)\<rparr>)"
proof (cases wb w rule: main_fetch_cases)
  case (indexed md raw t)
  show ?thesis
  proof (cases "columns t = []")
    case True
    from describe [OF indexed True main_describe_fails [OF indexed True]] show ?thesis .
  next
    case False
    obtain in_place r where pre: "preprocess_tables t = Inr (in_place, r)"
      by (simp add: preprocess_tables_eq)
    note reshaped = indexed False pre
    show ?thesis
    proof (cases "prepare_chart_table r")
      case (Inl e)
      from prepare [OF reshaped Inl main_prepare_fails [OF reshaped Inl]] show ?thesis .
    next
      case (Inr p)
      then obtain fo df' where p: "prepare_chart_table r = Inr (fo, df')"
        by (cases p) simp
      show ?thesis
      proof (cases "build_figure fo df'")
        case (Inl e)
        from plot [OF reshaped p Inl main_chart_fails [OF reshaped p Inl]] show ?thesis .
      next
        case (Inr fig)
        from chart [OF reshaped p Inr main_run [OF reshaped p Inr]] show ?thesis .
      qed
    qed
  qed
qed (blast intro: metadata data set_index)+

text \<open>The run on an answer for which the script is written: it returns, and the figure that
  it shows and writes is the chart of the answer.\<close>

lemma script_chart:
  assumes "series_metadata_get wb ''SH.STA.BASS.ZS'' = Inr md"
    and "data_DataFrame wb ''SH.STA.BASS.ZS'' = Inr raw" and "chartable raw"
  obtains out where "script wb fs =
     (Inr (), \<lparr>stdout = out, shown = [chart_figure raw],
               files = fs(''visual.html'' \<mapsto> chart_figure raw)\<rparr>)"
proof -
  from fetched_steps [OF assms(3)] obtain t a r
    where steps: "set_index ''Country'' raw = Inr t" "columns t \<noteq> []"
      "preprocess_tables t = Inr (a, r)"
      "prepare_chart_table r = Inr (chart_options raw, chart_frame raw)"
      "build_figure (chart_options raw) (chart_frame raw) = Inr (chart_figure raw)" .
  from main_run [OF assms(1,2) steps] that show thesis
    by (simp add: script_def)
qed

text \<open>The run of the script on the example answer of the service.\<close>

lemma ex_service_run: "\<exists>w'. main (ex_service ex_fetched) w = (Inr (), w')"
proof -
  from ex_fetched_steps obtain t ip
    where steps: "set_index ''Country'' ex_fetched = Inr t" "preprocess_tables t = Inr (ip, ex_years)"
    by blast
  from prepare_chart_table_ready [OF chart_ready_ex_years] obtain fo df'
    where run: "prepare_chart_table ex_years = Inr (fo, df')" by blast
  from prepared_figure [OF chart_ready_ex_years groups_apart_ex_years run] obtain fig
    where fig: "build_figure fo df' = Inr fig" .
  note cols = chart_ready_columns [OF wf_set_index [OF wf_ex_fetched steps(1)] steps(2)
      chart_ready_ex_years]
  from main_run [OF ex_service_fields steps(1) cols steps(2) run fig] show ?thesis
    by blast
qed

end
