(* ===== verification/Spec2Isabelle.thy ===== *)
theory Spec2Isabelle
  imports Data_Flow Main_Script
begin

text \<open>
  \<^bold>\<open>Access to sanitation: a verified model of \<^verbatim>\<open>src/part1_script.py\<close>.\<close>

  The script fetches the World Bank indicator of people using at least basic sanitation
  services as a table (one row per economy, one column per year), reshapes it, adds an
  average line over the countries, and draws an interactive line chart whose dropdown shows
  the lines of one category at a time.  It has four functions: \<^verbatim>\<open>create_chart\<close> (lines 6 to
  68), \<^verbatim>\<open>inspect_dataframe\<close> (71 to 91), \<^verbatim>\<open>preprocess_df\<close> (94 to 131) and \<^verbatim>\<open>main\<close> (134 to
  165).  \<^verbatim>\<open>main\<close> calls the data service, \<^verbatim>\<open>set_index\<close>, \<^verbatim>\<open>inspect_dataframe\<close>,
  \<^verbatim>\<open>preprocess_df\<close>, prepares the chart table and calls \<^verbatim>\<open>create_chart\<close>, which shows the
  figure and writes it to \<^verbatim>\<open>visual.html\<close>.

  \<^bold>\<open>The theories.\<close>
  \<^item> \<open>Py_Prelude\<close>: what the components share.  Python's exceptions are the values of
    \<open>py_error\<close>, and a computation that can raise returns \<open>py_error + 'a\<close> (\<open>Inl\<close> the error);
    \<open>result_bind\<close> sequences such computations.  Selection by a boolean mask (\<open>select_by\<close>),
    \<^verbatim>\<open>list.index\<close> (\<open>list_index\<close>), indexing (\<open>list_get\<close>), and row-major matrices with their
    columns and transpose (\<open>column\<close>, \<open>transpose_rect\<close>, \<open>rect\<close>), with the lemma collections
    \<open>mask_simps\<close>, \<open>matrix_simps\<close> and \<open>frame_wf\<close>.  Statements with effects are functions
    from a state to a result and the state reached (\<open>io\<close>), sequenced by \<open>io_bind\<close>, \<open>io_then\<close>
    and \<open>io_seq\<close>; an exception ends the sequence and keeps the state.  The collection
    \<open>io_simps\<close> runs them.  The \<^verbatim>\<open>for\<close> statement over a list is \<open>for_each\<close>, a recursion
    on the list, and \<open>for_loop\<close>, the loop that Python runs, which holds a position in the
    list (a \<open>while_option\<close> of \<open>While_Combinator\<close>); \<open>for_loop_for_each\<close> shows that the loop
    ends with the result of the recursion.
  \<^item> \<open>Rounding\<close>: \<^verbatim>\<open>round(1)\<close> as numpy computes it, to the nearest multiple of a power of ten,
    ties to the even one (\<open>round_half_even\<close>, \<open>round_decimals\<close>).  Lemmas: idempotence, error at
    most half a unit, ties, monotonicity, percentages stay percentages.
  \<^item> \<open>Str_Replace\<close>: \<^verbatim>\<open>str.replace\<close> with a literal pattern (\<open>str_replace\<close>, line 114), a
    recursion on the string whose termination is proved by the length of the string.
  \<^item> \<open>DataFrame\<close>: a pandas table as the record \<open>dataframe\<close> of its index labels, column labels,
    axis names and row-major cells; a cell is a number, a missing value or text (\<open>cell\<close>).  The
    operations \<^verbatim>\<open>preprocess_df\<close> calls: \<open>dropna_cols\<close>, \<open>dropna_rows\<close>, \<open>set_columns\<close>,
    \<open>round_df\<close>, \<open>transpose_df\<close>.  \<open>wf_frame\<close> says that the cells are a rectangle that fits
    the labels; every operation preserves it.  \<open>labelled_columns\<close> and \<open>labelled_rows\<close> are the
    two abstract views of a table, and each operation is characterised by what it does to them.
  \<^item> \<open>Console\<close>: the console as the record \<open>console\<close> of the items written (\<open>out_item\<close>: a
    text, or a table, a summary or statistics, identified by the table they show), \<^verbatim>\<open>print\<close>
    (\<open>py_print\<close>, \<open>print_shape\<close>), Python's \<^verbatim>\<open>str\<close> of a count and of a shape (\<open>str_nat\<close>,
    \<open>str_shape\<close>), \<^verbatim>\<open>df.head\<close>, \<^verbatim>\<open>df.info\<close> and \<^verbatim>\<open>df.describe\<close> (\<open>head_df\<close>, \<open>df_info\<close>,
    \<open>describe_df\<close>), and \<open>inspect_dataframe\<close>, the whole function.  Lemmas: what the inspection
    writes, on both branches; shapes and counts can be read back from their text.
  \<^item> \<open>Preprocess\<close>: \<open>preprocess_df\<close>, the whole function, messages included: it returns both
    the state in which the call leaves the caller's table (the two \<^verbatim>\<open>dropna\<close> calls and the
    renaming work in place) and the returned table.  \<open>preprocess_tables\<close> is its functional
    specification, the data flow without the messages, and \<open>preprocess_df_run\<close> shows that
    the function returns what the specification computes and prints \<open>preprocess_output\<close>.
    Lemmas: it never raises; the returned table is the rounded transpose of the cleaned input;
    the shapes it prints; no empty row or column; one decimal; on a table that is already
    clean every step is the identity and the result is the transpose.
  \<^item> \<open>Frame_Access\<close>: the table operations of \<^verbatim>\<open>main\<close>: \<open>set_index\<close>, \<open>getitem_cols\<close>,
    \<open>mean_axis1\<close>, \<open>setitem_col\<close>, each with the errors pandas raises and a characterisation of
    the labelled columns of its result.
  \<^item> \<open>Chart\<close>: \<open>create_chart\<close>.  The figure is a record of traces, title, axis labels and
    dropdown menus; the three loops of the function are recursive functions with the
    accumulators of the source (\<open>visibility_loop\<close>, \<open>category_loop\<close>, \<open>buttons_loop\<close>), the
    if-chain of lines 32 to 40 is \<open>visibility_entry\<close>, the call of \<^verbatim>\<open>px.line\<close> is \<open>px_line\<close>.
    The two effects of the function (\<open>fig_show\<close>, \<open>write_html\<close>) act on the record \<open>world\<close>,
    which extends the console by the figures shown and the files written.  Lemmas: the loops
    build the button list of the comprehension \<open>category_button\<close>; no lookup and no index
    raises, so the figure is built for every table with distinct column labels; vectors and
    traces are aligned; the three loops, run by position (\<open>visibility_while\<close>,
    \<open>category_while\<close>, \<open>buttons_while\<close>), end with the results of the recursive functions.
    \<open>select_button\<close> models what the browser does with a
    button, after the specification; \<open>view_step\<close> and \<open>reachable_view\<close> are the state
    machine of the choices, with the invariant that every reachable view keeps the lines and
    the buttons of the figure and is determined by the last choice.
  \<^item> \<open>Chart_Table\<close>: the table step of \<^verbatim>\<open>main\<close>, \<open>prepare_chart_table\<close> (lines 149 to
    163), with the group labels \<open>income_grps\<close> and \<open>region_grps\<close> of lines 156 and 157.  Its
    specification is \<open>chart_columns\<close>: the average line \<open>country_avg\<close>, then the columns
    \<open>country_columns\<close> before \<^verbatim>\<open>World\<close> in alphabetical order, then the groups.  Lemmas: on a
    table that is \<open>chart_ready\<close> the step returns these columns, values unchanged; the average
    is the mean of the cells before \<^verbatim>\<open>World\<close>, whatever the order in which sorting selects
    them; the errors of the step, and when it raises which (\<open>prepare_chart_table_needs_world\<close>,
    \<open>prepare_chart_table_missing_groups\<close>); the figure that \<open>build_figure\<close> draws of the
    prepared table (\<open>figure_lines\<close>).  \<open>chart_steps_cases\<close> lists the four ways the step and
    the chart builder can go on a table of numbers with distinct labels.
  \<^item> \<open>Data_Flow\<close>: what the table that the service sends means for the chart.  A fetched
    table of the expected form (\<open>fetched_ok\<close>) is read as the list \<open>economies\<close> of names and
    values; \<open>year_mask\<close> and \<open>years\<close> are the years in which some economy reports a value,
    \<open>chart_lines\<close> the rounded values of the reporting economies in these years, \<open>reporting\<close>
    their names and \<open>average_line\<close> the mean over those listed before \<^verbatim>\<open>World\<close>.
    \<open>chartable\<close> describes the answers for which the script is written; \<open>chart_table\<close>,
    \<open>chart_frame\<close>, \<open>chart_options\<close> and \<open>chart_figure\<close> are the table, the dictionary and
    the figure that the script is meant to make of such an answer.  Lemmas:
    \<open>set_index\<close> and \<open>preprocess_df\<close> on a table of the expected form return the table
    whose columns are \<open>chart_lines\<close> and whose index is \<open>years\<close> (\<open>fetched_indexed\<close>,
    \<open>fetched_lines\<close>, \<open>fetched_reshaped\<close>); on a \<open>chartable\<close> answer the table step returns
    \<open>chart_options\<close> and \<open>chart_frame\<close>, and the chart builder \<open>chart_figure\<close>
    (\<open>fetched_steps\<close>); the figure depends on the years, on the set of the lines and on the
    set of names before \<^verbatim>\<open>World\<close> only (\<open>chart_figure_cong\<close>, by permutations and
    multisets); its values are within the bounds of the data (\<open>chart_table_within\<close>).
  \<^item> \<open>Main_Script\<close>: \<open>main\<close>, a statement on the \<open>world\<close>; the data service is its argument,
    a record \<open>wbgapi\<close> of what the two calls of lines 140 and 143 answer, a value or an
    error.  \<open>script\<close> is the call of line 167, \<open>main\<close> run from the state in which the
    process starts, and \<open>script_figure\<close> its data flow without effects.  \<open>main_fetch_cases\<close>
    lists the ways the first four statements can go and \<open>main_cases\<close> the seven ways a run can
    go (six stops and the chart), each with the state it ends in; the properties of the whole
    script are proved by this case analysis.  \<open>script_chart\<close> is the run on a \<open>chartable\<close>
    answer: the script returns, having shown and written \<open>chart_figure\<close>.
  \<^item> This theory: the properties of the script as a whole, which span the components: that
    the lines of the chart are the values that the service reported (\<open>chart_shows_the_data\<close>,
    from the raw table to the traces of the figure), that the chart does not depend on the
    order of the listing nor on the economies without a value (\<open>chart_ignores_the_listing\<close>),
    that its values stay within the bounds of the data (\<open>chart_values_within_bounds\<close>), what
    \<^verbatim>\<open>main\<close> prints, draws and writes, the dropdown it builds, that it returns on every
    fetched table of the expected form, the errors with which it can stop and, for a table of
    the expected form, which of them it stops with (\<open>script_outcome\<close>), that a run that
    stops has shown and written nothing, that the script computes what its data flow without
    effects (\<open>script_figure\<close>) computes, and that a second run reproduces the first.

  \<^bold>\<open>Modelling decisions.\<close>
  \<^item> Numbers are exact rationals.  Binary floating point is not modelled: a value such as 0.25
    is a tie here, as it is for numpy, but a decimal fraction that has no exact binary
    representation is rounded by its exact value.
  \<^item> The dtype of a column is read off its cells: a column with text is an object column, which
    \<^verbatim>\<open>round\<close> leaves alone and \<^verbatim>\<open>mean\<close> refuses with \<^verbatim>\<open>TypeError\<close>.
  \<^item> Labels are strings.  A \<^verbatim>\<open>Country\<close> value that is not text stops the model with
    \<open>Unsupported\<close>, which is no error of Python but the mark of an input on which the model
    does not say what the library does.  The other such input is a chart table with a repeated
    column label, handed to \<^verbatim>\<open>px.line\<close>: \<open>px_line\<close> is the figure \<open>line_figure\<close> on a table
    with distinct labels, and \<open>Unsupported\<close> otherwise.
  \<^item> An exception is its class and, where the script can meet several of one class, what tells
    them apart: the labels of a \<^verbatim>\<open>KeyError\<close>, the fixed part of the message of a
    \<^verbatim>\<open>ValueError\<close> (\<^verbatim>\<open>list.index\<close> puts the element in front of \<^verbatim>\<open>is not in list\<close>; the
    element is left out here).
  \<^item> A dictionary is an association list in insertion order; the lemmas that need it assume
    distinct keys, which the dictionary literal of line 163 has.
  \<^item> A series is the list of its values, aligned with the index of the table it came from; the
    assignment of line 152 assigns a series with the index of the table itself.
  \<^item> Effects are explicit: a function that prints, shows or writes is a function on the state
    it changes, and returns the state together with its value or its exception.  The functions
    that only print are typed over every extension of the console, so the same definition runs
    on the console alone and on the world of \<open>main\<close>.
  \<^item> \<^verbatim>\<open>preprocess_df\<close> changes its argument in place; the model returns the changed argument
    beside the result, as the statements of lines 107 to 114 leave it.
    \<^verbatim>\<open>inspect_dataframe\<close> reads its argument only.
  \<^item> All functions are total and executable: no fuel and no bound is needed.  The loops of the
    source range over finite lists and are primitive recursions; \<open>str_replace\<close> terminates
    because every step shortens the string, \<open>str_nat\<close> because every step divides the number
    by ten.  The script has no loop that could run forever: the three \<^verbatim>\<open>for\<close> statements
    of \<^verbatim>\<open>create_chart\<close> range over lists that their bodies do not change, and
    \<open>create_chart_loops_terminate\<close> shows that, run by position as Python runs them, they end
    after at most one iteration for each element, with the results of the recursions.

  \<^bold>\<open>Not modelled.\<close>  The network: the data service (\<^verbatim>\<open>wbgapi\<close>) is represented by the answers
  to the two calls, and the metadata by the text that \<^verbatim>\<open>print\<close> writes for it.  The layout in
  characters that pandas gives a printed table, the summary of \<^verbatim>\<open>df.info()\<close> and the numbers of
  \<^verbatim>\<open>df.describe()\<close>: the console records which table was printed, summarised or described.
  The rendering of the figure by plotly and the text of the HTML file: the file holds the
  figure.  The browser: what a button of the dropdown does is modelled after the specification,
  since it is no code of the repository.  Failures of the file system when \<^verbatim>\<open>visual.html\<close> is
  written.  The sharing of label objects between tables in pandas: the transposed table may
  share its row labels with the columns of the caller's table, so that the assignment of line
  121 could also name the columns axis of the caller's table, depending on the version of the
  library; the model names the index of the returned table only, and no theorem speaks of the
  name of the columns axis of the caller's table after the call.
\<close>

section \<open>The script as a whole\<close>

subsection \<open>What the chart shows\<close>

text \<open>C1: The chart shows the data.  When the service answers with a table of the expected
  form (a rectangular table whose first column \<^verbatim>\<open>Country\<close> names the economies and whose
  other columns hold numbers or missing values), in which the economies that report a value
  have distinct names, none of them \<^verbatim>\<open>Country_Avg_line\<close>, and include \<^verbatim>\<open>World\<close> and the
  eleven groups, all of them listed after \<^verbatim>\<open>World\<close>, the script shows one figure.  All its
  lines are drawn over the years in which some economy reports a value, labelled without the
  token \<^verbatim>\<open>YR\<close>.  After the average line there is one line for each reporting economy listed
  before \<^verbatim>\<open>World\<close>, in alphabetical order, and one for each region and each income group: the
  values that the service reported for it in these years, each rounded to one decimal, a
  missing value where it reported none.  The average line is, year by year, the mean of the
  rounded values of the economies listed before \<^verbatim>\<open>World\<close>, missing values skipped.\<close>

theorem chart_shows_the_data:
  assumes "series_metadata_get wb ''SH.STA.BASS.ZS'' = Inr md"
    and "data_DataFrame wb ''SH.STA.BASS.ZS'' = Inr raw"
    and "chartable raw"
  shows "\<exists>fig w'. script wb fs = (Inr (), w') \<and> shown w' = [fig] \<and>
     map (\<lambda>t. (trace_name t, trace_x t, trace_y t)) (fig_data fig) =
       (''Country_Avg_line'', years raw, average_line raw) #
       map (\<lambda>c. (c, years raw, the (map_of (chart_lines raw) c)))
         (sort (takeWhile (\<lambda>c. c \<noteq> ''World'') (reporting raw)) @ region_grps @ income_grps)"
proof -
  from script_chart [OF assms] obtain out
    where "script wb fs = (Inr (), \<lparr>stdout = out, shown = [chart_figure raw],
        files = fs(''visual.html'' \<mapsto> chart_figure raw)\<rparr>)" .
  then show ?thesis
    by (simp add: chart_figure_lines [OF assms(3)] chart_table_def comp_def)
qed

theorem chart_shows_the_data_witness:
  "\<exists>fig w'. script (ex_service ex_fetched) Map.empty = (Inr (), w') \<and> shown w' = [fig] \<and>
     take 3 (map (\<lambda>t. (trace_name t, trace_x t, trace_y t)) (fig_data fig)) =
       [(''Country_Avg_line'', [''2000'', ''2001'', ''2002''], [Num 15, Num (123 / 10), Num (1235 / 100)]),
        (''Aruba'', [''2000'', ''2001'', ''2002''], [Num 20, Num (123 / 10), Num (123 / 10)]),
        (''Chad'', [''2000'', ''2001'', ''2002''], [Num 10, NaN, Num (124 / 10)])]"
proof -
  from chart_shows_the_data [OF ex_service_fields chartable_ex_fetched, of Map.empty]
  obtain fig w' where run: "script (ex_service ex_fetched) Map.empty = (Inr (), w')" "shown w' = [fig]"
    and lines: "map (\<lambda>t. (trace_name t, trace_x t, trace_y t)) (fig_data fig) =
       (''Country_Avg_line'', years ex_fetched, average_line ex_fetched) #
       map (\<lambda>c. (c, years ex_fetched, the (map_of (chart_lines ex_fetched) c)))
         (sort (takeWhile (\<lambda>c. c \<noteq> ''World'') (reporting ex_fetched)) @ region_grps @ income_grps)"
    by (elim exE conjE)
  have "take 3 ((''Country_Avg_line'', years ex_fetched, average_line ex_fetched) #
       map (\<lambda>c. (c, years ex_fetched, the (map_of (chart_lines ex_fetched) c)))
         (sort (takeWhile (\<lambda>c. c \<noteq> ''World'') (reporting ex_fetched)) @ region_grps @ income_grps)) =
       [(''Country_Avg_line'', [''2000'', ''2001'', ''2002''], [Num 15, Num (123 / 10), Num (1235 / 100)]),
        (''Aruba'', [''2000'', ''2001'', ''2002''], [Num 20, Num (123 / 10), Num (123 / 10)]),
        (''Chad'', [''2000'', ''2001'', ''2002''], [Num 10, NaN, Num (124 / 10)])]"
    by code_simp
  with run show ?thesis
    unfolding lines [symmetric] by (intro exI conjI)
qed

text \<open>C5: The chart does not depend on the listing.  When the service answers two runs with
  tables for which the script is written, with the same year columns, the same rows among
  those that report a value, and the same economies before \<^verbatim>\<open>World\<close>, both runs show and write
  the same figure, whatever the order in which the economies are listed and whichever
  economies without a value are listed with them: the years and the lines are read off the
  set of the reporting rows, the names are sorted, and the mean of a year does not depend on
  the order of its values.\<close>

theorem chart_ignores_the_listing:
  assumes "series_metadata_get wb ''SH.STA.BASS.ZS'' = Inr md"
    and "data_DataFrame wb ''SH.STA.BASS.ZS'' = Inr raw"
    and "series_metadata_get wb' ''SH.STA.BASS.ZS'' = Inr md'"
    and "data_DataFrame wb' ''SH.STA.BASS.ZS'' = Inr raw'"
    and "chartable raw" and "chartable raw'" and "columns raw' = columns raw"
    and "set (reporting_rows raw') = set (reporting_rows raw)"
    and "set (takeWhile (\<lambda>c. c \<noteq> ''World'') (reporting raw')) =
         set (takeWhile (\<lambda>c. c \<noteq> ''World'') (reporting raw))"
  shows "\<exists>fig w w'. script wb fs = (Inr (), w) \<and> script wb' fs = (Inr (), w') \<and>
     shown w = [fig] \<and> shown w' = [fig] \<and> files w = files w'"
proof -
  from assms(5,6) have ok: "wf_frame raw" "wf_frame raw'"
    and dist: "distinct (reporting raw)" "distinct (reporting raw')"
    by (simp_all add: chartable_def fetched_ok_def)
  from chart_figure_cong [OF dist lines_of_rows [OF ok assms(7,8)] assms(9)]
  have same: "chart_figure raw' = chart_figure raw" .
  from script_chart [OF assms(1,2,5)] obtain out
    where "script wb fs = (Inr (), \<lparr>stdout = out, shown = [chart_figure raw],
        files = fs(''visual.html'' \<mapsto> chart_figure raw)\<rparr>)" .
  moreover from script_chart [OF assms(3,4,6)] obtain out'
    where "script wb' fs = (Inr (), \<lparr>stdout = out', shown = [chart_figure raw'],
        files = fs(''visual.html'' \<mapsto> chart_figure raw')\<rparr>)" .
  ultimately show ?thesis
    by (simp add: same)
qed

theorem chart_ignores_the_listing_witness:
  "\<exists>fig w w'. script (ex_service ex_fetched) Map.empty = (Inr (), w) \<and>
     script (ex_service ex_relisted) Map.empty = (Inr (), w') \<and>
     shown w = [fig] \<and> shown w' = [fig] \<and> files w = files w'"
proof -
  have "columns ex_relisted = columns ex_fetched"
    "set (reporting_rows ex_relisted) = set (reporting_rows ex_fetched)"
    "set (takeWhile (\<lambda>c. c \<noteq> ''World'') (reporting ex_relisted)) =
     set (takeWhile (\<lambda>c. c \<noteq> ''World'') (reporting ex_fetched))"
    by code_simp+
  from chart_ignores_the_listing [OF ex_service_fields ex_service_fields chartable_ex_fetched
      chartable_ex_relisted this]
  show ?thesis .
qed

text \<open>C21: The values of the chart stay within the bounds of the data.  When every number that
  the service reports lies between two bounds that have at most one decimal (for a percentage,
  0 and 100), so does every value of every line of the chart, the average line included:
  rounding to one decimal does not cross such a bound, and a mean lies between the least and
  the greatest of its values.  No value of the chart is a text.\<close>

theorem chart_values_within_bounds:
  assumes "series_metadata_get wb ''SH.STA.BASS.ZS'' = Inr md"
    and "data_DataFrame wb ''SH.STA.BASS.ZS'' = Inr raw" and "chartable raw"
    and "has_decimals 1 lo" and "has_decimals 1 hi"
    and "list_all (list_all (cell_within lo hi)) (cells raw)"
  shows "\<exists>fig w. script wb fs = (Inr (), w) \<and> shown w = [fig] \<and>
     list_all (\<lambda>t. list_all (\<lambda>c. cell_within lo hi c \<and> \<not> is_str c) (trace_y t)) (fig_data fig)"
proof -
  from script_chart [OF assms(1-3)] obtain out
    where "script wb fs = (Inr (), \<lparr>stdout = out, shown = [chart_figure raw],
        files = fs(''visual.html'' \<mapsto> chart_figure raw)\<rparr>)" .
  moreover from chart_table_within [OF assms(3-6)]
  have "list_all (\<lambda>t. list_all (\<lambda>c. cell_within lo hi c \<and> \<not> is_str c) (trace_y t))
      (fig_data (chart_figure raw))"
    by (simp add: chart_figure_lines [OF assms(3)] list_all_iff)
  ultimately show ?thesis
    by simp
qed

theorem chart_values_within_bounds_witness:
  "\<exists>fig w. script (ex_service ex_fetched) Map.empty = (Inr (), w) \<and> shown w = [fig] \<and>
     list_all (\<lambda>t. list_all (\<lambda>c. cell_within 0 100 c \<and> \<not> is_str c) (trace_y t)) (fig_data fig)"
proof -
  have "has_decimals 1 0" "has_decimals 1 100"
    "list_all (list_all (cell_within 0 100)) (cells ex_fetched)"
    by code_simp+
  from chart_values_within_bounds [OF ex_service_fields chartable_ex_fetched this] show ?thesis .
qed

text \<open>C2: When the service answers, the fetched table is rectangular and has its
  \<^verbatim>\<open>Country\<close> column, and the reshaped table is ready for charting, with no column before
  \<^verbatim>\<open>World\<close> that bears the label of a group, \<^verbatim>\<open>main\<close> returns:
  it has printed the heading, the metadata, the inspection of the indexed table and the report
  of the reshaping, it shows one figure and writes the same figure to \<^verbatim>\<open>visual.html\<close>.  The
  figure has one line per column of the chart table, named and valued as that column (the
  average line first, then countries, regions and income groups), drawn over the years, all
  collapsed into the legend, and its dropdown offers All, Countries, Income Groups and Regions
  in this order.\<close>

theorem main_draws_the_chart:
  assumes "series_metadata_get wb ''SH.STA.BASS.ZS'' = Inr md"
    and "data_DataFrame wb ''SH.STA.BASS.ZS'' = Inr raw" and "wf_frame raw"
    and "set_index ''Country'' raw = Inr t" and "preprocess_tables t = Inr (in_place, r)"
    and "chart_ready r" and "set (country_columns r) \<inter> set (region_grps @ income_grps) = {}"
  shows "\<exists>fig. main wb w =
       (Inr (), w\<lparr>stdout := stdout w @ main_output md t r, shown := shown w @ [fig],
                  files := (files w)(''visual.html'' \<mapsto> fig)\<rparr>) \<and>
     map trace_name (fig_data fig) = ''Country_Avg_line'' # chart_columns r \<and>
     map trace_y (fig_data fig) = country_avg r #
        map (\<lambda>l. the (map_of (labelled_columns r) l)) (chart_columns r) \<and>
     list_all (\<lambda>t. trace_x t = index r \<and> trace_visible t = Legendonly) (fig_data fig) \<and>
     map button_label (fig_buttons fig) = [''All'', ''Countries'', ''Income Groups'', ''Regions'']"
proof -
  from prepare_chart_table_ready [OF assms(6)] obtain fo df'
    where run: "prepare_chart_table r = Inr (fo, df')" by blast
  from prepared_figure [OF assms(6,7) run] obtain fig
    where fig: "build_figure fo df' = Inr fig" .
  note cols = chart_ready_columns [OF wf_set_index [OF assms(3,4)] assms(5,6)]
  show ?thesis
    by (intro exI [of _ fig] conjI main_run [OF assms(1,2,4) cols assms(5) run fig]
        figure_of_prepared_table [OF assms(6) run fig])
qed

theorem main_draws_the_chart_witness:
  "\<exists>fig out. main (ex_service ex_fetched) ex_world =
       (Inr (), \<lparr>stdout = out, shown = [fig], files = [''visual.html'' \<mapsto> fig]\<rparr>) \<and>
     map trace_name (fig_data fig) = [''Country_Avg_line'', ''Aruba'', ''Chad''] @ region_grps @ income_grps \<and>
     take 3 (map trace_y (fig_data fig)) =
       [[Num 15, Num (123 / 10), Num (1235 / 100)], [Num 20, Num (123 / 10), Num (123 / 10)],
        [Num 10, NaN, Num (124 / 10)]]"
proof -
  from ex_fetched_steps obtain t ip
    where steps: "set_index ''Country'' ex_fetched = Inr t" "preprocess_tables t = Inr (ip, ex_years)"
    by blast
  have names: "''Country_Avg_line'' # chart_columns ex_years =
      [''Country_Avg_line'', ''Aruba'', ''Chad''] @ region_grps @ income_grps"
    by code_simp
  have ys: "take 3 (country_avg ex_years #
        map (\<lambda>l. the (map_of (labelled_columns ex_years) l)) (chart_columns ex_years)) =
      [[Num 15, Num (123 / 10), Num (1235 / 100)], [Num 20, Num (123 / 10), Num (123 / 10)],
        [Num 10, NaN, Num (124 / 10)]]"
    by code_simp
  from main_draws_the_chart [OF ex_service_fields wf_ex_fetched steps chart_ready_ex_years
      groups_apart_ex_years, of ex_world]
  obtain fig where run: "main (ex_service ex_fetched) ex_world =
       (Inr (), ex_world\<lparr>stdout := stdout ex_world @ main_output ''Metadata of SH.STA.BASS.ZS'' t ex_years,
          shown := shown ex_world @ [fig], files := (files ex_world)(''visual.html'' \<mapsto> fig)\<rparr>)"
    and fig: "map trace_name (fig_data fig) = ''Country_Avg_line'' # chart_columns ex_years"
      "map trace_y (fig_data fig) = country_avg ex_years #
        map (\<lambda>l. the (map_of (labelled_columns ex_years) l)) (chart_columns ex_years)"
    by (elim exE conjE)
  have "main (ex_service ex_fetched) ex_world =
       (Inr (), \<lparr>stdout = main_output ''Metadata of SH.STA.BASS.ZS'' t ex_years, shown = [fig],
                 files = [''visual.html'' \<mapsto> fig]\<rparr>)"
    unfolding run by (simp add: ex_world_def)
  moreover have "map trace_name (fig_data fig) =
      [''Country_Avg_line'', ''Aruba'', ''Chad''] @ region_grps @ income_grps"
    unfolding fig(1) by (rule names)
  moreover have "take 3 (map trace_y (fig_data fig)) =
      [[Num 15, Num (123 / 10), Num (1235 / 100)], [Num 20, Num (123 / 10), Num (123 / 10)],
        [Num 10, NaN, Num (124 / 10)]]"
    unfolding fig(2) by (rule ys)
  ultimately show ?thesis
    by (intro exI conjI)
qed

text \<open>C3: The dropdown of the script, entry by entry, on an answer for which the script is
  written, with \<open>n\<close> reporting economies listed before \<^verbatim>\<open>World\<close>:
  All collapses every line into the legend; Countries shows the average line, collapses the
  countries and hides the groups; Income Groups shows the four income groups only and Regions
  the seven regions only.  In particular the average line is hidden in the views Income Groups
  and Regions, and collapsed in the view All.\<close>

theorem dropdown_of_the_script:
  assumes "series_metadata_get wb ''SH.STA.BASS.ZS'' = Inr md"
    and "data_DataFrame wb ''SH.STA.BASS.ZS'' = Inr raw" and "chartable raw"
  shows "\<exists>fig w. script wb fs = (Inr (), w) \<and> shown w = [fig] \<and>
    map (\<lambda>b. (button_label b, button_vector b)) (fig_buttons fig) =
    (let n = length (takeWhile (\<lambda>c. c \<noteq> ''World'') (reporting raw)) in
     [(''All'', replicate (n + 12) Legendonly),
      (''Countries'', VTrue # replicate n Legendonly @ replicate 11 VFalse),
      (''Income Groups'', replicate (n + 8) VFalse @ replicate 4 VTrue),
      (''Regions'', replicate (n + 1) VFalse @ replicate 7 VTrue @ replicate 4 VFalse)])"
proof -
  from fetched_steps [OF assms(3)] obtain t a r
    where steps: "chart_ready r" "columns r = reporting raw"
      "prepare_chart_table r = Inr (chart_options raw, chart_frame raw)"
      "build_figure (chart_options raw) (chart_frame raw) = Inr (chart_figure raw)" .
  from assms(3) have "set (country_columns r) \<inter> set (region_grps @ income_grps) = {}"
    by (simp add: chartable_def country_columns_def steps(2))
  note buttons = prepared_dropdown [OF steps(1) this steps(3,4)]
  from script_chart [OF assms] obtain out
    where "script wb fs = (Inr (), \<lparr>stdout = out, shown = [chart_figure raw],
        files = fs(''visual.html'' \<mapsto> chart_figure raw)\<rparr>)" .
  with buttons show ?thesis
    by (simp add: country_columns_def steps(2))
qed

theorem dropdown_of_the_script_witness:
  "\<exists>fig w. script (ex_service ex_fetched) Map.empty = (Inr (), w) \<and> shown w = [fig] \<and>
     map (\<lambda>b. (button_label b, button_vector b)) (fig_buttons fig) =
       [(''All'', replicate 14 Legendonly),
        (''Countries'', VTrue # replicate 2 Legendonly @ replicate 11 VFalse),
        (''Income Groups'', replicate 10 VFalse @ replicate 4 VTrue),
        (''Regions'', replicate 3 VFalse @ replicate 7 VTrue @ replicate 4 VFalse)]"
proof -
  have n: "length (takeWhile (\<lambda>c. c \<noteq> ''World'') (reporting ex_fetched)) = 2"
    by code_simp
  from dropdown_of_the_script [OF ex_service_fields chartable_ex_fetched, of Map.empty]
  show ?thesis
    unfolding n Let_def by simp
qed

subsection \<open>How a run ends\<close>

text \<open>C4: What becomes of a run, decided on the answer of the service.  On a table of the
  expected form whose reporting economies have distinct names, none of them
  \<^verbatim>\<open>Country_Avg_line\<close>, the script stops in \<^verbatim>\<open>df.describe()\<close> when the table has no year
  column; else in \<^verbatim>\<open>list.index\<close> when \<^verbatim>\<open>World\<close> reports no value (in particular when the table
  is empty); else in the reordering of the columns, with a \<^verbatim>\<open>KeyError\<close> that lists the groups
  that report no value, regions first; and else it returns, unless a group is listed before
  \<^verbatim>\<open>World\<close>, where the chart table has a repeated label and the model does not follow plotly.\<close>

theorem script_outcome:
  assumes "series_metadata_get wb ''SH.STA.BASS.ZS'' = Inr md"
    and "data_DataFrame wb ''SH.STA.BASS.ZS'' = Inr raw"
    and "fetched_ok raw" and "distinct (reporting raw)"
    and "''Country_Avg_line'' \<notin> set (reporting raw)"
  shows "fst (script wb fs) =
     (if tl (columns raw) = [] then Inl (ValueError ''Cannot describe a DataFrame without columns'')
      else if ''World'' \<notin> set (reporting raw) then Inl (ValueError ''is not in list'')
      else if \<not> set (region_grps @ income_grps) \<subseteq> set (reporting raw)
        then Inl (KeyError (filter (\<lambda>l. l \<notin> set (reporting raw)) (region_grps @ income_grps)))
      else if set (takeWhile (\<lambda>c. c \<noteq> ''World'') (reporting raw)) \<inter> set (region_grps @ income_grps) \<noteq> {}
        then Inl Unsupported
      else Inr ())"
proof -
  from fetched_reshaped [OF assms(3)] obtain t a r
    where t: "set_index ''Country'' raw = Inr t" and cols: "columns t = tl (columns raw)"
      and pre: "preprocess_tables t = Inr (a, r)" and r: "wf_frame r" "columns r = reporting raw"
        "\<not> list_ex (list_ex is_str) (cells r)" .
  note fetched = assms(1,2) t
  show ?thesis
  proof (cases "tl (columns raw) = []")
    case True
    with main_describe_fails [OF fetched] cols show ?thesis
      by (simp add: script_def)
  next
    case False
    with cols have "columns t \<noteq> []" by simp
    note reshaped = fetched this pre
    from r assms(4,5) have "distinct (columns r)" "''Country_Avg_line'' \<notin> set (columns r)"
      by simp_all
    from r(1,3) this show ?thesis
    proof (cases rule: chart_steps_cases)
      case no_world
      with main_prepare_fails [OF reshaped no_world(2)] False show ?thesis
        by (simp add: script_def r(2))
    next
      case no_groups
      with main_prepare_fails [OF reshaped no_groups(3)] False show ?thesis
        by (simp add: script_def r(2))
    next
      case (repeated fo df')
      with main_chart_fails [OF reshaped repeated(3,4)] False show ?thesis
        by (simp add: script_def chart_ready_def country_columns_def r(2))
    next
      case (chart fo df' fig)
      with main_run [OF reshaped chart(3,4)] False show ?thesis
        by (simp add: script_def chart_ready_def country_columns_def r(2))
    qed
  qed
qed

theorem script_outcome_witness:
  "fst (script (ex_service ex_no_groups) Map.empty) = Inl (KeyError (region_grps @ income_grps))"
proof -
  have "fetched_ok ex_no_groups" "distinct (reporting ex_no_groups)"
    "''Country_Avg_line'' \<notin> set (reporting ex_no_groups)"
    by code_simp+
  from script_outcome [OF ex_service_fields this, of Map.empty]
  have "fst (script (ex_service ex_no_groups) Map.empty) =
     (if tl (columns ex_no_groups) = [] then Inl (ValueError ''Cannot describe a DataFrame without columns'')
      else if ''World'' \<notin> set (reporting ex_no_groups) then Inl (ValueError ''is not in list'')
      else if \<not> set (region_grps @ income_grps) \<subseteq> set (reporting ex_no_groups)
        then Inl (KeyError (filter (\<lambda>l. l \<notin> set (reporting ex_no_groups)) (region_grps @ income_grps)))
      else if set (takeWhile (\<lambda>c. c \<noteq> ''World'') (reporting ex_no_groups)) \<inter> set (region_grps @ income_grps) \<noteq> {}
        then Inl Unsupported
      else Inr ())" .
  also have "\<dots> = Inl (KeyError (region_grps @ income_grps))"
    by code_simp
  finally show ?thesis .
qed

text \<open>C18: The ways the script can stop when the service hands it a rectangular table: an
  error of the service itself, no or several columns \<^verbatim>\<open>Country\<close>, a country label that is
  not a string, a table with no other column than \<^verbatim>\<open>Country\<close> (which \<^verbatim>\<open>df.describe()\<close>
  refuses), no column \<^verbatim>\<open>World\<close> after reshaping, text among the country values, or group
  columns that are missing, which the \<^verbatim>\<open>KeyError\<close> lists.  The reshaping never stops it, and
  the chart builder only on a chart table with a repeated label, where the model does not
  follow plotly (\<open>Unsupported\<close>, as for a country label that is not a string).\<close>

theorem main_error_cases:
  assumes "script wb fs = (Inl e, w')"
    and "\<And>raw. data_DataFrame wb ''SH.STA.BASS.ZS'' = Inr raw \<Longrightarrow> wf_frame raw"
  shows "series_metadata_get wb ''SH.STA.BASS.ZS'' = Inl e \<or>
     data_DataFrame wb ''SH.STA.BASS.ZS'' = Inl e \<or>
     e = KeyError [''Country''] \<or> e = ValueError ''Index data must be 1-dimensional'' \<or>
     e = Unsupported \<or> e = ValueError ''Cannot describe a DataFrame without columns'' \<or>
     e = ValueError ''is not in list'' \<or> e = TypeError \<or>
     (\<exists>ls. e = KeyError ls \<and> ls \<noteq> [] \<and> set ls \<subseteq> set (region_grps @ income_grps))"
proof -
  from assms(1) have run: "main wb \<lparr>stdout = [], shown = [], files = fs\<rparr> = (Inl e, w')"
    by (simp add: script_def)
  show ?thesis
  proof (cases wb "\<lparr>stdout = [], shown = [], files = fs\<rparr>" rule: main_cases)
    case (set_index md raw e')
    with run set_index_Inl [OF set_index(3)] show ?thesis by auto
  next
    case (prepare md raw t in_place r e')
    from wf_preprocess(2) [OF wf_set_index [OF assms(2) prepare(3)] prepare(5)] prepare(2)
    have "wf_frame r" by simp
    from prepare_chart_table_errors [OF this prepare(6)] run prepare(7) show ?thesis
      by auto
  next
    case (plot md raw t in_place r fo df' e')
    with run build_figure_Inl(1) [OF plot(7)] show ?thesis by auto
  qed (use run in auto)
qed

theorem main_error_cases_witness:
  "script (ex_service ex_raw) Map.empty =
     (Inl (KeyError [''Country'']),
      \<lparr>stdout = [heading, Text ''Metadata of SH.STA.BASS.ZS''], shown = [], files = Map.empty\<rparr>)"
proof -
  have "''Country'' \<notin> set (columns ex_raw)"
    by (simp add: columns_ex_raw)
  from main_set_index_fails [OF ex_service_fields set_index_missing [OF this]]
  have run: "script (ex_service ex_raw) Map.empty =
     (Inl (KeyError [''Country'']),
      \<lparr>stdout = [heading, Text ''Metadata of SH.STA.BASS.ZS''], shown = [], files = Map.empty\<rparr>)"
    by (simp add: script_def)
  from main_error_cases [OF run] wf_ex_raw run show ?thesis
    by (simp add: ex_service_def)
qed

text \<open>C17: The script returns whenever the service answers with a table of the expected form:
  a rectangular table whose first column \<^verbatim>\<open>Country\<close> holds the names of the economies and
  whose other columns hold numbers or missing values, in which the economies that report a
  value have distinct names, none of them \<^verbatim>\<open>Country_Avg_line\<close>, and include \<^verbatim>\<open>World\<close> and
  the eleven groups, all of them listed after \<^verbatim>\<open>World\<close>.  The figure it shows and writes has
  these lines, in this order: the
  average, the reporting economies listed before \<^verbatim>\<open>World\<close> in alphabetical order, the seven
  regions and the four income groups.\<close>

theorem main_returns:
  assumes "series_metadata_get wb ''SH.STA.BASS.ZS'' = Inr md"
    and "data_DataFrame wb ''SH.STA.BASS.ZS'' = Inr raw"
    and "chartable raw"
  shows "\<exists>fig w'. script wb fs = (Inr (), w') \<and> shown w' = [fig] \<and>
     files w' = fs(''visual.html'' \<mapsto> fig) \<and>
     map trace_name (fig_data fig) =
       ''Country_Avg_line'' # sort (takeWhile (\<lambda>c. c \<noteq> ''World'') (reporting raw)) @
       region_grps @ income_grps"
proof -
  from script_chart [OF assms] obtain out
    where "script wb fs = (Inr (), \<lparr>stdout = out, shown = [chart_figure raw],
        files = fs(''visual.html'' \<mapsto> chart_figure raw)\<rparr>)" .
  then show ?thesis
    by (simp add: chart_figure_lines [OF assms(3)] chart_table_def comp_def)
qed

theorem main_returns_witness:
  "\<exists>fig w'. script (ex_service ex_fetched) Map.empty = (Inr (), w') \<and> shown w' = [fig] \<and>
     files w' = [''visual.html'' \<mapsto> fig] \<and>
     map trace_name (fig_data fig) =
       [''Country_Avg_line'', ''Aruba'', ''Chad''] @ region_grps @ income_grps"
proof -
  from main_returns [OF ex_service_fields chartable_ex_fetched, of Map.empty]
  have "\<exists>fig w'. script (ex_service ex_fetched) Map.empty = (Inr (), w') \<and>
     shown w' = [fig] \<and> files w' = [''visual.html'' \<mapsto> fig] \<and>
     map trace_name (fig_data fig) =
       ''Country_Avg_line'' # sort (takeWhile (\<lambda>c. c \<noteq> ''World'') (reporting ex_fetched)) @
       region_grps @ income_grps" .
  moreover have "sort (takeWhile (\<lambda>c. c \<noteq> ''World'') (reporting ex_fetched)) = [''Aruba'', ''Chad'']"
    by code_simp
  ultimately show ?thesis
    by simp
qed

subsection \<open>What a run does to the console and the files\<close>

text \<open>C20: Whenever \<^verbatim>\<open>main\<close> returns, the service has answered both calls, and the console
  has gained, in this order and after what it held: the heading, the metadata, the ten items of
  the inspection of the indexed table, and the report of the reshaping of that table (five
  progress messages, the shapes before and after, the first five rows of the result).\<close>

theorem main_prints_in_order:
  assumes "main wb w = (Inr (), w')"
  shows "\<exists>md raw t in_place r.
     series_metadata_get wb ''SH.STA.BASS.ZS'' = Inr md \<and>
     data_DataFrame wb ''SH.STA.BASS.ZS'' = Inr raw \<and> set_index ''Country'' raw = Inr t \<and>
     preprocess_tables t = Inr (in_place, r) \<and>
     stdout w' = stdout w @ [heading, Text md] @ inspect_output t @ preprocess_output t r"
proof (cases wb w rule: main_cases)
  case (chart md raw t in_place r fo df' fig)
  with assms show ?thesis
    by (auto simp: main_output_def)
qed (use assms in auto)

theorem main_prints_in_order_witness:
  "\<exists>w' t in_place. main (ex_service ex_fetched) ex_world = (Inr (), w') \<and>
     preprocess_tables t = Inr (in_place, ex_years) \<and>
     stdout w' = [heading, Text ''Metadata of SH.STA.BASS.ZS''] @ inspect_output t @
       preprocess_output t ex_years \<and>
     length (stdout w') = 23"
proof -
  from ex_fetched_steps obtain t ip
    where steps: "set_index ''Country'' ex_fetched = Inr t" "preprocess_tables t = Inr (ip, ex_years)"
    by blast
  from ex_service_run [of ex_world] obtain w'
    where run: "main (ex_service ex_fetched) ex_world = (Inr (), w')"
    by blast
  from main_prints_in_order [OF run] obtain md raw t' ip' r
    where f: "series_metadata_get (ex_service ex_fetched) ''SH.STA.BASS.ZS'' = Inr md"
      "data_DataFrame (ex_service ex_fetched) ''SH.STA.BASS.ZS'' = Inr raw"
      "set_index ''Country'' raw = Inr t'" "preprocess_tables t' = Inr (ip', r)"
      "stdout w' = stdout ex_world @ [heading, Text md] @ inspect_output t' @ preprocess_output t' r"
    by blast
  from f(1,2) have "md = ''Metadata of SH.STA.BASS.ZS''" "raw = ex_fetched"
    by (simp_all add: ex_service_fields)
  moreover from this f(3,4) steps have "t' = t" "r = ex_years"
    by simp_all
  ultimately have out: "stdout w' = [heading, Text ''Metadata of SH.STA.BASS.ZS''] @
      inspect_output t @ preprocess_output t ex_years"
    using f(5) by (simp add: ex_world_def)
  have "length (stdout w') = 23"
    unfolding out by (simp add: inspect_output_def preprocess_output_def)
  with run steps(2) out show ?thesis
    by (intro exI conjI)
qed

text \<open>C19: A run of \<^verbatim>\<open>main\<close> never takes back what the console held, and touches no file
  but \<^verbatim>\<open>visual.html\<close>.  A run that stops with an error has shown no figure and written no
  file: whatever fails (the service, the indexing, the inspection, the table step), the chart
  of an earlier run stays as it was.\<close>

theorem main_failure_writes_nothing:
  assumes "main wb w = (res, w')"
  shows "take (length (stdout w)) (stdout w') = stdout w \<and>
     (\<forall>path. path \<noteq> ''visual.html'' \<longrightarrow> files w' path = files w path) \<and>
     (raises res \<longrightarrow> shown w' = shown w \<and> files w' = files w)"
  using assms by (cases wb w rule: main_cases) auto

theorem main_failure_writes_nothing_witness:
  "\<exists>w'. main ex_offline ex_world = (Inl (APIError ''no connection''), w') \<and>
     stdout w' = [heading] \<and> shown w' = [] \<and> files w' = Map.empty"
proof -
  have "series_metadata_get ex_offline ''SH.STA.BASS.ZS'' = Inl (APIError ''no connection'')"
    by (simp add: ex_offline_def)
  from main_metadata_fails [OF this, of ex_world]
  have run: "main ex_offline ex_world =
      (Inl (APIError ''no connection''), ex_world\<lparr>stdout := stdout ex_world @ [heading]\<rparr>)" .
  from main_failure_writes_nothing [OF run] run show ?thesis
    by (simp add: ex_world_def)
qed



text \<open>C16: The script implements its data flow: the effects have no influence on what is
  computed.  When the pipeline of table operations (\<open>script_figure\<close>: fetch, index, reshape,
  prepare, build) yields a figure, the script returns, having shown exactly this figure and
  written it to \<^verbatim>\<open>visual.html\<close> beside the files it found; when the pipeline yields an error,
  the script stops with this error, having shown nothing and written nothing.\<close>

theorem script_refines_the_pipeline:
  assumes "script wb fs = (res, w)"
  shows "case script_figure wb of
       Inl e \<Rightarrow> res = Inl e \<and> shown w = [] \<and> files w = fs
     | Inr fig \<Rightarrow> res = Inr () \<and> shown w = [fig] \<and> files w = fs(''visual.html'' \<mapsto> fig)"
proof -
  let ?w = "\<lparr>stdout = [], shown = [], files = fs\<rparr>"
  from assms have run: "main wb ?w = (res, w)"
    by (simp add: script_def)
  show ?thesis
    by (cases wb ?w rule: main_cases)
       (use run in \<open>auto simp: script_figure_def describe_df_def\<close>)
qed

theorem script_refines_the_pipeline_witness:
  "\<exists>w fig. script (ex_service ex_fetched) Map.empty = (Inr (), w) \<and>
     script_figure (ex_service ex_fetched) = Inr fig \<and> shown w = [fig] \<and>
     files w = [''visual.html'' \<mapsto> fig]"
proof -
  from ex_service_run [of "\<lparr>stdout = [], shown = [], files = Map.empty\<rparr>"] obtain w
    where run: "script (ex_service ex_fetched) Map.empty = (Inr (), w)"
    by (auto simp: script_def)
  from script_refines_the_pipeline [OF run] run show ?thesis
    by (cases "script_figure (ex_service ex_fetched)") auto
qed

end
